theory Spec2Isabelle
  imports Main "HOL-Library.AList"
begin

section \<open>Python values, errors and dictionaries\<close>

text \<open>
  The exceptions that the modelled code can raise, or that the host raises on its behalf:
  \<^item> \<open>KeyError\<close>: a dictionary or \<open>bpy.data.objects\<close> subscript with a missing key;
  \<^item> \<open>IndexError\<close>: a list subscript out of range;
  \<^item> \<open>ReferenceError\<close>: Blender's error for reading an attribute of an object that has
    been removed from \<open>bpy.data\<close>;
  \<^item> \<open>NotImplementedError\<close>: the explicit \<open>raise NotImplementedError\<close> of the source;
  \<^item> \<open>AttributeError\<close>: the lookup of a method that the class does not have.
\<close>

datatype py_error = KeyError | IndexError | ReferenceError | NotImplementedError | AttributeError

text \<open>
  The Python values stored in a settings dictionary or used as a colour.
  \<open>PDec m e\<close> is the decimal literal \<open>m * 10^-e\<close> as the source writes it
  (\<open>0.05\<close> is \<open>PDec 5 2\<close>).
\<close>

datatype pyval = PNone | PBool bool | PInt int | PDec int nat | PStr string | PTuple "pyval list"

text \<open>Python's truth value of a value, as tested by \<open>if v:\<close>.\<close>

fun truthy :: "pyval \<Rightarrow> bool" where
  "truthy PNone = False"
| "truthy (PBool b) = b"
| "truthy (PInt i) = (i \<noteq> 0)"
| "truthy (PDec m e) = (m \<noteq> 0)"
| "truthy (PStr s) = (s \<noteq> [])"
| "truthy (PTuple vs) = (vs \<noteq> [])"

text \<open>\<open>d[k]\<close> on a dictionary seen as a map: a missing key raises \<open>KeyError\<close>.\<close>

definition getitem :: "('k \<rightharpoonup> 'v) \<Rightarrow> 'k \<Rightarrow> py_error + 'v" where
  "getitem d k = (case d k of None \<Rightarrow> Inl KeyError | Some v \<Rightarrow> Inr v)"

text \<open>
  \<open>dict(pairs)\<close>: a dictionary whose keys are enumerated (\<open>d.keys()\<close>, \<open>d.items()\<close>) is an
  association list in insertion order. A pair whose key is already there replaces the
  value in place; a new key goes to the end.
\<close>

definition py_dict :: "('k \<times> 'v) list \<Rightarrow> ('k \<times> 'v) list" where
  "py_dict pairs = foldl (\<lambda>d kv. AList.update (fst kv) (snd kv) d) [] pairs"

text \<open>Sequencing of two steps, the first of which may raise.\<close>

definition bind_err :: "'e + 'a \<Rightarrow> ('a \<Rightarrow> 'e + 'b) \<Rightarrow> 'e + 'b" where
  "bind_err m f = (case m of Inl e \<Rightarrow> Inl e | Inr x \<Rightarrow> f x)"

text \<open>\<open>xs or ys\<close> where \<open>xs\<close> is \<open>None\<close> or a list: \<open>None\<close> and the empty list are both false.\<close>

definition py_or :: "'a list option \<Rightarrow> 'a list \<Rightarrow> 'a list" where
  "py_or xs ys = (case xs of None \<Rightarrow> ys | Some l \<Rightarrow> if l = [] then ys else l)"

text \<open>
  An optional dictionary argument \<open>d\<close> after \<open>if not d: d = {}\<close>: \<open>None\<close> and the empty
  dictionary both give the empty dictionary.
\<close>

definition dict_or_empty :: "('k \<rightharpoonup> 'v) option \<Rightarrow> ('k \<rightharpoonup> 'v)" where
  "dict_or_empty d = (case d of None \<Rightarrow> Map.empty | Some m \<Rightarrow> m)"

text \<open>
  The loop \<open>out = []; for x in xs: out.append(f(x))\<close>, where \<open>f(x)\<close> may raise: the first
  exception ends the loop.
\<close>

fun for_append :: "('k \<Rightarrow> py_error + 'd) \<Rightarrow> 'k list \<Rightarrow> py_error + 'd list" where
  "for_append f [] = Inr []"
| "for_append f (x # xs) =
     (case f x of
        Inl e \<Rightarrow> Inl e
      | Inr d \<Rightarrow> (case for_append f xs of Inl e \<Rightarrow> Inl e | Inr ds \<Rightarrow> Inr (d # ds)))"

section \<open>The Blender scene (\<open>bpy.data\<close>)\<close>

text \<open>
  \<open>bpy.data.objects\<close> is the collection of scene objects. An object has a name, a type
  (\<open>obj.type\<close>; the source tests for \<open>'MESH'\<close> and \<open>'CURVE'\<close>, every other type is
  \<open>OTHER\<close>) and an optional data block (\<open>obj.data\<close>, named here by its name in
  \<open>bpy.data.meshes\<close> or \<open>bpy.data.curves\<close>). A Python reference to an object is the
  object itself.
\<close>

datatype obj_type = MESH | CURVE | OTHER

record bobject =
  ob_name :: string
  ob_type :: obj_type
  ob_data :: "string option"

record scene =
  objects :: "bobject list"
  meshes :: "string list"
  curves :: "string list"
  collections :: "string list"

subsection \<open>\<open>compas_blender/utilities/objects.py\<close>\<close>

text \<open>
  \<open>bpy.data.meshes.remove(mesh)\<close> and \<open>bpy.data.curves.remove(curve)\<close>. Blender removes a
  data block with \<open>do_unlink=True\<close> unless told otherwise: the data block leaves its
  collection, and every object that still uses it is deleted with it.
  \<open>uses_data ty d obj\<close> says that the object is of type \<open>ty\<close> and has the data block \<open>d\<close>.
\<close>

definition uses_data :: "obj_type \<Rightarrow> string \<Rightarrow> bobject \<Rightarrow> bool" where
  "uses_data ty d obj \<longleftrightarrow> ob_type obj = ty \<and> ob_data obj = Some d"

definition remove_mesh :: "string \<Rightarrow> scene \<Rightarrow> scene" where
  "remove_mesh m sc =
     sc\<lparr>objects := filter (\<lambda>obj. \<not> uses_data MESH m obj) (objects sc),
        meshes := removeAll m (meshes sc)\<rparr>"

definition remove_curve :: "string \<Rightarrow> scene \<Rightarrow> scene" where
  "remove_curve c sc =
     sc\<lparr>objects := filter (\<lambda>obj. \<not> uses_data CURVE c obj) (objects sc),
        curves := removeAll c (curves sc)\<rparr>"

text \<open>
  \<open>delete_object(obj)\<close>. Reading \<open>obj.type\<close> of an object that is no longer in
  \<open>bpy.data.objects\<close> raises Blender's \<open>ReferenceError\<close>.
  \<open>bpy.data.objects.remove(obj)\<close> takes the object out of the collection.
\<close>

definition delete_object :: "bobject \<Rightarrow> scene \<Rightarrow> py_error + scene" where
  "delete_object obj sc =
     (if obj \<notin> set (objects sc) then Inl ReferenceError
      else if ob_type obj = MESH then
        (let mesh = ob_data obj;
             sc1 = sc\<lparr>objects := removeAll obj (objects sc)\<rparr>
         in case mesh of
              None \<Rightarrow> Inr sc1
            | Some m \<Rightarrow> Inr (remove_mesh m sc1))
      else if ob_type obj = CURVE then
        (let curve = ob_data obj;
             sc1 = sc\<lparr>objects := removeAll obj (objects sc)\<rparr>
         in case curve of
              None \<Rightarrow> Inr sc1
            | Some c \<Rightarrow> Inr (remove_curve c sc1))
      else Inr (sc\<lparr>objects := removeAll obj (objects sc)\<rparr>))"

text \<open>
  Two objects share a data block when both are meshes, or both curves, with the same
  data block; deleting one of them with \<open>delete_object\<close> deletes the other too.
  \<open>own_data objs sc\<close>: no object of \<open>objs\<close> shares its data block with another object of
  the scene.
\<close>

definition shares_data :: "bobject \<Rightarrow> bobject \<Rightarrow> bool" where
  "shares_data obj other \<longleftrightarrow>
     (ob_type obj = MESH \<or> ob_type obj = CURVE) \<and> ob_type other = ob_type obj \<and>
     ob_data obj \<noteq> None \<and> ob_data other = ob_data obj"

definition own_data :: "bobject list \<Rightarrow> scene \<Rightarrow> bool" where
  "own_data objs sc \<longleftrightarrow>
     (\<forall>obj\<in>set objs. \<forall>other\<in>set (objects sc). shares_data obj other \<longrightarrow> other = obj)"

text \<open>\<open>delete_objects(objects)\<close>: the loop over the objects, stopped by the first exception.\<close>

fun delete_objects :: "bobject list \<Rightarrow> scene \<Rightarrow> py_error + scene" where
  "delete_objects [] sc = Inr sc"
| "delete_objects (obj # objs) sc =
     (case delete_object obj sc of Inl e \<Rightarrow> Inl e | Inr sc1 \<Rightarrow> delete_objects objs sc1)"

text \<open>
  \<open>get_object_by_name(name)\<close> is \<open>bpy.data.objects[name]\<close>: the object of that name, and a
  \<open>KeyError\<close> when there is none.
\<close>

definition get_object_by_name :: "string \<Rightarrow> scene \<Rightarrow> py_error + bobject" where
  "get_object_by_name name sc =
     (case find (\<lambda>obj. ob_name obj = name) (objects sc) of
        None \<Rightarrow> Inl KeyError
      | Some obj \<Rightarrow> Inr obj)"

text \<open>\<open>get_objects_by_names(names)\<close>: the list comprehension over the names.\<close>

definition get_objects_by_names :: "string list \<Rightarrow> scene \<Rightarrow> py_error + bobject list" where
  "get_objects_by_names names sc = for_append (\<lambda>name. get_object_by_name name sc) names"

definition delete_object_by_name :: "string \<Rightarrow> scene \<Rightarrow> py_error + scene" where
  "delete_object_by_name name sc =
     (case get_object_by_name name sc of
        Inl e \<Rightarrow> Inl e
      | Inr obj \<Rightarrow> delete_object obj sc)"

definition delete_objects_by_names :: "string list \<Rightarrow> scene \<Rightarrow> py_error + scene" where
  "delete_objects_by_names names sc =
     (case get_objects_by_names names sc of
        Inl e \<Rightarrow> Inl e
      | Inr objs \<Rightarrow> delete_objects objs sc)"

section \<open>Collaborators outside the source files\<close>

text \<open>
  Modelled from the spec: \<open>compas.utilities.color_to_colordict\<close>, the colour-resolution
  helper, is not among the source files. The spec calls it a default-with-overrides
  lookup, and the docstrings of the artists say: a single colour applies to all keys,
  a dictionary assigns individual colours and missing keys get the default, and \<open>None\<close>
  gives every key the default. The result is a dictionary over exactly the given keys.
  Colours are kept as they are given (the conversion of hex strings is not modelled).
\<close>

datatype 'k color_arg = ColorNone | ColorOne pyval | ColorDict "'k \<rightharpoonup> pyval"

definition colordict :: "'k color_arg \<Rightarrow> 'k list \<Rightarrow> pyval \<Rightarrow> ('k \<rightharpoonup> pyval)" where
  "colordict color keys dflt =
     (\<lambda>k. if k \<in> set keys
          then Some (case color of
                       ColorNone \<Rightarrow> dflt
                     | ColorOne c \<Rightarrow> c
                     | ColorDict m \<Rightarrow> (case m k of None \<Rightarrow> dflt | Some c \<Rightarrow> c))
          else None)"

text \<open>
  The network of the geometry library, as far as the artist reads it: its name, the
  lists \<open>list(network.nodes())\<close> and \<open>list(network.edges())\<close>, the coordinates of a node,
  and \<open>node_str\<close>, the text that \<open>str.format\<close> gives for a node key.
\<close>

record ('n, 'p) network =
  net_name :: string
  nodes :: "'n list"
  edges :: "('n \<times> 'n) list"
  node_coordinates :: "'n \<Rightarrow> 'p"
  node_str :: "'n \<Rightarrow> string"

text \<open>The descriptors that the Blender artist hands to the host drawing functions.\<close>

record 'p bl_point =
  pt_pos :: 'p
  pt_name :: string
  pt_color :: pyval
  pt_radius :: pyval

record 'p bl_line =
  ln_start :: 'p
  ln_end :: 'p
  ln_color :: pyval
  ln_name :: string
  ln_width :: pyval

text \<open>
  The functions of \<open>compas_blender\<close> that the artist calls and that are not among the
  source files. Each works on the scene and returns the handles it made.
\<close>

record 'p blender_host =
  create_collections_from_path :: "string \<Rightarrow> scene \<Rightarrow> string list \<times> scene"
  draw_points :: "'p bl_point list \<Rightarrow> string \<Rightarrow> scene \<Rightarrow> bobject list \<times> scene"
  draw_lines :: "'p bl_line list \<Rightarrow> string \<Rightarrow> scene \<Rightarrow> bobject list \<times> scene"

section \<open>\<open>compas_blender/artists/networkartist.py\<close>\<close>

record ('n, 'p) NetworkArtist =
  priv_nodecollection :: "string option"
  priv_edgecollection :: "string option"
  priv_pathcollection :: "string option"
  priv_object_node :: "(bobject \<times> 'n) list"
  priv_object_edge :: "(bobject \<times> ('n \<times> 'n)) list"
  priv_object_path :: "(bobject \<times> pyval) list"
  network :: "('n, 'p) network"
  settings :: "string \<rightharpoonup> pyval"

definition default_settings :: "string \<rightharpoonup> pyval" where
  "default_settings =
     [''color.nodes'' \<mapsto> PTuple [PInt 255, PInt 255, PInt 255],
      ''color.edges'' \<mapsto> PTuple [PInt 0, PInt 0, PInt 0],
      ''show.nodes'' \<mapsto> PBool True,
      ''show.edges'' \<mapsto> PBool True,
      ''show.nodelabels'' \<mapsto> PBool False,
      ''show.edgelabels'' \<mapsto> PBool False]"

text \<open>
  \<open>__init__\<close>. An absent or empty \<open>settings\<close> leaves the defaults as they are, as does
  updating them with the empty dictionary.
\<close>

definition NetworkArtist_init ::
  "('n, 'p) network \<Rightarrow> (string \<rightharpoonup> pyval) option \<Rightarrow> ('n, 'p) NetworkArtist" where
  "NetworkArtist_init net new_settings =
     \<lparr>priv_nodecollection = None, priv_edgecollection = None, priv_pathcollection = None,
      priv_object_node = [], priv_object_edge = [], priv_object_path = [],
      network = net,
      settings = default_settings ++ dict_or_empty new_settings\<rparr>"

text \<open>
  The collection properties create their collection on first use: the second element
  of what \<open>create_collections_from_path\<close> returns.
\<close>

definition second_collection :: "string list \<Rightarrow> py_error + string" where
  "second_collection cs = (if length cs \<le> 1 then Inl IndexError else Inr (cs ! 1))"

definition nodecollection ::
  "'p blender_host \<Rightarrow> ('n, 'p) NetworkArtist \<Rightarrow> scene
     \<Rightarrow> py_error + (string \<times> ('n, 'p) NetworkArtist \<times> scene)" where
  "nodecollection h a sc =
     (case priv_nodecollection a of
        Some c \<Rightarrow> Inr (c, a, sc)
      | None \<Rightarrow>
          (let (cs, sc1) = create_collections_from_path h ''Network::Nodes'' sc
           in bind_err (second_collection cs)
                (\<lambda>c. Inr (c, a\<lparr>priv_nodecollection := Some c\<rparr>, sc1))))"

definition edgecollection ::
  "'p blender_host \<Rightarrow> ('n, 'p) NetworkArtist \<Rightarrow> scene
     \<Rightarrow> py_error + (string \<times> ('n, 'p) NetworkArtist \<times> scene)" where
  "edgecollection h a sc =
     (case priv_edgecollection a of
        Some c \<Rightarrow> Inr (c, a, sc)
      | None \<Rightarrow>
          (let (cs, sc1) = create_collections_from_path h ''Network::Edges'' sc
           in bind_err (second_collection cs)
                (\<lambda>c. Inr (c, a\<lparr>priv_edgecollection := Some c\<rparr>, sc1))))"

definition pathcollection ::
  "'p blender_host \<Rightarrow> ('n, 'p) NetworkArtist \<Rightarrow> scene
     \<Rightarrow> py_error + (string \<times> ('n, 'p) NetworkArtist \<times> scene)" where
  "pathcollection h a sc =
     (case priv_pathcollection a of
        Some c \<Rightarrow> Inr (c, a, sc)
      | None \<Rightarrow>
          (let (cs, sc1) = create_collections_from_path h ''Network::Paths'' sc
           in bind_err (second_collection cs)
                (\<lambda>c. Inr (c, a\<lparr>priv_pathcollection := Some c\<rparr>, sc1))))"

text \<open>
  The getters \<open>object_node\<close>, \<open>object_edge\<close> and \<open>object_path\<close> replace an empty dictionary
  by an empty dictionary and return it; the setters store \<open>dict(values)\<close>.
\<close>

definition object_node :: "('n, 'p) NetworkArtist \<Rightarrow> (bobject \<times> 'n) list" where
  "object_node a = (if priv_object_node a = [] then [] else priv_object_node a)"

definition object_edge :: "('n, 'p) NetworkArtist \<Rightarrow> (bobject \<times> ('n \<times> 'n)) list" where
  "object_edge a = (if priv_object_edge a = [] then [] else priv_object_edge a)"

definition object_path :: "('n, 'p) NetworkArtist \<Rightarrow> (bobject \<times> pyval) list" where
  "object_path a = (if priv_object_path a = [] then [] else priv_object_path a)"

definition set_object_node ::
  "(bobject \<times> 'n) list \<Rightarrow> ('n, 'p) NetworkArtist \<Rightarrow> ('n, 'p) NetworkArtist" where
  "set_object_node vals a = a\<lparr>priv_object_node := py_dict vals\<rparr>"

definition set_object_edge ::
  "(bobject \<times> ('n \<times> 'n)) list \<Rightarrow> ('n, 'p) NetworkArtist \<Rightarrow> ('n, 'p) NetworkArtist" where
  "set_object_edge vals a = a\<lparr>priv_object_edge := py_dict vals\<rparr>"

text \<open>
  \<open>clear()\<close>. \<open>tracked_objects\<close> is its list \<open>objects\<close>: the keys of the three tracking
  dictionaries.
\<close>

definition tracked_objects :: "('n, 'p) NetworkArtist \<Rightarrow> bobject list" where
  "tracked_objects a =
     map fst (object_node a) @ map fst (object_edge a) @ map fst (object_path a)"

definition clear ::
  "('n, 'p) NetworkArtist \<Rightarrow> scene \<Rightarrow> py_error + (('n, 'p) NetworkArtist \<times> scene)" where
  "clear a sc =
     (let objs = tracked_objects a
      in bind_err (delete_objects objs sc)
           (\<lambda>sc1. Inr (a\<lparr>priv_object_node := [], priv_object_edge := [],
                          priv_object_path := []\<rparr>, sc1)))"

text \<open>\<open>draw_nodes(nodes, color)\<close>; the result is the returned list, the artist and the scene.\<close>

definition draw_nodes ::
  "'p blender_host \<Rightarrow> 'n list option \<Rightarrow> 'n color_arg \<Rightarrow> ('n, 'p) NetworkArtist \<Rightarrow> scene
     \<Rightarrow> py_error + (bobject list \<times> ('n, 'p) NetworkArtist \<times> scene)" where
  "draw_nodes h nodes_arg color a sc =
     (let ns = py_or nodes_arg (nodes (network a))
      in bind_err (getitem (settings a) ''color.nodes'') (\<lambda>dflt.
         let node_color = colordict color ns dflt
         in bind_err
              (for_append (\<lambda>node. bind_err (getitem node_color node) (\<lambda>c.
                 Inr \<lparr>pt_pos = node_coordinates (network a) node,
                      pt_name = net_name (network a) @ ''.node.'' @ node_str (network a) node,
                      pt_color = c,
                      pt_radius = PDec 5 2\<rparr>)) ns) (\<lambda>points.
         bind_err (nodecollection h a sc) (\<lambda>(coll, a1, sc1).
         let (objs, sc2) = draw_points h points coll sc1
         in Inr (objs, set_object_node (zip objs ns) a1, sc2)))))"

text \<open>\<open>draw_edges(edges, color)\<close>.\<close>

definition draw_edges ::
  "'p blender_host \<Rightarrow> ('n \<times> 'n) list option \<Rightarrow> ('n \<times> 'n) color_arg
     \<Rightarrow> ('n, 'p) NetworkArtist \<Rightarrow> scene
     \<Rightarrow> py_error + (bobject list \<times> ('n, 'p) NetworkArtist \<times> scene)" where
  "draw_edges h edges_arg color a sc =
     (let es = py_or edges_arg (edges (network a))
      in bind_err (getitem (settings a) ''color.edges'') (\<lambda>dflt.
         let edge_color = colordict color es dflt
         in bind_err
              (for_append (\<lambda>edge. bind_err (getitem edge_color edge) (\<lambda>c.
                 Inr \<lparr>ln_start = node_coordinates (network a) (fst edge),
                      ln_end = node_coordinates (network a) (snd edge),
                      ln_color = c,
                      ln_name = net_name (network a) @ ''.edge.''
                                  @ node_str (network a) (fst edge) @ ''-''
                                  @ node_str (network a) (snd edge),
                      ln_width = PDec 2 2\<rparr>)) es) (\<lambda>lines.
         bind_err (edgecollection h a sc) (\<lambda>(coll, a1, sc1).
         let (objs, sc2) = draw_lines h lines coll sc1
         in Inr (objs, set_object_edge (zip objs es) a1, sc2)))))"

text \<open>
  \<open>draw(settings)\<close>. The value it returns, \<open>self.objects\<close>, is an attribute of the base
  class, which is not among the source files; the model returns the artist and the scene.
  An absent or empty \<open>settings\<close> is replaced by the empty dictionary. The two
  conditional calls are written one after the other, each on the artist and the scene
  so far.
\<close>

definition merge_settings ::
  "(string \<rightharpoonup> pyval) option \<Rightarrow> ('n, 'p) NetworkArtist \<Rightarrow> ('n, 'p) NetworkArtist" where
  "merge_settings new_settings a =
     (let s = dict_or_empty new_settings
      in a\<lparr>settings := settings a ++ s\<rparr>)"

definition show_nodes_branch ::
  "'p blender_host \<Rightarrow> ('n, 'p) NetworkArtist \<Rightarrow> scene
     \<Rightarrow> py_error + (('n, 'p) NetworkArtist \<times> scene)" where
  "show_nodes_branch h a sc =
     bind_err (getitem (settings a) ''show.nodes'') (\<lambda>show_nodes.
     if truthy show_nodes
     then bind_err (draw_nodes h None ColorNone a sc) (\<lambda>(objs, a1, sc1). Inr (a1, sc1))
     else Inr (a, sc))"

definition show_edges_branch ::
  "'p blender_host \<Rightarrow> ('n, 'p) NetworkArtist \<Rightarrow> scene
     \<Rightarrow> py_error + (('n, 'p) NetworkArtist \<times> scene)" where
  "show_edges_branch h a sc =
     bind_err (getitem (settings a) ''show.edges'') (\<lambda>show_edges.
     if truthy show_edges
     then bind_err (draw_edges h None ColorNone a sc) (\<lambda>(objs, a1, sc1). Inr (a1, sc1))
     else Inr (a, sc))"

definition draw ::
  "'p blender_host \<Rightarrow> (string \<rightharpoonup> pyval) option \<Rightarrow> ('n, 'p) NetworkArtist \<Rightarrow> scene
     \<Rightarrow> py_error + (('n, 'p) NetworkArtist \<times> scene)" where
  "draw h new_settings a sc =
     bind_err (clear a sc) (\<lambda>(a1, sc1).
     let a2 = merge_settings new_settings a1
     in bind_err (show_nodes_branch h a2 sc1) (\<lambda>(a3, sc3).
        show_edges_branch h a3 sc3))"

text \<open>A sequence of calls of the public operations of one artist.\<close>

datatype 'n net_op =
    OpDraw "(string \<rightharpoonup> pyval) option"
  | OpDrawNodes "'n list option" "'n color_arg"
  | OpDrawEdges "('n \<times> 'n) list option" "('n \<times> 'n) color_arg"
  | OpClear

fun run_op ::
  "'p blender_host \<Rightarrow> 'n net_op \<Rightarrow> ('n, 'p) NetworkArtist \<Rightarrow> scene
     \<Rightarrow> py_error + (('n, 'p) NetworkArtist \<times> scene)" where
  "run_op h (OpDraw s) a sc = draw h s a sc"
| "run_op h (OpDrawNodes ns c) a sc =
     bind_err (draw_nodes h ns c a sc) (\<lambda>(objs, a1, sc1). Inr (a1, sc1))"
| "run_op h (OpDrawEdges es c) a sc =
     bind_err (draw_edges h es c a sc) (\<lambda>(objs, a1, sc1). Inr (a1, sc1))"
| "run_op h OpClear a sc = clear a sc"

text \<open>Whether a call passes a settings dictionary that has the key \<open>k\<close>.\<close>

fun op_overrides :: "string \<Rightarrow> 'n net_op \<Rightarrow> bool" where
  "op_overrides k (OpDraw s) = (dict_or_empty s k \<noteq> None)"
| "op_overrides k (OpDrawNodes ns c) = False"
| "op_overrides k (OpDrawEdges es c) = False"
| "op_overrides k OpClear = False"

fun run_ops ::
  "'p blender_host \<Rightarrow> 'n net_op list \<Rightarrow> ('n, 'p) NetworkArtist \<Rightarrow> scene
     \<Rightarrow> py_error + (('n, 'p) NetworkArtist \<times> scene)" where
  "run_ops h [] a sc = Inr (a, sc)"
| "run_ops h (op # ops) a sc = bind_err (run_op h op a sc) (\<lambda>(a1, sc1). run_ops h ops a1 sc1)"

section \<open>\<open>compas_ghpython/artists/meshartist.py\<close>\<close>

text \<open>
  The mesh of the geometry library, as far as the artist reads it: its name, the lists
  of its vertices, faces and edges, the coordinate accessors, and the text that
  \<open>str\<close> and \<open>str.format\<close> give for a vertex key and a face key.
\<close>

record ('v, 'f, 'p) mesh =
  mesh_name :: string
  vertices :: "'v list"
  faces :: "'f list"
  mesh_edges :: "('v \<times> 'v) list"
  vertex_coordinates :: "'v \<Rightarrow> 'p"
  face_coordinates :: "'f \<Rightarrow> 'p list"
  edge_coordinates :: "'v \<Rightarrow> 'v \<Rightarrow> 'p \<times> 'p"
  face_center :: "'f \<Rightarrow> 'p"
  edge_midpoint :: "'v \<Rightarrow> 'v \<Rightarrow> 'p"
  vertex_str :: "'v \<Rightarrow> string"
  face_str :: "'f \<Rightarrow> string"

record 'p gh_point =
  gp_pos :: 'p
  gp_name :: string
  gp_color :: pyval

record 'p gh_face =
  gf_points :: "'p list"
  gf_name :: string
  gf_color :: pyval

record 'p gh_line =
  gl_start :: 'p
  gl_end :: 'p
  gl_color :: pyval
  gl_name :: string

record 'p gh_label =
  lb_pos :: 'p
  lb_name :: string
  lb_color :: pyval
  lb_text :: string

text \<open>
  The functions of \<open>compas_ghpython\<close> and of \<open>Rhino.Geometry\<close> that the artist calls;
  they return geometry (type \<open>'g\<close>) and keep no state. \<open>rhino_mesh_new\<close> is
  \<open>Rhino.Geometry.Mesh()\<close> and \<open>rhino_mesh_append joined m\<close> is the mesh \<open>joined\<close> after
  \<open>joined.Append(m)\<close>.
\<close>

record ('p, 'g) gh_host =
  gh_draw_points :: "'p gh_point list \<Rightarrow> 'g list"
  gh_draw_faces :: "'p gh_face list \<Rightarrow> 'g list"
  gh_draw_lines :: "'p gh_line list \<Rightarrow> 'g list"
  gh_draw_labels :: "'p gh_label list \<Rightarrow> 'g list"
  rhino_mesh_new :: 'g
  rhino_mesh_append :: "'g \<Rightarrow> 'g \<Rightarrow> 'g"

record ('v, 'f, 'p) MeshArtist =
  ma_mesh :: "('v, 'f, 'p) mesh"
  ma_settings :: "string \<rightharpoonup> pyval"

definition MeshArtist_init :: "('v, 'f, 'p) mesh \<Rightarrow> ('v, 'f, 'p) MeshArtist" where
  "MeshArtist_init m =
     \<lparr>ma_mesh = m,
      ma_settings =
        [''color.vertices'' \<mapsto> PTuple [PInt 255, PInt 255, PInt 255],
         ''color.edges'' \<mapsto> PTuple [PInt 0, PInt 0, PInt 0],
         ''color.faces'' \<mapsto> PTuple [PInt 210, PInt 210, PInt 210],
         ''show.vertices'' \<mapsto> PBool True,
         ''show.edges'' \<mapsto> PBool True,
         ''show.faces'' \<mapsto> PBool True,
         ''show.vertexlabels'' \<mapsto> PBool False,
         ''show.facelabels'' \<mapsto> PBool False,
         ''show.edgelabels'' \<mapsto> PBool False,
         ''join_faces'' \<mapsto> PBool True]\<rparr>"

definition draw_vertices ::
  "('p, 'g) gh_host \<Rightarrow> 'v list option \<Rightarrow> 'v color_arg \<Rightarrow> ('v, 'f, 'p) MeshArtist
     \<Rightarrow> py_error + 'g list" where
  "draw_vertices h keys color a =
     (let vs = py_or keys (vertices (ma_mesh a))
      in bind_err (getitem (ma_settings a) ''color.vertices'') (\<lambda>dflt.
         let cd = colordict color vs dflt
         in bind_err
              (for_append (\<lambda>vertex. bind_err (getitem cd vertex) (\<lambda>c.
                 Inr \<lparr>gp_pos = vertex_coordinates (ma_mesh a) vertex,
                      gp_name = mesh_name (ma_mesh a) @ ''.vertex.''
                                  @ vertex_str (ma_mesh a) vertex,
                      gp_color = c\<rparr>)) vs) (\<lambda>points.
         Inr (gh_draw_points h points))))"

definition draw_faces ::
  "('p, 'g) gh_host \<Rightarrow> 'f list option \<Rightarrow> 'f color_arg \<Rightarrow> pyval \<Rightarrow> ('v, 'f, 'p) MeshArtist
     \<Rightarrow> py_error + 'g list" where
  "draw_faces h keys color join_faces a =
     (let ks = py_or keys (faces (ma_mesh a))
      in bind_err (getitem (ma_settings a) ''color.faces'') (\<lambda>dflt.
         let cd = colordict color ks dflt
         in bind_err
              (for_append (\<lambda>fkey. bind_err (getitem cd fkey) (\<lambda>c.
                 Inr \<lparr>gf_points = face_coordinates (ma_mesh a) fkey,
                      gf_name = mesh_name (ma_mesh a) @ ''.face.'' @ face_str (ma_mesh a) fkey,
                      gf_color = c\<rparr>)) ks) (\<lambda>fs.
         let ms = gh_draw_faces h fs
         in if \<not> truthy join_faces then Inr ms
            else Inr [foldl (rhino_mesh_append h) (rhino_mesh_new h) ms])))"

definition mesh_draw_edges ::
  "('p, 'g) gh_host \<Rightarrow> ('v \<times> 'v) list option \<Rightarrow> ('v \<times> 'v) color_arg
     \<Rightarrow> ('v, 'f, 'p) MeshArtist \<Rightarrow> py_error + 'g list" where
  "mesh_draw_edges h keys color a =
     (let es = py_or keys (mesh_edges (ma_mesh a))
      in bind_err (getitem (ma_settings a) ''color.edges'') (\<lambda>dflt.
         let cd = colordict color es dflt
         in bind_err
              (for_append (\<lambda>edge.
                 let (start, stop) = edge_coordinates (ma_mesh a) (fst edge) (snd edge)
                 in bind_err (getitem cd edge) (\<lambda>c.
                 Inr \<lparr>gl_start = start,
                      gl_end = stop,
                      gl_color = c,
                      gl_name = mesh_name (ma_mesh a) @ ''.edge.''
                                  @ vertex_str (ma_mesh a) (fst edge) @ ''-''
                                  @ vertex_str (ma_mesh a) (snd edge)\<rparr>)) es) (\<lambda>lines.
         Inr (gh_draw_lines h lines))))"

text \<open>
  The \<open>text\<close> argument of the label methods: \<open>None\<close>, a dictionary (\<open>TextDict pairs\<close> is
  the dictionary \<open>dict(pairs)\<close>), or any other value.
\<close>

datatype 'k text_arg = TextNone | TextDict "('k \<times> string) list" | TextOther pyval

definition draw_vertexlabels ::
  "('p, 'g) gh_host \<Rightarrow> 'v text_arg \<Rightarrow> 'v color_arg \<Rightarrow> ('v, 'f, 'p) MeshArtist
     \<Rightarrow> py_error + 'g list" where
  "draw_vertexlabels h text color a =
     bind_err (case text of
                 TextNone \<Rightarrow>
                   Inr (py_dict (map (\<lambda>key. (key, vertex_str (ma_mesh a) key))
                                     (vertices (ma_mesh a))))
               | TextDict pairs \<Rightarrow> Inr (py_dict pairs)
               | TextOther v \<Rightarrow> Inl NotImplementedError) (\<lambda>textdict.
     bind_err (getitem (ma_settings a) ''color.vertices'') (\<lambda>dflt.
     let cd = colordict color (map fst textdict) dflt
     in bind_err
          (for_append (\<lambda>(key, t).
             bind_err (getitem cd key) (\<lambda>c.
             bind_err (getitem (map_of textdict) key) (\<lambda>txt.
             Inr \<lparr>lb_pos = vertex_coordinates (ma_mesh a) key,
                  lb_name = mesh_name (ma_mesh a) @ ''.vertexlabel.''
                              @ vertex_str (ma_mesh a) key,
                  lb_color = c,
                  lb_text = txt\<rparr>))) textdict) (\<lambda>labels.
     Inr (gh_draw_labels h labels))))"

definition draw_facelabels ::
  "('p, 'g) gh_host \<Rightarrow> 'f text_arg \<Rightarrow> 'f color_arg \<Rightarrow> ('v, 'f, 'p) MeshArtist
     \<Rightarrow> py_error + 'g list" where
  "draw_facelabels h text color a =
     bind_err (case text of
                 TextNone \<Rightarrow>
                   Inr (py_dict (map (\<lambda>key. (key, face_str (ma_mesh a) key))
                                     (faces (ma_mesh a))))
               | TextDict pairs \<Rightarrow> Inr (py_dict pairs)
               | TextOther v \<Rightarrow> Inl NotImplementedError) (\<lambda>textdict.
     bind_err (getitem (ma_settings a) ''color.faces'') (\<lambda>dflt.
     let cd = colordict color (map fst textdict) dflt
     in bind_err
          (for_append (\<lambda>(key, t).
             bind_err (getitem cd key) (\<lambda>c.
             bind_err (getitem (map_of textdict) key) (\<lambda>txt.
             Inr \<lparr>lb_pos = face_center (ma_mesh a) key,
                  lb_name = mesh_name (ma_mesh a) @ ''.facelabel.''
                              @ face_str (ma_mesh a) key,
                  lb_color = c,
                  lb_text = txt\<rparr>))) textdict) (\<lambda>labels.
     Inr (gh_draw_labels h labels))))"

definition draw_edgelabels ::
  "('p, 'g) gh_host \<Rightarrow> ('v \<times> 'v) text_arg \<Rightarrow> ('v \<times> 'v) color_arg
     \<Rightarrow> ('v, 'f, 'p) MeshArtist \<Rightarrow> py_error + 'g list" where
  "draw_edgelabels h text color a =
     bind_err (case text of
                 TextNone \<Rightarrow>
                   Inr (py_dict (map (\<lambda>(u, v). ((u, v), vertex_str (ma_mesh a) u @ ''-''
                                                          @ vertex_str (ma_mesh a) v))
                                     (mesh_edges (ma_mesh a))))
               | TextDict pairs \<Rightarrow> Inr (py_dict pairs)
               | TextOther v \<Rightarrow> Inl NotImplementedError) (\<lambda>textdict.
     bind_err (getitem (ma_settings a) ''color.edges'') (\<lambda>dflt.
     let cd = colordict color (map fst textdict) dflt
     in bind_err
          (for_append (\<lambda>((u, v), t).
             bind_err (getitem cd (u, v)) (\<lambda>c.
             bind_err (getitem (map_of textdict) (u, v)) (\<lambda>txt.
             Inr \<lparr>lb_pos = edge_midpoint (ma_mesh a) u v,
                  lb_name = mesh_name (ma_mesh a) @ ''.edgelabel.''
                              @ vertex_str (ma_mesh a) u @ ''-'' @ vertex_str (ma_mesh a) v,
                  lb_color = c,
                  lb_text = txt\<rparr>))) textdict) (\<lambda>labels.
     Inr (gh_draw_labels h labels))))"

text \<open>
  \<open>draw()\<close>. The class has no method \<open>draw_nodes\<close> and no method \<open>draw_nodelabels\<close>, so
  the call \<open>self.draw_nodes()\<close> of the first branch is an \<open>AttributeError\<close>. The three
  branches are written one after the other, each on the geometry list so far.
\<close>

definition draw_vertices_branch ::
  "('v, 'f, 'p) MeshArtist \<Rightarrow> 'g list option list \<Rightarrow> py_error + 'g list option list" where
  "draw_vertices_branch a geometry =
     bind_err (getitem (ma_settings a) ''show.vertices'') (\<lambda>show_vertices.
     if truthy show_vertices then Inl AttributeError else Inr geometry)"

definition draw_faces_branch ::
  "('p, 'g) gh_host \<Rightarrow> ('v, 'f, 'p) MeshArtist \<Rightarrow> 'g list option list
     \<Rightarrow> py_error + 'g list option list" where
  "draw_faces_branch h a geometry =
     bind_err (getitem (ma_settings a) ''show.faces'') (\<lambda>show_faces.
     if truthy show_faces then
       bind_err (getitem (ma_settings a) ''join_faces'') (\<lambda>join_faces.
       bind_err (draw_faces h None ColorNone join_faces a) (\<lambda>g2.
       let geometry2 = geometry[2 := Some g2]
       in bind_err (getitem (ma_settings a) ''show.facelabels'') (\<lambda>show_facelabels.
          if truthy show_facelabels then
            bind_err (draw_facelabels h TextNone ColorNone a) (\<lambda>g3.
            Inr (geometry2[3 := Some g3]))
          else Inr geometry2)))
     else Inr geometry)"

definition draw_edges_branch ::
  "('p, 'g) gh_host \<Rightarrow> ('v, 'f, 'p) MeshArtist \<Rightarrow> 'g list option list
     \<Rightarrow> py_error + 'g list option list" where
  "draw_edges_branch h a geometry =
     bind_err (getitem (ma_settings a) ''show.edges'') (\<lambda>show_edges.
     if truthy show_edges then
       bind_err (mesh_draw_edges h None ColorNone a) (\<lambda>g4.
       let geometry4 = geometry[4 := Some g4]
       in bind_err (getitem (ma_settings a) ''show.edgelabels'') (\<lambda>show_edgelabels.
          if truthy show_edgelabels then
            bind_err (draw_edgelabels h TextNone ColorNone a) (\<lambda>g5.
            Inr (geometry4[5 := Some g5]))
          else Inr geometry4))
     else Inr geometry)"

definition MeshArtist_draw ::
  "('p, 'g) gh_host \<Rightarrow> ('v, 'f, 'p) MeshArtist \<Rightarrow> py_error + 'g list option list" where
  "MeshArtist_draw h a =
     (let geometry = [None, None, None, None, None, None]
      in bind_err (draw_vertices_branch a geometry) (\<lambda>geometry1.
         bind_err (draw_faces_branch h a geometry1) (\<lambda>geometry3.
         draw_edges_branch h a geometry3)))"

section \<open>\<open>compas_rhino/artists/frameartist.py\<close>\<close>

text \<open>
  Modelled from the spec: the classes \<open>Point\<close>, \<open>Vector\<close> and \<open>Frame\<close> of the geometry
  library are not among the source files. A point and a vector are triples of numbers;
  a point plus a vector is the componentwise sum, \<open>v.scaled(n)\<close> multiplies each
  component by \<open>n\<close>, and \<open>list(p)\<close> is the list of the three components. The numbers are of
  any type with an addition and a multiplication.
\<close>

type_synonym 'a vec3 = "'a \<times> 'a \<times> 'a"

record 'a frame =
  fr_point :: "'a vec3"
  xaxis :: "'a vec3"
  yaxis :: "'a vec3"
  zaxis :: "'a vec3"

fun point_add :: "('a::plus) vec3 \<Rightarrow> 'a vec3 \<Rightarrow> 'a vec3" where
  "point_add (x, y, z) (vx, vy, vz) = (x + vx, y + vy, z + vz)"

fun vector_scaled :: "('a::times) vec3 \<Rightarrow> 'a \<Rightarrow> 'a vec3" where
  "vector_scaled (x, y, z) n = (x * n, y * n, z * n)"

fun list_of_vec3 :: "'a vec3 \<Rightarrow> 'a list" where
  "list_of_vec3 (x, y, z) = [x, y, z]"

record 'a rh_point =
  rp_pos :: "'a list"
  rp_color :: pyval

record 'a rh_line =
  rl_start :: "'a list"
  rl_end :: "'a list"
  rl_color :: pyval
  rl_arrow :: string

text \<open>
  The drawing functions of \<open>compas_rhino\<close>, with their arguments \<open>layer\<close>, \<open>clear\<close> and
  \<open>redraw\<close>; they work on the Rhino document (type \<open>'doc\<close>) and return GUIDs.
\<close>

record ('a, 'guid, 'doc) rhino_host =
  rh_draw_points :: "'a rh_point list \<Rightarrow> string option \<Rightarrow> bool \<Rightarrow> bool \<Rightarrow> 'doc
                       \<Rightarrow> 'guid list \<times> 'doc"
  rh_draw_lines :: "'a rh_line list \<Rightarrow> string option \<Rightarrow> bool \<Rightarrow> bool \<Rightarrow> 'doc
                      \<Rightarrow> 'guid list \<times> 'doc"

text \<open>
  The artist; \<open>primitive\<close>, \<open>layer\<close>, \<open>fa_name\<close> and \<open>guids\<close> are the attributes of the base
  class \<open>PrimitiveArtist\<close>.
\<close>

record ('a, 'guid) FrameArtist =
  primitive :: "'a frame"
  layer :: "string option"
  fa_name :: "string option"
  guids :: "'guid list"
  scale :: 'a
  color_origin :: pyval
  color_xaxis :: pyval
  color_yaxis :: pyval
  color_zaxis :: pyval

definition FrameArtist_init ::
  "'a frame \<Rightarrow> string option \<Rightarrow> string option \<Rightarrow> 'a \<Rightarrow> ('a, 'guid) FrameArtist" where
  "FrameArtist_init fr lay nm sc =
     \<lparr>primitive = fr, layer = lay, fa_name = nm, guids = [],
      scale = sc,
      color_origin = PTuple [PInt 0, PInt 0, PInt 0],
      color_xaxis = PTuple [PInt 255, PInt 0, PInt 0],
      color_yaxis = PTuple [PInt 0, PInt 255, PInt 0],
      color_zaxis = PTuple [PInt 0, PInt 0, PInt 255]\<rparr>"

definition FrameArtist_draw ::
  "('a::{plus,times}, 'guid, 'doc) rhino_host \<Rightarrow> ('a, 'guid) FrameArtist \<Rightarrow> 'doc
     \<Rightarrow> 'guid list \<times> ('a, 'guid) FrameArtist \<times> 'doc" where
  "FrameArtist_draw h a doc =
     (let origin = list_of_vec3 (fr_point (primitive a));
          x = list_of_vec3 (point_add (fr_point (primitive a))
                              (vector_scaled (xaxis (primitive a)) (scale a)));
          y = list_of_vec3 (point_add (fr_point (primitive a))
                              (vector_scaled (yaxis (primitive a)) (scale a)));
          z = list_of_vec3 (point_add (fr_point (primitive a))
                              (vector_scaled (zaxis (primitive a)) (scale a)));
          points = [\<lparr>rp_pos = origin, rp_color = color_origin a\<rparr>];
          lines = [\<lparr>rl_start = origin, rl_end = x, rl_color = color_xaxis a, rl_arrow = ''end''\<rparr>,
                   \<lparr>rl_start = origin, rl_end = y, rl_color = color_yaxis a, rl_arrow = ''end''\<rparr>,
                   \<lparr>rl_start = origin, rl_end = z, rl_color = color_zaxis a, rl_arrow = ''end''\<rparr>];
          (guids1, doc1) = rh_draw_points h points (layer a) False False doc;
          (guids2, doc2) = rh_draw_lines h lines (layer a) False False doc1;
          gs = guids1 @ guids2
      in (gs, a\<lparr>guids := gs\<rparr>, doc2))"

text \<open>\<open>draw_collection\<close>, a static method: its body is \<open>raise NotImplementedError\<close>.\<close>

definition draw_collection ::
  "'a frame list \<Rightarrow> string list option \<Rightarrow> pyval \<Rightarrow> string option \<Rightarrow> bool \<Rightarrow> bool
     \<Rightarrow> string option \<Rightarrow> py_error + 'guid list" where
  "draw_collection collection names colors lay clr add_to_group group_name =
     Inl NotImplementedError"

section \<open>The host functions\<close>

text \<open>
  What the artist needs from the Blender host, for the collection paths it uses and for
  any list of descriptors. A host function removes no scene object, and every object
  that it adds has a data block that no other object of the scene uses
  (\<open>host_step_ok\<close>); \<open>create_collections_from_path\<close> returns at least two collections;
  the handles that a drawing function returns are objects of the scene that were not
  there before.
\<close>

definition host_step_ok :: "scene \<Rightarrow> scene \<Rightarrow> bool" where
  "host_step_ok sc sc' \<longleftrightarrow>
     set (objects sc) \<subseteq> set (objects sc') \<and>
     (\<forall>obj\<in>set (objects sc') - set (objects sc). \<forall>other\<in>set (objects sc').
        shares_data obj other \<longrightarrow> other = obj)"

definition host_ok :: "'p blender_host \<Rightarrow> bool" where
  "host_ok h \<longleftrightarrow>
     (\<forall>path sc. path \<in> {''Network::Nodes'', ''Network::Edges'', ''Network::Paths''} \<longrightarrow>
        2 \<le> length (fst (create_collections_from_path h path sc)) \<and>
        host_step_ok sc (snd (create_collections_from_path h path sc))) \<and>
     (\<forall>pts coll sc.
        host_step_ok sc (snd (draw_points h pts coll sc)) \<and>
        set (fst (draw_points h pts coll sc))
          \<subseteq> set (objects (snd (draw_points h pts coll sc))) - set (objects sc)) \<and>
     (\<forall>lns coll sc.
        host_step_ok sc (snd (draw_lines h lns coll sc)) \<and>
        set (fst (draw_lines h lns coll sc))
          \<subseteq> set (objects (snd (draw_lines h lns coll sc))) - set (objects sc))"

text \<open>
  The state in which the artist works: the tracked objects are pairwise different
  objects of the scene, none of them shares its data block with another object of the
  scene, and the settings have the four keys that the artist reads.
\<close>

definition artist_ok :: "('n, 'p) NetworkArtist \<Rightarrow> scene \<Rightarrow> bool" where
  "artist_ok a sc \<longleftrightarrow>
     distinct (tracked_objects a) \<and>
     set (tracked_objects a) \<subseteq> set (objects sc) \<and>
     own_data (tracked_objects a) sc \<and>
     {''color.nodes'', ''color.edges'', ''show.nodes'', ''show.edges''} \<subseteq> dom (settings a)"

text \<open>
  Modelled from the spec: \<open>compas_blender.draw_points\<close>, \<open>draw_lines\<close> and
  \<open>create_collections_from_path\<close> are not among the source files. The spec describes a
  host drawing function as taking the list of descriptors and returning the handles of
  the host scene objects it created, one entity of the scene graph per descriptor, and
  the host as managing named collections. \<open>model_host\<close> does that: each descriptor
  becomes one new object with its own data block, both under the descriptor's name
  made unique among the names of the objects and data blocks of the scene, and a path
  \<open>A::B\<close> gives the collections \<open>A\<close> and \<open>B\<close>.
\<close>

fun data_names :: "bobject list \<Rightarrow> string list" where
  "data_names [] = []"
| "data_names (obj # objs) =
     (case ob_data obj of None \<Rightarrow> data_names objs | Some d \<Rightarrow> d # data_names objs)"

definition used_names :: "scene \<Rightarrow> string list" where
  "used_names sc =
     map ob_name (objects sc) @ data_names (objects sc) @ meshes sc @ curves sc"

definition longest_name :: "string list \<Rightarrow> nat" where
  "longest_name names = foldr (\<lambda>nm n. max (length nm) n) names 0"

definition unique_name :: "string \<Rightarrow> string list \<Rightarrow> string" where
  "unique_name nm names =
     (if nm \<in> set names then nm @ replicate (Suc (longest_name names)) CHR ''.''
      else nm)"

definition add_object :: "obj_type \<Rightarrow> string \<Rightarrow> scene \<Rightarrow> bobject \<times> scene" where
  "add_object ty nm sc =
     (let nm1 = unique_name nm (used_names sc);
          obj = \<lparr>ob_name = nm1, ob_type = ty, ob_data = Some nm1\<rparr>;
          sc1 = sc\<lparr>objects := objects sc @ [obj]\<rparr>
      in (obj, if ty = MESH then sc1\<lparr>meshes := meshes sc1 @ [nm1]\<rparr>
               else if ty = CURVE then sc1\<lparr>curves := curves sc1 @ [nm1]\<rparr>
               else sc1))"

fun add_objects :: "obj_type \<Rightarrow> string list \<Rightarrow> scene \<Rightarrow> bobject list \<times> scene" where
  "add_objects ty [] sc = ([], sc)"
| "add_objects ty (nm # nms) sc =
     (let (obj, sc1) = add_object ty nm sc;
          (objs, sc2) = add_objects ty nms sc1
      in (obj # objs, sc2))"

fun split_path :: "string \<Rightarrow> string \<Rightarrow> string list" where
  "split_path acc [] = [rev acc]"
| "split_path acc [c] = [rev (c # acc)]"
| "split_path acc (c # d # cs) =
     (if c = CHR '':'' \<and> d = CHR '':'' then rev acc # split_path [] cs
      else split_path (c # acc) (d # cs))"

definition model_host :: "'p blender_host" where
  "model_host =
     \<lparr>create_collections_from_path =
        (\<lambda>path sc. (split_path [] path,
                     sc\<lparr>collections := collections sc
                          @ filter (\<lambda>c. c \<notin> set (collections sc)) (split_path [] path)\<rparr>)),
      draw_points = (\<lambda>pts coll sc. add_objects MESH (map pt_name pts) sc),
      draw_lines = (\<lambda>lns coll sc. add_objects CURVE (map ln_name lns) sc)\<rparr>"

text \<open>
  Modelled from the spec: \<open>compas_rhino.draw_points\<close> and \<open>draw_lines\<close> are not among the
  source files. \<open>model_rhino_host\<close> keeps the number of objects of the document as its
  state and returns one new GUID, the next numbers, per descriptor.
\<close>

definition model_rhino_host :: "('a, nat, nat) rhino_host" where
  "model_rhino_host =
     \<lparr>rh_draw_points = (\<lambda>pts lay clr redraw doc.
        (map (\<lambda>i. doc + i) [0..<length pts], doc + length pts)),
      rh_draw_lines = (\<lambda>lns lay clr redraw doc.
        (map (\<lambda>i. doc + i) [0..<length lns], doc + length lns))\<rparr>"

text \<open>
  Modelled from the spec: the drawing functions of \<open>compas_ghpython\<close> are not among the
  source files. \<open>model_gh_host\<close> returns one piece of geometry per descriptor, written as
  the descriptor's name (for a label, its text); joining meshes concatenates them.
\<close>

definition model_gh_host :: "('p, string) gh_host" where
  "model_gh_host =
     \<lparr>gh_draw_points = map gp_name,
      gh_draw_faces = map gf_name,
      gh_draw_lines = map gl_name,
      gh_draw_labels = map lb_text,
      rhino_mesh_new = [],
      rhino_mesh_append = (\<lambda>joined m. joined @ m)\<rparr>"

section \<open>Example data\<close>

text \<open>A network of two nodes and one edge, and a mesh of one triangle, keyed by strings.\<close>

definition example_network :: "(string, int vec3) network" where
  "example_network =
     \<lparr>net_name = ''Network'',
      nodes = [''a'', ''b''],
      edges = [(''a'', ''b'')],
      node_coordinates = (\<lambda>n. if n = ''a'' then (0, 0, 0) else (1, 0, 0)),
      node_str = (\<lambda>n. n)\<rparr>"

definition cube_scene :: scene where
  "cube_scene =
     \<lparr>objects = [\<lparr>ob_name = ''Cube'', ob_type = MESH, ob_data = Some ''Cube''\<rparr>,
                 \<lparr>ob_name = ''Light'', ob_type = OTHER, ob_data = None\<rparr>],
      meshes = [''Cube''], curves = [], collections = []\<rparr>"

definition empty_scene :: scene where
  "empty_scene = \<lparr>objects = [], meshes = [], curves = [], collections = []\<rparr>"

definition example_mesh :: "(string, string, int vec3) mesh" where
  "example_mesh =
     \<lparr>mesh_name = ''Mesh'',
      vertices = [''a'', ''b'', ''c''],
      faces = [''f''],
      mesh_edges = [(''a'', ''b''), (''b'', ''c''), (''c'', ''a'')],
      vertex_coordinates =
        (\<lambda>v. if v = ''a'' then (0, 0, 0) else if v = ''b'' then (1, 0, 0) else (0, 1, 0)),
      face_coordinates = (\<lambda>f. [(0, 0, 0), (1, 0, 0), (0, 1, 0)]),
      edge_coordinates =
        (\<lambda>u v. ((if u = ''a'' then (0, 0, 0) else if u = ''b'' then (1, 0, 0) else (0, 1, 0)),
                 (if v = ''a'' then (0, 0, 0) else if v = ''b'' then (1, 0, 0) else (0, 1, 0)))),
      face_center = (\<lambda>f. (0, 0, 0)),
      edge_midpoint = (\<lambda>u v. (0, 0, 0)),
      vertex_str = (\<lambda>v. v),
      face_str = (\<lambda>f. f)\<rparr>"

definition example_frame :: "int frame" where
  "example_frame =
     \<lparr>fr_point = (1, 2, 3), xaxis = (1, 0, 0), yaxis = (0, 1, 0), zaxis = (0, 0, 1)\<rparr>"

definition example_artist :: "(string, int vec3) NetworkArtist" where
  "example_artist = NetworkArtist_init example_network None"

definition node_a :: bobject where
  "node_a = \<lparr>ob_name = ''Network.node.a'', ob_type = MESH, ob_data = Some ''Network.node.a''\<rparr>"

definition node_b :: bobject where
  "node_b = \<lparr>ob_name = ''Network.node.b'', ob_type = MESH, ob_data = Some ''Network.node.b''\<rparr>"

definition example_override :: "string \<rightharpoonup> pyval" where
  "example_override = [''show.edges'' \<mapsto> PBool False]"

text \<open>The example artist and the scene after \<open>draw(settings={'show.edges': False})\<close>.\<close>

definition example_drawn_artist :: "(string, int vec3) NetworkArtist" where
  "example_drawn_artist =
     example_artist\<lparr>priv_nodecollection := Some ''Nodes'',
                    priv_object_node := [(node_a, ''a''), (node_b, ''b'')],
                    settings := settings example_artist ++ example_override\<rparr>"

definition example_drawn_scene :: scene where
  "example_drawn_scene =
     \<lparr>objects = [node_a, node_b], meshes = [''Network.node.a'', ''Network.node.b''],
      curves = [], collections = [''Network'', ''Nodes'']\<rparr>"

text \<open>An artist that tracks an object which is not in the scene.\<close>

definition stale_artist :: "(string, int vec3) NetworkArtist" where
  "stale_artist = example_artist\<lparr>priv_object_node := [(node_a, ''a'')]\<rparr>"

definition example_mesh_artist :: "(string, string, int vec3) MeshArtist" where
  "example_mesh_artist = MeshArtist_init example_mesh"

text \<open>The mesh artist after \<open>artist.settings['show.vertices'] = False\<close>.\<close>

definition hidden_vertices_artist :: "(string, string, int vec3) MeshArtist" where
  "hidden_vertices_artist =
     example_mesh_artist\<lparr>ma_settings :=
       (ma_settings example_mesh_artist)(''show.vertices'' \<mapsto> PBool False)\<rparr>"

text \<open>
  The example artist and the scene after two calls of \<open>draw_nodes()\<close>: the host made the
  names of the second pair of objects unique.
\<close>

definition node_a2 :: bobject where
  "node_a2 = \<lparr>ob_name = ''Network.node.a...............'', ob_type = MESH,
              ob_data = Some ''Network.node.a...............''\<rparr>"

definition node_b2 :: bobject where
  "node_b2 = \<lparr>ob_name = ''Network.node.b..............................'', ob_type = MESH,
              ob_data = Some ''Network.node.b..............................''\<rparr>"

definition example_twice_artist :: "(string, int vec3) NetworkArtist" where
  "example_twice_artist =
     example_artist\<lparr>priv_nodecollection := Some ''Nodes'',
                    priv_object_node := [(node_a2, ''a''), (node_b2, ''b'')]\<rparr>"

definition example_twice_scene :: scene where
  "example_twice_scene =
     \<lparr>objects = [node_a, node_b, node_a2, node_b2],
      meshes = [''Network.node.a'', ''Network.node.b'', ''Network.node.a...............'',
                ''Network.node.b..............................''],
      curves = [], collections = [''Network'', ''Nodes'']\<rparr>"

text \<open>
  A scene in which the object \<open>node_a\<close> has a linked duplicate, an object on the same
  data block, and a scene with a light beside the two drawn nodes.
\<close>

definition node_linked :: bobject where
  "node_linked = \<lparr>ob_name = ''Linked'', ob_type = MESH, ob_data = Some ''Network.node.a''\<rparr>"

definition linked_scene :: scene where
  "linked_scene =
     \<lparr>objects = [node_a, node_linked], meshes = [''Network.node.a''],
      curves = [], collections = []\<rparr>"



text \<open>
  A host that draws every point as a linked duplicate: \<open>linking_host\<close> is \<open>model_host\<close>,
  but the objects of the points all use the one data block \<open>Sphere\<close>.
\<close>

definition linking_host :: "'p blender_host" where
  "linking_host =
     model_host\<lparr>draw_points := (\<lambda>pts coll sc.
       let objs = map (\<lambda>p. \<lparr>ob_name = pt_name p, ob_type = MESH, ob_data = Some ''Sphere''\<rparr>) pts
       in (objs, sc\<lparr>objects := objects sc @ objs, meshes := meshes sc @ [''Sphere'']\<rparr>))\<rparr>"


text \<open>The curve object that the model host makes for the edge of the example network.\<close>

definition edge_ab :: bobject where
  "edge_ab = \<lparr>ob_name = ''Network.edge.a-b'', ob_type = CURVE, ob_data = Some ''Network.edge.a-b''\<rparr>"

definition example_frame_artist :: "(int, nat) FrameArtist" where
  "example_frame_artist = FrameArtist_init example_frame None None 2"

section \<open>Basic facts\<close>

lemma bind_err_Inr [simp]: "bind_err (Inr x) f = f x"
  by (simp add: bind_err_def)

lemma bind_err_Inl [simp]: "bind_err (Inl e) f = Inl e"
  by (simp add: bind_err_def)

lemma for_append_total:
  "(\<And>x. x \<in> set xs \<Longrightarrow> f x = Inr (g x)) \<Longrightarrow> for_append f xs = Inr (map g xs)"
  by (induction xs) simp_all

lemma update_fresh:
  "k \<notin> fst ` set al \<Longrightarrow> AList.update k v al = al @ [(k, v)]"
  by (induction al) auto

lemma foldl_update_distinct:
  "distinct (map fst (acc @ ps)) \<Longrightarrow>
     foldl (\<lambda>d kv. AList.update (fst kv) (snd kv) d) acc ps = acc @ ps"
proof (induction ps arbitrary: acc)
  case Nil
  then show ?case by simp
next
  case (Cons p ps)
  then have fresh: "fst p \<notin> fst ` set acc" by auto
  have "AList.update (fst p) (snd p) acc = acc @ [p]"
    using update_fresh [OF fresh] by simp
  moreover have "distinct (map fst ((acc @ [p]) @ ps))"
    using Cons.prems by simp
  ultimately show ?case
    using Cons.IH [of "acc @ [p]"] by simp
qed

lemma py_dict_distinct: "distinct (map fst ps) \<Longrightarrow> py_dict ps = ps"
  using foldl_update_distinct [of "[]" ps] by (simp add: py_dict_def)

lemma foldl_update_keys:
  "fst ` set (foldl (\<lambda>d kv. AList.update (fst kv) (snd kv) d) acc ps) = fst ` set acc \<union> fst ` set ps"
  by (induction ps arbitrary: acc) (auto simp: AList.dom_update)

lemma foldl_update_keys_distinct:
  "distinct (map fst acc) \<Longrightarrow>
     distinct (map fst (foldl (\<lambda>d kv. AList.update (fst kv) (snd kv) d) acc ps))"
  by (induction ps arbitrary: acc) (simp_all add: AList.distinct_update)

lemma py_dict_keys: "set (map fst (py_dict ps)) = fst ` set ps"
  using foldl_update_keys [of "[]" ps] by (simp add: py_dict_def)

lemma py_dict_keys_distinct: "distinct (map fst (py_dict ps))"
  using foldl_update_keys_distinct [of "[]" ps] by (simp add: py_dict_def)

lemma shares_data_sym: "shares_data obj other \<Longrightarrow> shares_data other obj"
  by (auto simp: shares_data_def)

lemma delete_object_present:
  "obj \<in> set (objects sc) \<Longrightarrow>
     \<exists>sc'. delete_object obj sc = Inr sc' \<and>
           objects sc' = filter (\<lambda>other. other \<noteq> obj \<and> \<not> shares_data obj other) (objects sc)"
  by (cases "ob_data obj"; cases "ob_type obj")
    (auto simp: delete_object_def Let_def remove_mesh_def remove_curve_def uses_data_def
      shares_data_def removeAll_filter_not_eq intro!: filter_cong)

lemma own_data_Cons:
  "own_data (obj # objs) sc \<longleftrightarrow>
     (\<forall>other\<in>set (objects sc). shares_data obj other \<longrightarrow> other = obj) \<and> own_data objs sc"
  by (auto simp: own_data_def)

lemma own_data_append: "own_data (xs @ ys) sc \<longleftrightarrow> own_data xs sc \<and> own_data ys sc"
  by (auto simp: own_data_def)

lemma own_data_Nil [simp]: "own_data [] sc"
  by (simp add: own_data_def)

lemma own_data_subset: "set xs \<subseteq> set ys \<Longrightarrow> own_data ys sc \<Longrightarrow> own_data xs sc"
  by (auto simp: own_data_def)

lemma own_data_shrink:
  "set (objects sc') \<subseteq> set (objects sc) \<Longrightarrow> own_data objs sc \<Longrightarrow> own_data objs sc'"
  unfolding own_data_def by blast

lemma delete_object_stale:
  "obj \<notin> set (objects sc) \<Longrightarrow> delete_object obj sc = Inl ReferenceError"
  by (simp add: delete_object_def)

lemma find_name_None:
  "find (\<lambda>obj. ob_name obj = name) objs = None \<longleftrightarrow> name \<notin> ob_name ` set objs"
  by (auto simp: find_None_iff)

lemma find_name_Some:
  "find (\<lambda>obj. ob_name obj = name) objs = Some obj \<Longrightarrow> obj \<in> set objs \<and> ob_name obj = name"
  by (auto simp: find_Some_iff)

lemma bind_err_eq_Inr:
  "bind_err m f = Inr y \<longleftrightarrow> (\<exists>x. m = Inr x \<and> f x = Inr y)"
  by (cases m) simp_all

lemma nodecollection_frame:
  assumes "nodecollection h a sc = Inr (c, a1, sc1)"
  shows "settings a1 = settings a \<and> network a1 = network a \<and>
         priv_object_node a1 = priv_object_node a \<and>
         priv_object_edge a1 = priv_object_edge a \<and>
         priv_object_path a1 = priv_object_path a \<and>
         (sc1 = sc \<or> sc1 = snd (create_collections_from_path h ''Network::Nodes'' sc))"
  using assms
  by (auto simp: nodecollection_def bind_err_eq_Inr split: option.splits prod.splits)

lemma edgecollection_frame:
  assumes "edgecollection h a sc = Inr (c, a1, sc1)"
  shows "settings a1 = settings a \<and> network a1 = network a \<and>
         priv_object_node a1 = priv_object_node a \<and>
         priv_object_edge a1 = priv_object_edge a \<and>
         priv_object_path a1 = priv_object_path a \<and>
         (sc1 = sc \<or> sc1 = snd (create_collections_from_path h ''Network::Edges'' sc))"
  using assms
  by (auto simp: edgecollection_def bind_err_eq_Inr split: option.splits prod.splits)

lemma draw_nodes_Inr:
  assumes "draw_nodes h ns c a sc = Inr (objs, a', sc')"
  shows "\<exists>pts coll a1 sc1.
           nodecollection h a sc = Inr (coll, a1, sc1) \<and>
           draw_points h pts coll sc1 = (objs, sc') \<and>
           a' = a1\<lparr>priv_object_node := py_dict (zip objs (py_or ns (nodes (network a))))\<rparr>"
  using assms
  by (fastforce simp: draw_nodes_def Let_def bind_err_eq_Inr set_object_node_def
      case_prod_beta prod_eq_iff)

lemma draw_edges_Inr:
  assumes "draw_edges h es c a sc = Inr (objs, a', sc')"
  shows "\<exists>lns coll a1 sc1.
           edgecollection h a sc = Inr (coll, a1, sc1) \<and>
           draw_lines h lns coll sc1 = (objs, sc') \<and>
           a' = a1\<lparr>priv_object_edge := py_dict (zip objs (py_or es (edges (network a))))\<rparr>"
  using assms
  by (fastforce simp: draw_edges_def Let_def bind_err_eq_Inr set_object_edge_def
      case_prod_beta prod_eq_iff)

lemma draw_nodes_frame:
  assumes "draw_nodes h ns c a sc = Inr (objs, a', sc')"
  shows "settings a' = settings a \<and> network a' = network a \<and>
         priv_object_edge a' = priv_object_edge a \<and> priv_object_path a' = priv_object_path a"
proof -
  from draw_nodes_Inr [OF assms] obtain pts coll a1 sc1
    where "nodecollection h a sc = Inr (coll, a1, sc1)"
      and "a' = a1\<lparr>priv_object_node := py_dict (zip objs (py_or ns (nodes (network a))))\<rparr>"
    by blast
  then show ?thesis
    using nodecollection_frame by fastforce
qed

lemma draw_edges_frame:
  assumes "draw_edges h es c a sc = Inr (objs, a', sc')"
  shows "settings a' = settings a \<and> network a' = network a \<and>
         priv_object_node a' = priv_object_node a \<and> priv_object_path a' = priv_object_path a"
proof -
  from draw_edges_Inr [OF assms] obtain lns coll a1 sc1
    where "edgecollection h a sc = Inr (coll, a1, sc1)"
      and "a' = a1\<lparr>priv_object_edge := py_dict (zip objs (py_or es (edges (network a))))\<rparr>"
    by blast
  then show ?thesis
    using edgecollection_frame by fastforce
qed

lemma clear_Inr:
  "clear a sc = Inr (a', sc') \<longleftrightarrow>
     delete_objects (tracked_objects a) sc = Inr sc' \<and>
     a' = a\<lparr>priv_object_node := [], priv_object_edge := [], priv_object_path := []\<rparr>"
  by (auto simp: clear_def Let_def bind_err_eq_Inr)


lemma clear_frame:
  "clear a sc = Inr (a', sc') \<Longrightarrow>
     settings a' = settings a \<and> network a' = network a \<and> tracked_objects a' = []"
  by (auto simp: clear_Inr tracked_objects_def object_node_def object_edge_def object_path_def)

lemma getitem_Some: "d k = Some v \<Longrightarrow> getitem d k = Inr v"
  by (simp add: getitem_def)

lemma getitem_Inr: "getitem d k = Inr v \<longleftrightarrow> d k = Some v"
  by (simp add: getitem_def split: option.splits)

lemma object_node_priv [simp]: "object_node a = priv_object_node a"
  by (simp add: object_node_def)

lemma object_edge_priv [simp]: "object_edge a = priv_object_edge a"
  by (simp add: object_edge_def)

lemma object_path_priv [simp]: "object_path a = priv_object_path a"
  by (simp add: object_path_def)

lemma delete_objects_ok:
  "distinct objs \<Longrightarrow> set objs \<subseteq> set (objects sc) \<Longrightarrow> own_data objs sc \<Longrightarrow>
     \<exists>sc'. delete_objects objs sc = Inr sc' \<and>
           objects sc' = filter (\<lambda>obj. obj \<notin> set objs) (objects sc)"
proof (induction objs arbitrary: sc)
  case Nil
  then show ?case by simp
next
  case (Cons obj objs)
  then have "obj \<in> set (objects sc)" by simp
  from delete_object_present [OF this] obtain sc1
    where del: "delete_object obj sc = Inr sc1"
      and objs0: "objects sc1
        = filter (\<lambda>other. other \<noteq> obj \<and> \<not> shares_data obj other) (objects sc)"
    by blast
  from Cons.prems(3) have alone: "\<forall>other\<in>set (objects sc). shares_data obj other \<longrightarrow> other = obj"
    and own: "own_data objs sc"
    by (simp_all add: own_data_Cons)
  from objs0 alone have objs1: "objects sc1 = filter (\<lambda>other. other \<noteq> obj) (objects sc)"
    by (auto intro: filter_cong)
  have "distinct objs" "set objs \<subseteq> set (objects sc1)"
    using Cons.prems objs1 by auto
  moreover have "own_data objs sc1"
    by (rule own_data_shrink [OF _ own]) (simp add: objs1)
  ultimately obtain sc'
    where rest: "delete_objects objs sc1 = Inr sc'"
      and objs': "objects sc' = filter (\<lambda>obj. obj \<notin> set objs) (objects sc1)"
    using Cons.IH by blast
  have "objects sc' = filter (\<lambda>x. x \<notin> set (obj # objs)) (objects sc)"
    using objs' objs1 by (simp add: conj_commute)
  with del rest show ?case by simp
qed



lemma bind_err_drop_fst:
  "bind_err m (\<lambda>(objs, a1, sc1). Inr (a1, sc1)) = Inr (a', sc')
     \<longleftrightarrow> (\<exists>objs. m = Inr (objs, a', sc'))"
  by (cases m) (auto split: prod.splits)

lemma show_nodes_branch_Inr:
  assumes "show_nodes_branch h a sc = Inr (a', sc')"
  shows "\<exists>show_nodes. settings a ''show.nodes'' = Some show_nodes \<and>
           (if truthy show_nodes
            then \<exists>objs. draw_nodes h None ColorNone a sc = Inr (objs, a', sc')
            else (a', sc') = (a, sc))"
proof -
  from assms obtain show_nodes where sn: "settings a ''show.nodes'' = Some show_nodes"
    and step: "(if truthy show_nodes
       then bind_err (draw_nodes h None ColorNone a sc) (\<lambda>(objs, a1, sc1). Inr (a1, sc1))
       else Inr (a, sc)) = Inr (a', sc')"
    unfolding show_nodes_branch_def bind_err_eq_Inr getitem_Inr by blast
  show ?thesis
  proof (cases "truthy show_nodes")
    case True
    with step
    have "bind_err (draw_nodes h None ColorNone a sc) (\<lambda>(objs, a1, sc1). Inr (a1, sc1))
            = Inr (a', sc')"
      by (simp only: if_True)
    then have "\<exists>objs. draw_nodes h None ColorNone a sc = Inr (objs, a', sc')"
      by (rule bind_err_drop_fst [THEN iffD1])
    with True sn show ?thesis by simp
  next
    case False
    with step sn show ?thesis by simp
  qed
qed

lemma show_edges_branch_Inr:
  assumes "show_edges_branch h a sc = Inr (a', sc')"
  shows "\<exists>show_edges. settings a ''show.edges'' = Some show_edges \<and>
           (if truthy show_edges
            then \<exists>objs. draw_edges h None ColorNone a sc = Inr (objs, a', sc')
            else (a', sc') = (a, sc))"
proof -
  from assms obtain show_edges where se: "settings a ''show.edges'' = Some show_edges"
    and step: "(if truthy show_edges
       then bind_err (draw_edges h None ColorNone a sc) (\<lambda>(objs, a1, sc1). Inr (a1, sc1))
       else Inr (a, sc)) = Inr (a', sc')"
    unfolding show_edges_branch_def bind_err_eq_Inr getitem_Inr by blast
  show ?thesis
  proof (cases "truthy show_edges")
    case True
    with step
    have "bind_err (draw_edges h None ColorNone a sc) (\<lambda>(objs, a1, sc1). Inr (a1, sc1))
            = Inr (a', sc')"
      by (simp only: if_True)
    then have "\<exists>objs. draw_edges h None ColorNone a sc = Inr (objs, a', sc')"
      by (rule bind_err_drop_fst [THEN iffD1])
    with True se show ?thesis by simp
  next
    case False
    with step se show ?thesis by simp
  qed
qed

lemma draw_Inr:
  assumes "draw h s a sc = Inr (a', sc')"
  shows "\<exists>a1 sc1 a3 sc3.
           clear a sc = Inr (a1, sc1) \<and>
           show_nodes_branch h (merge_settings s a1) sc1 = Inr (a3, sc3) \<and>
           show_edges_branch h a3 sc3 = Inr (a', sc')"
proof -
  from assms obtain r1 where cl: "clear a sc = Inr r1"
    and k1: "(case r1 of (a1, sc1) \<Rightarrow>
      bind_err (show_nodes_branch h (merge_settings s a1) sc1) (\<lambda>(a3, sc3).
        show_edges_branch h a3 sc3)) = Inr (a', sc')"
    unfolding draw_def Let_def bind_err_eq_Inr by blast
  obtain a1 sc1 where r1: "r1 = (a1, sc1)"
    by (cases r1)
  from k1 have "bind_err (show_nodes_branch h (merge_settings s a1) sc1) (\<lambda>(a3, sc3).
        show_edges_branch h a3 sc3) = Inr (a', sc')"
    unfolding r1 prod.case .
  then obtain r3
    where ns: "show_nodes_branch h (merge_settings s a1) sc1 = Inr r3"
      and k3: "(case r3 of (a3, sc3) \<Rightarrow> show_edges_branch h a3 sc3) = Inr (a', sc')"
    unfolding bind_err_eq_Inr by blast
  obtain a3 sc3 where r3: "r3 = (a3, sc3)"
    by (cases r3)
  from cl r1 ns k3 r3 show ?thesis
    by simp
qed

lemma show_nodes_branch_frame:
  assumes "show_nodes_branch h a sc = Inr (a', sc')"
  shows "settings a' = settings a \<and> network a' = network a \<and>
         priv_object_edge a' = priv_object_edge a \<and> priv_object_path a' = priv_object_path a"
  using show_nodes_branch_Inr [OF assms] draw_nodes_frame [of h None ColorNone a sc _ a' sc']
  by (auto split: if_splits)

lemma show_edges_branch_frame:
  assumes "show_edges_branch h a sc = Inr (a', sc')"
  shows "settings a' = settings a \<and> network a' = network a \<and>
         priv_object_node a' = priv_object_node a \<and> priv_object_path a' = priv_object_path a"
  using show_edges_branch_Inr [OF assms] draw_edges_frame [of h None ColorNone a sc _ a' sc']
  by (auto split: if_splits)

lemma draw_settings:
  assumes "draw h s a sc = Inr (a', sc')"
  shows "settings a' = settings a ++ dict_or_empty s \<and> network a' = network a"
proof -
  from draw_Inr [OF assms] obtain a1 sc1 a3 sc3
    where cl: "clear a sc = Inr (a1, sc1)"
      and ns: "show_nodes_branch h (merge_settings s a1) sc1 = Inr (a3, sc3)"
      and es: "show_edges_branch h a3 sc3 = Inr (a', sc')"
    by blast
  have "settings a1 = settings a" "network a1 = network a"
    using clear_frame [OF cl] by simp_all
  then have "settings (merge_settings s a1) = settings a ++ dict_or_empty s"
    "network (merge_settings s a1) = network a"
    by (simp_all add: merge_settings_def)
  with show_nodes_branch_frame [OF ns] show_edges_branch_frame [OF es] show ?thesis
    by simp
qed

lemma run_op_settings:
  assumes "run_op h op a sc = Inr (a', sc')" and "\<not> op_overrides k op"
  shows "settings a' k = settings a k"
proof (cases op)
  case (OpDraw s)
  with assms have "settings a' = settings a ++ dict_or_empty s" "dict_or_empty s k = None"
    using draw_settings by fastforce+
  then show ?thesis
    by (simp add: map_add_def)
next
  case (OpDrawNodes ns c)
  with assms(1)
  have "bind_err (draw_nodes h ns c a sc) (\<lambda>(objs, a1, sc1). Inr (a1, sc1)) = Inr (a', sc')"
    by (simp only: run_op.simps)
  then have "\<exists>objs. draw_nodes h ns c a sc = Inr (objs, a', sc')"
    by (rule bind_err_drop_fst [THEN iffD1])
  then obtain objs where "draw_nodes h ns c a sc = Inr (objs, a', sc')"
    by blast
  then show ?thesis
    using draw_nodes_frame by fastforce
next
  case (OpDrawEdges es c)
  with assms(1)
  have "bind_err (draw_edges h es c a sc) (\<lambda>(objs, a1, sc1). Inr (a1, sc1)) = Inr (a', sc')"
    by (simp only: run_op.simps)
  then have "\<exists>objs. draw_edges h es c a sc = Inr (objs, a', sc')"
    by (rule bind_err_drop_fst [THEN iffD1])
  then obtain objs where "draw_edges h es c a sc = Inr (objs, a', sc')"
    by blast
  then show ?thesis
    using draw_edges_frame by fastforce
next
  case OpClear
  with assms show ?thesis
    using clear_frame by fastforce
qed

lemma run_ops_settings:
  "run_ops h ops a sc = Inr (a', sc') \<Longrightarrow> \<forall>op\<in>set ops. \<not> op_overrides k op \<Longrightarrow>
     settings a' k = settings a k"
proof (induction ops arbitrary: a sc)
  case Nil
  then show ?case by simp
next
  case (Cons op ops)
  from Cons.prems(1) obtain r where step: "run_op h op a sc = Inr r"
    and rest: "(case r of (a1, sc1) \<Rightarrow> run_ops h ops a1 sc1) = Inr (a', sc')"
    unfolding run_ops.simps bind_err_eq_Inr by blast
  obtain a1 sc1 where r: "r = (a1, sc1)"
    by (cases r)
  from step r Cons.prems(2) have "settings a1 k = settings a k"
    using run_op_settings by fastforce
  moreover from rest r Cons.prems(2) have "settings a' k = settings a1 k"
    using Cons.IH by simp
  ultimately show ?case by simp
qed

subsection \<open>The example data\<close>

lemmas example_defs =
  example_artist_def NetworkArtist_init_def example_network_def default_settings_def
  dict_or_empty_def empty_scene_def node_a_def node_b_def example_override_def
  example_drawn_artist_def example_drawn_scene_def stale_artist_def

lemmas model_host_defs =
  model_host_def add_object_def unique_name_def used_names_def second_collection_def

lemmas artist_defs =
  draw_def show_nodes_branch_def show_edges_branch_def merge_settings_def clear_def
  tracked_objects_def draw_nodes_def draw_edges_def nodecollection_def edgecollection_def
  set_object_node_def set_object_edge_def py_or_def py_dict_def getitem_def colordict_def
  delete_object_def remove_mesh_def remove_curve_def uses_data_def Let_def


lemma example_draw:
  "draw model_host (Some example_override) example_artist empty_scene
     = Inr (example_drawn_artist, example_drawn_scene)"
  by (simp add: artist_defs model_host_defs example_defs)

lemma example_redraw:
  "draw model_host None example_drawn_artist example_drawn_scene
     = Inr (example_drawn_artist, example_drawn_scene)"
  by (simp add: artist_defs model_host_defs example_defs)


lemma example_clear_drawn:
  "clear example_drawn_artist example_drawn_scene
     = Inr (example_drawn_artist\<lparr>priv_object_node := []\<rparr>,
            \<lparr>objects = [], meshes = [], curves = [], collections = [''Network'', ''Nodes'']\<rparr>)"
  by (simp add: artist_defs model_host_defs example_defs)


subsection \<open>The mesh artist\<close>

lemma draw_vertices_branch_Inr:
  "draw_vertices_branch a g = Inr g' \<longleftrightarrow>
     (\<exists>sv. ma_settings a ''show.vertices'' = Some sv \<and> \<not> truthy sv \<and> g' = g)"
  by (auto simp: draw_vertices_branch_def bind_err_eq_Inr getitem_Inr split: if_splits)

lemma draw_vertices_branch_truthy:
  "ma_settings a ''show.vertices'' = Some sv \<Longrightarrow> truthy sv \<Longrightarrow>
     draw_vertices_branch a g = Inl AttributeError"
  by (simp add: draw_vertices_branch_def getitem_Some)

lemma draw_faces_branch_length:
  "draw_faces_branch h a g = Inr g' \<Longrightarrow> length g' = length g"
  by (auto simp: draw_faces_branch_def bind_err_eq_Inr Let_def split: if_splits)

lemma draw_edges_branch_length:
  "draw_edges_branch h a g = Inr g' \<Longrightarrow> length g' = length g"
  by (auto simp: draw_edges_branch_def bind_err_eq_Inr Let_def split: if_splits)

lemmas mesh_defs =
  MeshArtist_draw_def draw_vertices_branch_def draw_faces_branch_def draw_edges_branch_def
  draw_faces_def mesh_draw_edges_def draw_vertexlabels_def draw_facelabels_def
  draw_edgelabels_def py_or_def py_dict_def getitem_def colordict_def Let_def

lemmas mesh_example_defs =
  example_mesh_artist_def hidden_vertices_artist_def MeshArtist_init_def example_mesh_def
  model_gh_host_def

lemma hidden_vertices_draw:
  "MeshArtist_draw model_gh_host hidden_vertices_artist
     = Inr [None, None, Some [''Mesh.face.f''], None,
            Some [''Mesh.edge.a-b'', ''Mesh.edge.b-c'', ''Mesh.edge.c-a''], None]"
  by (simp add: mesh_defs mesh_example_defs)

subsection \<open>The label methods\<close>

lemma getitem_None: "d k = None \<Longrightarrow> getitem d k = Inl KeyError"
  by (simp add: getitem_def)

lemma py_dict_lookup: "(k, t) \<in> set (py_dict ps) \<Longrightarrow> map_of (py_dict ps) k = Some t"
  using py_dict_keys_distinct [of ps] by simp

lemma py_dict_key_in: "(k, t) \<in> set (py_dict ps) \<Longrightarrow> k \<in> fst ` set (py_dict ps)"
  by force

lemma label_tail:
  assumes "\<And>dflt k t. (k, t) \<in> set td \<Longrightarrow> F dflt (k, t) = Inr (G dflt (k, t))"
  shows "bind_err (getitem st key) (\<lambda>dflt.
           bind_err (for_append (F dflt) td) (\<lambda>labels. Inr (draw_fn labels)))
         = (case st key of
              None \<Rightarrow> Inl KeyError
            | Some dflt \<Rightarrow> Inr (draw_fn (map (G dflt) td)))"
proof (cases "st key")
  case None
  then show ?thesis by (simp add: getitem_None)
next
  case (Some dflt)
  have "for_append (F dflt) td = Inr (map (G dflt) td)"
    by (rule for_append_total) (use assms in auto)
  with Some show ?thesis by (simp add: getitem_Some)
qed

lemma draw_vertexlabels_dict:
  "draw_vertexlabels h (TextDict pairs) color a =
     (case ma_settings a ''color.vertices'' of
        None \<Rightarrow> Inl KeyError
      | Some dflt \<Rightarrow>
          Inr (gh_draw_labels h
            (map (\<lambda>(key, t).
                \<lparr>lb_pos = vertex_coordinates (ma_mesh a) key,
                 lb_name = mesh_name (ma_mesh a) @ ''.vertexlabel.'' @ vertex_str (ma_mesh a) key,
                 lb_color = (case color of
                               ColorNone \<Rightarrow> dflt
                             | ColorOne c \<Rightarrow> c
                             | ColorDict m \<Rightarrow> (case m key of None \<Rightarrow> dflt | Some c \<Rightarrow> c)),
                 lb_text = t\<rparr>)
              (py_dict pairs))))"
  unfolding draw_vertexlabels_def text_arg.case bind_err_Inr Let_def
  by (rule label_tail)
    (simp add: getitem_def colordict_def py_dict_lookup py_dict_key_in)

lemma draw_vertexlabels_none:
  "draw_vertexlabels h TextNone color a =
     (case ma_settings a ''color.vertices'' of
        None \<Rightarrow> Inl KeyError
      | Some dflt \<Rightarrow>
          Inr (gh_draw_labels h
            (map (\<lambda>(key, t).
                \<lparr>lb_pos = vertex_coordinates (ma_mesh a) key,
                 lb_name = mesh_name (ma_mesh a) @ ''.vertexlabel.'' @ vertex_str (ma_mesh a) key,
                 lb_color = (case color of
                               ColorNone \<Rightarrow> dflt
                             | ColorOne c \<Rightarrow> c
                             | ColorDict m \<Rightarrow> (case m key of None \<Rightarrow> dflt | Some c \<Rightarrow> c)),
                 lb_text = t\<rparr>)
              (py_dict (map (\<lambda>key. (key, vertex_str (ma_mesh a) key)) (vertices (ma_mesh a)))))))"
  unfolding draw_vertexlabels_def text_arg.case bind_err_Inr Let_def
  by (rule label_tail)
    (simp add: getitem_def colordict_def py_dict_lookup py_dict_key_in)

lemma draw_facelabels_dict:
  "draw_facelabels h (TextDict pairs) color a =
     (case ma_settings a ''color.faces'' of
        None \<Rightarrow> Inl KeyError
      | Some dflt \<Rightarrow>
          Inr (gh_draw_labels h
            (map (\<lambda>(key, t).
                \<lparr>lb_pos = face_center (ma_mesh a) key,
                 lb_name = mesh_name (ma_mesh a) @ ''.facelabel.'' @ face_str (ma_mesh a) key,
                 lb_color = (case color of
                               ColorNone \<Rightarrow> dflt
                             | ColorOne c \<Rightarrow> c
                             | ColorDict m \<Rightarrow> (case m key of None \<Rightarrow> dflt | Some c \<Rightarrow> c)),
                 lb_text = t\<rparr>)
              (py_dict pairs))))"
  unfolding draw_facelabels_def text_arg.case bind_err_Inr Let_def
  by (rule label_tail)
    (simp add: getitem_def colordict_def py_dict_lookup py_dict_key_in)

lemma draw_facelabels_none:
  "draw_facelabels h TextNone color a =
     (case ma_settings a ''color.faces'' of
        None \<Rightarrow> Inl KeyError
      | Some dflt \<Rightarrow>
          Inr (gh_draw_labels h
            (map (\<lambda>(key, t).
                \<lparr>lb_pos = face_center (ma_mesh a) key,
                 lb_name = mesh_name (ma_mesh a) @ ''.facelabel.'' @ face_str (ma_mesh a) key,
                 lb_color = (case color of
                               ColorNone \<Rightarrow> dflt
                             | ColorOne c \<Rightarrow> c
                             | ColorDict m \<Rightarrow> (case m key of None \<Rightarrow> dflt | Some c \<Rightarrow> c)),
                 lb_text = t\<rparr>)
              (py_dict (map (\<lambda>key. (key, face_str (ma_mesh a) key)) (faces (ma_mesh a)))))))"
  unfolding draw_facelabels_def text_arg.case bind_err_Inr Let_def
  by (rule label_tail)
    (simp add: getitem_def colordict_def py_dict_lookup py_dict_key_in)

lemma draw_edgelabels_dict:
  "draw_edgelabels h (TextDict pairs) color a =
     (case ma_settings a ''color.edges'' of
        None \<Rightarrow> Inl KeyError
      | Some dflt \<Rightarrow>
          Inr (gh_draw_labels h
            (map (\<lambda>((u, v), t).
                \<lparr>lb_pos = edge_midpoint (ma_mesh a) u v,
                 lb_name = mesh_name (ma_mesh a) @ ''.edgelabel.''
                             @ vertex_str (ma_mesh a) u @ ''-'' @ vertex_str (ma_mesh a) v,
                 lb_color = (case color of
                               ColorNone \<Rightarrow> dflt
                             | ColorOne c \<Rightarrow> c
                             | ColorDict m \<Rightarrow> (case m (u, v) of None \<Rightarrow> dflt | Some c \<Rightarrow> c)),
                 lb_text = t\<rparr>)
              (py_dict pairs))))"
  unfolding draw_edgelabels_def text_arg.case bind_err_Inr Let_def
  by (rule label_tail)
    (auto simp add: getitem_def colordict_def py_dict_lookup py_dict_key_in)

lemma draw_edgelabels_none:
  "draw_edgelabels h TextNone color a =
     (case ma_settings a ''color.edges'' of
        None \<Rightarrow> Inl KeyError
      | Some dflt \<Rightarrow>
          Inr (gh_draw_labels h
            (map (\<lambda>((u, v), t).
                \<lparr>lb_pos = edge_midpoint (ma_mesh a) u v,
                 lb_name = mesh_name (ma_mesh a) @ ''.edgelabel.''
                             @ vertex_str (ma_mesh a) u @ ''-'' @ vertex_str (ma_mesh a) v,
                 lb_color = (case color of
                               ColorNone \<Rightarrow> dflt
                             | ColorOne c \<Rightarrow> c
                             | ColorDict m \<Rightarrow> (case m (u, v) of None \<Rightarrow> dflt | Some c \<Rightarrow> c)),
                 lb_text = t\<rparr>)
              (py_dict (map (\<lambda>(u, v). ((u, v), vertex_str (ma_mesh a) u @ ''-''
                                                          @ vertex_str (ma_mesh a) v))
                                     (mesh_edges (ma_mesh a)))))))"
  unfolding draw_edgelabels_def text_arg.case bind_err_Inr Let_def
  by (rule label_tail)
    (auto simp add: getitem_def colordict_def py_dict_lookup py_dict_key_in)

lemma py_dict_of_keys:
  "distinct ks \<Longrightarrow> py_dict (map (\<lambda>k. (k, f k)) ks) = map (\<lambda>k. (k, f k)) ks"
  by (rule py_dict_distinct) (simp add: comp_def)

lemma draw_vertexlabels_not_implemented:
  "draw_vertexlabels h targ color a = Inl NotImplementedError \<longleftrightarrow> (\<exists>v. targ = TextOther v)"
proof (cases targ)
  case TextNone
  then show ?thesis
    by (simp add: draw_vertexlabels_none split: option.splits)
next
  case (TextDict pairs)
  then show ?thesis
    by (simp add: draw_vertexlabels_dict split: option.splits)
next
  case (TextOther v)
  then show ?thesis
    by (simp add: draw_vertexlabels_def)
qed

lemma draw_facelabels_not_implemented:
  "draw_facelabels h targ color a = Inl NotImplementedError \<longleftrightarrow> (\<exists>v. targ = TextOther v)"
proof (cases targ)
  case TextNone
  then show ?thesis
    by (simp add: draw_facelabels_none split: option.splits)
next
  case (TextDict pairs)
  then show ?thesis
    by (simp add: draw_facelabels_dict split: option.splits)
next
  case (TextOther v)
  then show ?thesis
    by (simp add: draw_facelabels_def)
qed

lemma draw_edgelabels_not_implemented:
  "draw_edgelabels h targ color a = Inl NotImplementedError \<longleftrightarrow> (\<exists>v. targ = TextOther v)"
proof (cases targ)
  case TextNone
  then show ?thesis
    by (simp add: draw_edgelabels_none split: option.splits)
next
  case (TextDict pairs)
  then show ?thesis
    by (simp add: draw_edgelabels_dict split: option.splits)
next
  case (TextOther v)
  then show ?thesis
    by (simp add: draw_edgelabels_def)
qed

subsection \<open>The tracked objects stay in the scene\<close>

lemma host_step_ok_refl: "host_step_ok sc sc"
  by (simp add: host_step_ok_def)

lemma host_step_ok_same: "objects sc' = objects sc \<Longrightarrow> host_step_ok sc sc'"
  by (simp add: host_step_ok_def)

lemma host_step_ok_trans:
  assumes one: "host_step_ok sc sc1" and two: "host_step_ok sc1 sc2"
  shows "host_step_ok sc sc2"
  unfolding host_step_ok_def
proof (intro conjI ballI impI)
  show "set (objects sc) \<subseteq> set (objects sc2)"
    using one two unfolding host_step_ok_def by blast
next
  fix obj other
  assume obj: "obj \<in> set (objects sc2) - set (objects sc)"
    and other: "other \<in> set (objects sc2)" and sh: "shares_data obj other"
  show "other = obj"
  proof (cases "obj \<in> set (objects sc1)")
    case False
    with obj other sh two show ?thesis
      unfolding host_step_ok_def by blast
  next
    case True
    show ?thesis
    proof (cases "other \<in> set (objects sc1)")
      case True
      with \<open>obj \<in> set (objects sc1)\<close> obj sh one show ?thesis
        unfolding host_step_ok_def by blast
    next
      case False
      have "obj \<in> set (objects sc2)"
        using obj by simp
      with False other shares_data_sym [OF sh] two have "obj = other"
        unfolding host_step_ok_def by blast
      then show ?thesis by simp
    qed
  qed
qed

lemma own_data_step:
  assumes own: "own_data objs sc" and sub: "set objs \<subseteq> set (objects sc)"
    and step: "host_step_ok sc sc'"
  shows "own_data objs sc'"
  unfolding own_data_def
proof (intro ballI impI)
  fix obj other
  assume obj: "obj \<in> set objs" and other: "other \<in> set (objects sc')"
    and sh: "shares_data obj other"
  show "other = obj"
  proof (cases "other \<in> set (objects sc)")
    case True
    with own obj sh show ?thesis
      unfolding own_data_def by blast
  next
    case False
    have "obj \<in> set (objects sc')"
      using obj sub step unfolding host_step_ok_def by blast
    with False other shares_data_sym [OF sh] step have "obj = other"
      unfolding host_step_ok_def by blast
    then show ?thesis by simp
  qed
qed

lemma own_data_new:
  "host_step_ok sc sc' \<Longrightarrow> set objs \<subseteq> set (objects sc') - set (objects sc) \<Longrightarrow>
     own_data objs sc'"
  unfolding host_step_ok_def own_data_def by blast

lemma host_ok_collections:
  assumes "host_ok h" and "path \<in> {''Network::Nodes'', ''Network::Edges'', ''Network::Paths''}"
  shows "2 \<le> length (fst (create_collections_from_path h path sc))"
    and "set (objects sc) \<subseteq> set (objects (snd (create_collections_from_path h path sc)))"
    and "host_step_ok sc (snd (create_collections_from_path h path sc))"
proof -
  from assms have both: "2 \<le> length (fst (create_collections_from_path h path sc)) \<and>
      host_step_ok sc (snd (create_collections_from_path h path sc))"
    unfolding host_ok_def by blast
  then show "2 \<le> length (fst (create_collections_from_path h path sc))"
    and "host_step_ok sc (snd (create_collections_from_path h path sc))"
    by simp_all
  with both show "set (objects sc) \<subseteq> set (objects (snd (create_collections_from_path h path sc)))"
    by (simp add: host_step_ok_def)
qed

lemma host_ok_points:
  assumes "host_ok h" and "draw_points h pts coll sc = (objs, sc')"
  shows "set (objects sc) \<subseteq> set (objects sc')" and "set objs \<subseteq> set (objects sc')"
    and "set objs \<inter> set (objects sc) = {}" and "host_step_ok sc sc'"
    and "set objs \<subseteq> set (objects sc') - set (objects sc)"
proof -
  from assms(1) have "host_step_ok sc (snd (draw_points h pts coll sc)) \<and>
      set (fst (draw_points h pts coll sc))
        \<subseteq> set (objects (snd (draw_points h pts coll sc))) - set (objects sc)"
    unfolding host_ok_def by blast
  with assms(2) have step: "host_step_ok sc sc'"
    and new: "set objs \<subseteq> set (objects sc') - set (objects sc)"
    by simp_all
  from step show "host_step_ok sc sc'" .
  from new show "set objs \<subseteq> set (objects sc') - set (objects sc)" .
  from step show "set (objects sc) \<subseteq> set (objects sc')"
    by (simp add: host_step_ok_def)
  from new show "set objs \<subseteq> set (objects sc')" and "set objs \<inter> set (objects sc) = {}"
    by auto
qed

lemma host_ok_lines:
  assumes "host_ok h" and "draw_lines h lns coll sc = (objs, sc')"
  shows "set (objects sc) \<subseteq> set (objects sc')" and "set objs \<subseteq> set (objects sc')"
    and "set objs \<inter> set (objects sc) = {}" and "host_step_ok sc sc'"
    and "set objs \<subseteq> set (objects sc') - set (objects sc)"
proof -
  from assms(1) have "host_step_ok sc (snd (draw_lines h lns coll sc)) \<and>
      set (fst (draw_lines h lns coll sc))
        \<subseteq> set (objects (snd (draw_lines h lns coll sc))) - set (objects sc)"
    unfolding host_ok_def by blast
  with assms(2) have step: "host_step_ok sc sc'"
    and new: "set objs \<subseteq> set (objects sc') - set (objects sc)"
    by simp_all
  from step show "host_step_ok sc sc'" .
  from new show "set objs \<subseteq> set (objects sc') - set (objects sc)" .
  from step show "set (objects sc) \<subseteq> set (objects sc')"
    by (simp add: host_step_ok_def)
  from new show "set objs \<subseteq> set (objects sc')" and "set objs \<inter> set (objects sc) = {}"
    by auto
qed

lemma second_collection_ok: "2 \<le> length cs \<Longrightarrow> second_collection cs = Inr (cs ! 1)"
  by (simp add: second_collection_def)

lemma nodecollection_ok:
  assumes "host_ok h"
  shows "\<exists>coll a1 sc1. nodecollection h a sc = Inr (coll, a1, sc1) \<and>
           set (objects sc) \<subseteq> set (objects sc1) \<and> host_step_ok sc sc1"
proof (cases "priv_nodecollection a")
  case (Some c)
  then show ?thesis by (simp add: nodecollection_def host_step_ok_refl)
next
  case None
  obtain cs sc1 where cc: "create_collections_from_path h ''Network::Nodes'' sc = (cs, sc1)"
    by (cases "create_collections_from_path h ''Network::Nodes'' sc")
  from host_ok_collections [OF assms, of "''Network::Nodes''" sc] cc
  have "2 \<le> length cs" "set (objects sc) \<subseteq> set (objects sc1)" "host_step_ok sc sc1"
    by simp_all
  with None cc show ?thesis
    by (simp add: nodecollection_def second_collection_ok)
qed

lemma edgecollection_ok:
  assumes "host_ok h"
  shows "\<exists>coll a1 sc1. edgecollection h a sc = Inr (coll, a1, sc1) \<and>
           set (objects sc) \<subseteq> set (objects sc1) \<and> host_step_ok sc sc1"
proof (cases "priv_edgecollection a")
  case (Some c)
  then show ?thesis by (simp add: edgecollection_def host_step_ok_refl)
next
  case None
  obtain cs sc1 where cc: "create_collections_from_path h ''Network::Edges'' sc = (cs, sc1)"
    by (cases "create_collections_from_path h ''Network::Edges'' sc")
  from host_ok_collections [OF assms, of "''Network::Edges''" sc] cc
  have "2 \<le> length cs" "set (objects sc) \<subseteq> set (objects sc1)" "host_step_ok sc sc1"
    by simp_all
  with None cc show ?thesis
    by (simp add: edgecollection_def second_collection_ok)
qed

lemma draw_nodes_run:
  assumes dflt: "settings a ''color.nodes'' = Some dflt"
    and coll: "nodecollection h a sc = Inr (coll, a1, sc1)"
  shows "\<exists>pts objs sc2.
           draw_points h pts coll sc1 = (objs, sc2) \<and>
           draw_nodes h ns c a sc
             = Inr (objs, a1\<lparr>priv_object_node :=
                                 py_dict (zip objs (py_or ns (nodes (network a))))\<rparr>, sc2)"
proof -
  let ?N = "py_or ns (nodes (network a))"
  let ?f = "\<lambda>node. bind_err (getitem (colordict c ?N dflt) node) (\<lambda>col.
              Inr \<lparr>pt_pos = node_coordinates (network a) node,
                   pt_name = net_name (network a) @ ''.node.'' @ node_str (network a) node,
                   pt_color = col, pt_radius = PDec 5 2\<rparr>)"
  have "\<exists>pts. for_append ?f ?N = Inr pts"
  proof -
    have "?f node = Inr \<lparr>pt_pos = node_coordinates (network a) node,
                   pt_name = net_name (network a) @ ''.node.'' @ node_str (network a) node,
                   pt_color = (case c of ColorNone \<Rightarrow> dflt | ColorOne col \<Rightarrow> col
                       | ColorDict m \<Rightarrow> (case m node of None \<Rightarrow> dflt | Some col \<Rightarrow> col)),
                   pt_radius = PDec 5 2\<rparr>" if "node \<in> set ?N" for node
      using that by (simp add: getitem_def colordict_def)
    from for_append_total [of ?N ?f, OF this] show ?thesis
      by blast
  qed
  then obtain pts where loop: "for_append ?f ?N = Inr pts" ..
  obtain objs sc2 where dp: "draw_points h pts coll sc1 = (objs, sc2)"
    by (cases "draw_points h pts coll sc1")
  have "draw_nodes h ns c a sc
          = Inr (objs, a1\<lparr>priv_object_node := py_dict (zip objs ?N)\<rparr>, sc2)"
    using dflt coll dp loop
    by (simp add: draw_nodes_def Let_def getitem_Some set_object_node_def)
  with dp show ?thesis by blast
qed

lemma draw_edges_run:
  assumes dflt: "settings a ''color.edges'' = Some dflt"
    and coll: "edgecollection h a sc = Inr (coll, a1, sc1)"
  shows "\<exists>lns objs sc2.
           draw_lines h lns coll sc1 = (objs, sc2) \<and>
           draw_edges h es c a sc
             = Inr (objs, a1\<lparr>priv_object_edge :=
                                 py_dict (zip objs (py_or es (edges (network a))))\<rparr>, sc2)"
proof -
  let ?E = "py_or es (edges (network a))"
  let ?f = "\<lambda>edge. bind_err (getitem (colordict c ?E dflt) edge) (\<lambda>col.
              Inr \<lparr>ln_start = node_coordinates (network a) (fst edge),
                   ln_end = node_coordinates (network a) (snd edge),
                   ln_color = col,
                   ln_name = net_name (network a) @ ''.edge.''
                               @ node_str (network a) (fst edge) @ ''-''
                               @ node_str (network a) (snd edge),
                   ln_width = PDec 2 2\<rparr>)"
  have "\<exists>lns. for_append ?f ?E = Inr lns"
  proof -
    have "?f edge = Inr \<lparr>ln_start = node_coordinates (network a) (fst edge),
                   ln_end = node_coordinates (network a) (snd edge),
                   ln_color = (case c of ColorNone \<Rightarrow> dflt | ColorOne col \<Rightarrow> col
                       | ColorDict m \<Rightarrow> (case m edge of None \<Rightarrow> dflt | Some col \<Rightarrow> col)),
                   ln_name = net_name (network a) @ ''.edge.''
                               @ node_str (network a) (fst edge) @ ''-''
                               @ node_str (network a) (snd edge),
                   ln_width = PDec 2 2\<rparr>" if "edge \<in> set ?E" for edge
      using that by (simp add: getitem_def colordict_def)
    from for_append_total [of ?E ?f, OF this] show ?thesis
      by blast
  qed
  then obtain lns where loop: "for_append ?f ?E = Inr lns" ..
  obtain objs sc2 where dp: "draw_lines h lns coll sc1 = (objs, sc2)"
    by (cases "draw_lines h lns coll sc1")
  have "draw_edges h es c a sc
          = Inr (objs, a1\<lparr>priv_object_edge := py_dict (zip objs ?E)\<rparr>, sc2)"
    using dflt coll dp loop
    by (simp add: draw_edges_def Let_def getitem_Some set_object_edge_def)
  with dp show ?thesis by blast
qed

lemma zip_keys_subset: "set (map fst (py_dict (zip objs xs))) \<subseteq> set objs"
  unfolding py_dict_keys by (auto dest: set_zip_leftD)

lemma artist_ok_keys:
  "artist_ok a sc \<Longrightarrow> k \<in> {''color.nodes'', ''color.edges'', ''show.nodes'', ''show.edges''}
     \<Longrightarrow> \<exists>v. settings a k = Some v"
  unfolding artist_ok_def by blast

lemma draw_nodes_ok:
  assumes h: "host_ok h" and ok: "artist_ok a sc"
  shows "\<exists>objs a' sc'. draw_nodes h ns c a sc = Inr (objs, a', sc') \<and> artist_ok a' sc' \<and>
           set (objects sc) \<subseteq> set (objects sc')"
proof -
  let ?N = "py_or ns (nodes (network a))"
  from artist_ok_keys [OF ok, of "''color.nodes''"] obtain dflt
    where dflt: "settings a ''color.nodes'' = Some dflt" by auto
  from nodecollection_ok [OF h, of a sc] obtain coll a1 sc1
    where coll: "nodecollection h a sc = Inr (coll, a1, sc1)"
      and grow1: "set (objects sc) \<subseteq> set (objects sc1)"
      and step1: "host_step_ok sc sc1"
    by blast
  from draw_nodes_run [OF dflt coll, of ns c] obtain pts objs sc2
    where dp: "draw_points h pts coll sc1 = (objs, sc2)"
      and run: "draw_nodes h ns c a sc
                  = Inr (objs, a1\<lparr>priv_object_node := py_dict (zip objs ?N)\<rparr>, sc2)"
    by blast
  let ?a' = "a1\<lparr>priv_object_node := py_dict (zip objs ?N)\<rparr>"
  note fr = nodecollection_frame [OF coll]
  note hp = host_ok_points [OF h dp]
  have old: "distinct (map fst (priv_object_edge a) @ map fst (priv_object_path a))"
    "set (map fst (priv_object_edge a) @ map fst (priv_object_path a)) \<subseteq> set (objects sc)"
    using ok by (auto simp: artist_ok_def tracked_objects_def)
  have new: "set (map fst (py_dict (zip objs ?N))) \<subseteq> set objs"
    by (rule zip_keys_subset)
  have tr: "tracked_objects ?a' = map fst (py_dict (zip objs ?N))
              @ (map fst (priv_object_edge a) @ map fst (priv_object_path a))"
    using fr by (simp add: tracked_objects_def)
  have disj: "set (map fst (py_dict (zip objs ?N)))
                \<inter> set (map fst (priv_object_edge a) @ map fst (priv_object_path a)) = {}"
    using new old(2) grow1 hp(3) by blast
  have "distinct (tracked_objects ?a')"
    unfolding tr using py_dict_keys_distinct [of "zip objs ?N"] old(1) disj
    by (simp only: distinct_append)
  moreover have "set (tracked_objects ?a') \<subseteq> set (objects sc2)"
    unfolding tr set_append using new old(2) [unfolded set_append] grow1 hp(1,2) by blast
  moreover have "own_data (tracked_objects ?a') sc2"
  proof -
    have "own_data (map fst (priv_object_edge a) @ map fst (priv_object_path a)) sc"
      using ok by (simp add: artist_ok_def tracked_objects_def own_data_append)
    from own_data_step [OF this old(2) step1]
    have "own_data (map fst (priv_object_edge a) @ map fst (priv_object_path a)) sc1" .
    from own_data_step [OF this _ hp(4)] old(2) grow1
    have keep: "own_data (map fst (priv_object_edge a) @ map fst (priv_object_path a)) sc2"
      by blast
    have "own_data objs sc2"
      by (rule own_data_new [OF hp(4) hp(5)])
    from own_data_subset [OF new this] keep show ?thesis
      unfolding tr by (simp only: own_data_append)
  qed
  moreover have "settings ?a' = settings a"
    using fr by simp
  ultimately have "artist_ok ?a' sc2"
    using ok by (simp add: artist_ok_def)
  moreover have "set (objects sc) \<subseteq> set (objects sc2)"
    using grow1 hp(1) by blast
  ultimately show ?thesis
    using run by blast
qed

lemma draw_edges_ok:
  assumes h: "host_ok h" and ok: "artist_ok a sc"
  shows "\<exists>objs a' sc'. draw_edges h es c a sc = Inr (objs, a', sc') \<and> artist_ok a' sc' \<and>
           set (objects sc) \<subseteq> set (objects sc')"
proof -
  let ?E = "py_or es (edges (network a))"
  from artist_ok_keys [OF ok, of "''color.edges''"] obtain dflt
    where dflt: "settings a ''color.edges'' = Some dflt" by auto
  from edgecollection_ok [OF h, of a sc] obtain coll a1 sc1
    where coll: "edgecollection h a sc = Inr (coll, a1, sc1)"
      and grow1: "set (objects sc) \<subseteq> set (objects sc1)"
      and step1: "host_step_ok sc sc1"
    by blast
  from draw_edges_run [OF dflt coll, of es c] obtain lns objs sc2
    where dp: "draw_lines h lns coll sc1 = (objs, sc2)"
      and run: "draw_edges h es c a sc
                  = Inr (objs, a1\<lparr>priv_object_edge := py_dict (zip objs ?E)\<rparr>, sc2)"
    by blast
  let ?a' = "a1\<lparr>priv_object_edge := py_dict (zip objs ?E)\<rparr>"
  note fr = edgecollection_frame [OF coll]
  note hp = host_ok_lines [OF h dp]
  have old: "distinct (map fst (priv_object_node a))" "distinct (map fst (priv_object_path a))"
    "set (map fst (priv_object_node a)) \<inter> set (map fst (priv_object_path a)) = {}"
    "set (map fst (priv_object_node a)) \<subseteq> set (objects sc)"
    "set (map fst (priv_object_path a)) \<subseteq> set (objects sc)"
    using ok by (auto simp: artist_ok_def tracked_objects_def)
  have new: "set (map fst (py_dict (zip objs ?E))) \<subseteq> set objs"
    by (rule zip_keys_subset)
  have tr: "tracked_objects ?a' = map fst (priv_object_node a)
              @ map fst (py_dict (zip objs ?E)) @ map fst (priv_object_path a)"
    using fr by (simp add: tracked_objects_def)
  have disj: "set (map fst (py_dict (zip objs ?E))) \<inter> set (map fst (priv_object_node a)) = {}"
    "set (map fst (py_dict (zip objs ?E))) \<inter> set (map fst (priv_object_path a)) = {}"
    using new old(4,5) grow1 hp(3) by blast+
  have "distinct (tracked_objects ?a')"
    unfolding tr using py_dict_keys_distinct [of "zip objs ?E"] old(1,2,3) disj
    by (simp only: distinct_append set_append) blast
  moreover have "set (tracked_objects ?a') \<subseteq> set (objects sc2)"
    unfolding tr set_append using new old(4,5) grow1 hp(1,2) by blast
  moreover have "own_data (tracked_objects ?a') sc2"
  proof -
    have own_old: "own_data (map fst (priv_object_node a)) sc"
      "own_data (map fst (priv_object_path a)) sc"
      using ok by (simp_all add: artist_ok_def tracked_objects_def own_data_append)
    have "own_data (map fst (priv_object_node a)) sc1"
      by (rule own_data_step [OF own_old(1) old(4) step1])
    from own_data_step [OF this _ hp(4)] old(4) grow1
    have keep_n: "own_data (map fst (priv_object_node a)) sc2"
      by blast
    have "own_data (map fst (priv_object_path a)) sc1"
      by (rule own_data_step [OF own_old(2) old(5) step1])
    from own_data_step [OF this _ hp(4)] old(5) grow1
    have keep_p: "own_data (map fst (priv_object_path a)) sc2"
      by blast
    have "own_data objs sc2"
      by (rule own_data_new [OF hp(4) hp(5)])
    from own_data_subset [OF new this] keep_n keep_p show ?thesis
      unfolding tr by (simp only: own_data_append)
  qed
  moreover have "settings ?a' = settings a"
    using fr by simp
  ultimately have "artist_ok ?a' sc2"
    using ok by (simp add: artist_ok_def)
  moreover have "set (objects sc) \<subseteq> set (objects sc2)"
    using grow1 hp(1) by blast
  ultimately show ?thesis
    using run by blast
qed

lemma clear_ok:
  assumes "artist_ok a sc"
  shows "\<exists>a' sc'. clear a sc = Inr (a', sc') \<and> artist_ok a' sc' \<and> tracked_objects a' = [] \<and>
           settings a' = settings a"
proof -
  from assms have "distinct (tracked_objects a)" "set (tracked_objects a) \<subseteq> set (objects sc)"
    "own_data (tracked_objects a) sc"
    by (simp_all add: artist_ok_def)
  from delete_objects_ok [OF this] obtain sc'
    where del: "delete_objects (tracked_objects a) sc = Inr sc'"
    by blast
  let ?a' = "a\<lparr>priv_object_node := [], priv_object_edge := [], priv_object_path := []\<rparr>"
  have cl: "clear a sc = Inr (?a', sc')"
    using del by (simp add: clear_Inr)
  have "tracked_objects ?a' = []" "settings ?a' = settings a"
    by (simp_all add: tracked_objects_def)
  moreover from this assms have "artist_ok ?a' sc'"
    by (simp add: artist_ok_def)
  ultimately show ?thesis
    using cl by blast
qed

lemma merge_settings_ok: "artist_ok a sc \<Longrightarrow> artist_ok (merge_settings s a) sc"
  by (auto simp: artist_ok_def merge_settings_def tracked_objects_def)

lemma show_nodes_branch_ok:
  assumes h: "host_ok h" and ok: "artist_ok a sc"
  shows "\<exists>a' sc'. show_nodes_branch h a sc = Inr (a', sc') \<and> artist_ok a' sc'"
proof -
  from artist_ok_keys [OF ok, of "''show.nodes''"] obtain v
    where v: "settings a ''show.nodes'' = Some v" by auto
  show ?thesis
  proof (cases "truthy v")
    case True
    from draw_nodes_ok [OF h ok, of None ColorNone] obtain objs a' sc'
      where "draw_nodes h None ColorNone a sc = Inr (objs, a', sc')" "artist_ok a' sc'"
      by blast
    with True v show ?thesis
      by (simp add: show_nodes_branch_def getitem_Some)
  next
    case False
    with v ok show ?thesis
      by (simp add: show_nodes_branch_def getitem_Some)
  qed
qed

lemma show_edges_branch_ok:
  assumes h: "host_ok h" and ok: "artist_ok a sc"
  shows "\<exists>a' sc'. show_edges_branch h a sc = Inr (a', sc') \<and> artist_ok a' sc'"
proof -
  from artist_ok_keys [OF ok, of "''show.edges''"] obtain v
    where v: "settings a ''show.edges'' = Some v" by auto
  show ?thesis
  proof (cases "truthy v")
    case True
    from draw_edges_ok [OF h ok, of None ColorNone] obtain objs a' sc'
      where "draw_edges h None ColorNone a sc = Inr (objs, a', sc')" "artist_ok a' sc'"
      by blast
    with True v show ?thesis
      by (simp add: show_edges_branch_def getitem_Some)
  next
    case False
    with v ok show ?thesis
      by (simp add: show_edges_branch_def getitem_Some)
  qed
qed

lemma draw_ok:
  assumes h: "host_ok h" and ok: "artist_ok a sc"
  shows "\<exists>a' sc'. draw h s a sc = Inr (a', sc') \<and> artist_ok a' sc'"
proof -
  from clear_ok [OF ok] obtain a1 sc1
    where cl: "clear a sc = Inr (a1, sc1)" and ok1: "artist_ok a1 sc1"
    by blast
  from show_nodes_branch_ok [OF h merge_settings_ok [OF ok1, of s]] obtain a3 sc3
    where ns: "show_nodes_branch h (merge_settings s a1) sc1 = Inr (a3, sc3)"
      and ok3: "artist_ok a3 sc3"
    by blast
  from show_edges_branch_ok [OF h ok3] obtain a' sc'
    where es: "show_edges_branch h a3 sc3 = Inr (a', sc')" and ok': "artist_ok a' sc'"
    by blast
  from cl ns es have "draw h s a sc = Inr (a', sc')"
    by (simp add: draw_def)
  with ok' show ?thesis by blast
qed

lemma run_op_ok:
  assumes h: "host_ok h" and ok: "artist_ok a sc"
  shows "\<exists>a' sc'. run_op h op a sc = Inr (a', sc') \<and> artist_ok a' sc'"
proof (cases op)
  case (OpDraw s)
  with draw_ok [OF h ok] show ?thesis by simp
next
  case (OpDrawNodes ns c)
  from draw_nodes_ok [OF h ok, of ns c] obtain objs a' sc'
    where "draw_nodes h ns c a sc = Inr (objs, a', sc')" "artist_ok a' sc'"
    by blast
  with OpDrawNodes show ?thesis by simp
next
  case (OpDrawEdges es c)
  from draw_edges_ok [OF h ok, of es c] obtain objs a' sc'
    where "draw_edges h es c a sc = Inr (objs, a', sc')" "artist_ok a' sc'"
    by blast
  with OpDrawEdges show ?thesis by simp
next
  case OpClear
  with clear_ok [OF ok] show ?thesis by auto
qed

lemma run_ops_ok:
  "host_ok h \<Longrightarrow> artist_ok a sc \<Longrightarrow>
     \<exists>a' sc'. run_ops h ops a sc = Inr (a', sc') \<and> artist_ok a' sc'"
proof (induction ops arbitrary: a sc)
  case Nil
  then show ?case by simp
next
  case (Cons op ops)
  from run_op_ok [OF Cons.prems] obtain a1 sc1
    where step: "run_op h op a sc = Inr (a1, sc1)" and ok1: "artist_ok a1 sc1"
    by blast
  from Cons.IH [OF Cons.prems(1) ok1] obtain a' sc'
    where "run_ops h ops a1 sc1 = Inr (a', sc')" "artist_ok a' sc'"
    by blast
  with step show ?case by simp
qed

lemma init_ok: "artist_ok (NetworkArtist_init net s) sc"
  by (auto simp: artist_ok_def NetworkArtist_init_def tracked_objects_def default_settings_def)

lemma example_twice:
  "run_ops model_host [OpDrawNodes None ColorNone, OpDrawNodes None ColorNone]
     example_artist empty_scene = Inr (example_twice_artist, example_twice_scene)"
  by (simp add: artist_defs model_host_defs example_defs longest_name_def
      node_a2_def node_b2_def example_twice_artist_def example_twice_scene_def)

lemma example_linking:
  "run_ops linking_host [OpDrawNodes None ColorNone, OpClear] example_artist empty_scene
     = Inl ReferenceError"
  by (simp add: artist_defs linking_host_def model_host_defs example_defs)

lemma longest_name_ge: "nm \<in> set names \<Longrightarrow> length nm \<le> longest_name names"
  by (induction names) (auto simp: longest_name_def)

lemma unique_name_fresh: "unique_name nm names \<notin> set names"
proof (cases "nm \<in> set names")
  case False
  then show ?thesis by (simp add: unique_name_def)
next
  case True
  let ?new = "nm @ replicate (Suc (longest_name names)) CHR ''.''"
  have "?new \<notin> set names"
  proof
    assume "?new \<in> set names"
    from longest_name_ge [OF this] show False
      by simp
  qed
  with True show ?thesis by (simp add: unique_name_def)
qed

lemma data_names_iff: "d \<in> set (data_names objs) \<longleftrightarrow> (\<exists>obj\<in>set objs. ob_data obj = Some d)"
  by (induction objs) (auto split: option.splits)

lemma add_object_fresh:
  assumes "add_object ty nm sc = (obj, sc')"
  shows "objects sc' = objects sc @ [obj]" and "obj \<notin> set (objects sc)"
    and "\<forall>other\<in>set (objects sc). \<not> shares_data obj other"
proof -
  let ?nm1 = "unique_name nm (used_names sc)"
  from assms have nm: "ob_name obj = ?nm1" and dt: "ob_data obj = Some ?nm1"
    and objs: "objects sc' = objects sc @ [obj]"
    by (auto simp: add_object_def Let_def split: if_splits)
  show "objects sc' = objects sc @ [obj]" by (rule objs)
  have fresh: "?nm1 \<notin> ob_name ` set (objects sc)" "?nm1 \<notin> set (data_names (objects sc))"
    using unique_name_fresh [of nm "used_names sc"] by (auto simp: used_names_def)
  from fresh(1) nm show "obj \<notin> set (objects sc)"
    by force
  from fresh(2) dt show "\<forall>other\<in>set (objects sc). \<not> shares_data obj other"
    by (auto simp: data_names_iff shares_data_def)
qed

lemma add_object_step:
  assumes "add_object ty nm sc = (obj, sc')"
  shows "host_step_ok sc sc'"
  using add_object_fresh [OF assms] unfolding host_step_ok_def by auto

lemma add_objects_fresh:
  "add_objects ty nms sc = (objs, sc') \<Longrightarrow>
     host_step_ok sc sc' \<and> set objs \<subseteq> set (objects sc') - set (objects sc)"
proof (induction nms arbitrary: sc objs sc')
  case Nil
  then show ?case by (simp add: host_step_ok_refl)
next
  case (Cons nm nms)
  obtain obj sc1 where one: "add_object ty nm sc = (obj, sc1)"
    by (cases "add_object ty nm sc")
  obtain objs1 sc2 where rest: "add_objects ty nms sc1 = (objs1, sc2)"
    by (cases "add_objects ty nms sc1")
  from Cons.prems one rest have res: "objs = obj # objs1" "sc' = sc2"
    by simp_all
  note f = add_object_fresh(1,2) [OF one]
  from Cons.IH [OF rest]
  have ih: "host_step_ok sc1 sc2" "set objs1 \<subseteq> set (objects sc2) - set (objects sc1)"
    by simp_all
  have "host_step_ok sc sc2"
    by (rule host_step_ok_trans [OF add_object_step [OF one] ih(1)])
  moreover have "set (obj # objs1) \<subseteq> set (objects sc2) - set (objects sc)"
    using f ih unfolding host_step_ok_def by auto
  ultimately show ?case
    using res by simp
qed

lemma model_host_ok: "host_ok model_host"
  unfolding host_ok_def
proof (intro conjI allI impI)
  fix path :: string and sc
  assume "path \<in> {''Network::Nodes'', ''Network::Edges'', ''Network::Paths''}"
  then show "2 \<le> length (fst (create_collections_from_path model_host path sc))"
    by (auto simp: model_host_def)
next
  fix path :: string and sc
  show "host_step_ok sc (snd (create_collections_from_path model_host path sc))"
    by (simp add: model_host_def host_step_ok_same)
next
  fix pts :: "'a bl_point list" and coll sc
  show "host_step_ok sc (snd (draw_points model_host pts coll sc))"
    using add_objects_fresh [of MESH "map pt_name pts" sc]
    by (cases "add_objects MESH (map pt_name pts) sc") (simp add: model_host_def)
next
  fix pts :: "'a bl_point list" and coll sc
  show "set (fst (draw_points model_host pts coll sc))
          \<subseteq> set (objects (snd (draw_points model_host pts coll sc))) - set (objects sc)"
    using add_objects_fresh [of MESH "map pt_name pts" sc]
    by (cases "add_objects MESH (map pt_name pts) sc") (simp add: model_host_def)
next
  fix lns :: "'a bl_line list" and coll sc
  show "host_step_ok sc (snd (draw_lines model_host lns coll sc))"
    using add_objects_fresh [of CURVE "map ln_name lns" sc]
    by (cases "add_objects CURVE (map ln_name lns) sc") (simp add: model_host_def)
next
  fix lns :: "'a bl_line list" and coll sc
  show "set (fst (draw_lines model_host lns coll sc))
          \<subseteq> set (objects (snd (draw_lines model_host lns coll sc))) - set (objects sc)"
    using add_objects_fresh [of CURVE "map ln_name lns" sc]
    by (cases "add_objects CURVE (map ln_name lns) sc") (simp add: model_host_def)
qed

lemma draw_nodes_keeps:
  assumes h: "host_ok h" and run: "draw_nodes h ns c a sc = Inr (objs, a', sc')"
  shows "set (objects sc) \<subseteq> set (objects sc')"
proof -
  from draw_nodes_Inr [OF run] obtain pts coll a1 sc1
    where coll: "nodecollection h a sc = Inr (coll, a1, sc1)"
      and dp: "draw_points h pts coll sc1 = (objs, sc')"
    by blast
  from nodecollection_frame [OF coll]
  have "sc1 = sc \<or> sc1 = snd (create_collections_from_path h ''Network::Nodes'' sc)"
    by simp
  with host_ok_collections(2) [OF h, of "''Network::Nodes''" sc]
  have "set (objects sc) \<subseteq> set (objects sc1)"
    by auto
  with host_ok_points(1) [OF h dp] show ?thesis
    by blast
qed

lemma draw_edges_keeps:
  assumes h: "host_ok h" and run: "draw_edges h es c a sc = Inr (objs, a', sc')"
  shows "set (objects sc) \<subseteq> set (objects sc')"
proof -
  from draw_edges_Inr [OF run] obtain lns coll a1 sc1
    where coll: "edgecollection h a sc = Inr (coll, a1, sc1)"
      and dp: "draw_lines h lns coll sc1 = (objs, sc')"
    by blast
  from edgecollection_frame [OF coll]
  have "sc1 = sc \<or> sc1 = snd (create_collections_from_path h ''Network::Edges'' sc)"
    by simp
  with host_ok_collections(2) [OF h, of "''Network::Edges''" sc]
  have "set (objects sc) \<subseteq> set (objects sc1)"
    by auto
  with host_ok_lines(1) [OF h dp] show ?thesis
    by blast
qed

subsection \<open>The descriptors of a drawing method\<close>

lemma py_or_empty: "py_or (Some []) ys = ys"
  by (simp add: py_or_def)

lemma for_append_colordict:
  "for_append (\<lambda>k. bind_err (getitem (colordict color ks dflt) k) (\<lambda>c. Inr (mk k c))) ks
     = Inr (map (\<lambda>k. mk k (case color of ColorNone \<Rightarrow> dflt | ColorOne c \<Rightarrow> c
                              | ColorDict m \<Rightarrow> (case m k of None \<Rightarrow> dflt | Some c \<Rightarrow> c))) ks)"
  by (rule for_append_total) (simp add: getitem_def colordict_def)

lemma draw_vertices_all:
  assumes "ma_settings a ''color.vertices'' = Some dflt"
  shows "\<exists>pts. map gp_pos pts = map (vertex_coordinates (ma_mesh a)) (py_or ks (vertices (ma_mesh a))) \<and>
           map gp_name pts = map (\<lambda>v. mesh_name (ma_mesh a) @ ''.vertex.'' @ vertex_str (ma_mesh a) v)
                               (py_or ks (vertices (ma_mesh a))) \<and>
           draw_vertices h ks c a = Inr (gh_draw_points h pts)"
proof -
  let ?vs = "py_or ks (vertices (ma_mesh a))"
  define mk where "mk = (\<lambda>v col. \<lparr>gp_pos = vertex_coordinates (ma_mesh a) v,
      gp_name = mesh_name (ma_mesh a) @ ''.vertex.'' @ vertex_str (ma_mesh a) v, gp_color = col\<rparr>)"
  define res where "res = (\<lambda>k. case c of ColorNone \<Rightarrow> dflt | ColorOne c \<Rightarrow> c
                              | ColorDict m \<Rightarrow> (case m k of None \<Rightarrow> dflt | Some c \<Rightarrow> c))"
  have loop: "for_append (\<lambda>k. bind_err (getitem (colordict c ?vs dflt) k) (\<lambda>col. Inr (mk k col))) ?vs
     = Inr (map (\<lambda>k. mk k (res k)) ?vs)"
    unfolding res_def by (rule for_append_colordict)
  have "draw_vertices h ks c a = Inr (gh_draw_points h (map (\<lambda>k. mk k (res k)) ?vs))"
    using assms loop by (simp add: draw_vertices_def Let_def getitem_Some mk_def)
  moreover have "map gp_pos (map (\<lambda>k. mk k (res k)) ?vs) = map (vertex_coordinates (ma_mesh a)) ?vs"
    by (simp add: mk_def)
  moreover have "map gp_name (map (\<lambda>k. mk k (res k)) ?vs)
      = map (\<lambda>v. mesh_name (ma_mesh a) @ ''.vertex.'' @ vertex_str (ma_mesh a) v) ?vs"
    by (simp add: mk_def)
  ultimately show ?thesis by blast
qed

lemma draw_faces_all:
  assumes "ma_settings a ''color.faces'' = Some dflt"
  shows "\<exists>fs. map gf_points fs = map (face_coordinates (ma_mesh a)) (py_or ks (faces (ma_mesh a))) \<and>
           map gf_name fs = map (\<lambda>f. mesh_name (ma_mesh a) @ ''.face.'' @ face_str (ma_mesh a) f)
                               (py_or ks (faces (ma_mesh a))) \<and>
           draw_faces h ks c jf a
             = Inr (if \<not> truthy jf then gh_draw_faces h fs
                    else [foldl (rhino_mesh_append h) (rhino_mesh_new h) (gh_draw_faces h fs)])"
proof -
  let ?vs = "py_or ks (faces (ma_mesh a))"
  define mk where "mk = (\<lambda>f col. \<lparr>gf_points = face_coordinates (ma_mesh a) f,
      gf_name = mesh_name (ma_mesh a) @ ''.face.'' @ face_str (ma_mesh a) f, gf_color = col\<rparr>)"
  define res where "res = (\<lambda>k. case c of ColorNone \<Rightarrow> dflt | ColorOne c \<Rightarrow> c
                              | ColorDict m \<Rightarrow> (case m k of None \<Rightarrow> dflt | Some c \<Rightarrow> c))"
  have loop: "for_append (\<lambda>k. bind_err (getitem (colordict c ?vs dflt) k) (\<lambda>col. Inr (mk k col))) ?vs
     = Inr (map (\<lambda>k. mk k (res k)) ?vs)"
    unfolding res_def by (rule for_append_colordict)
  have "draw_faces h ks c jf a
     = Inr (if \<not> truthy jf then gh_draw_faces h (map (\<lambda>k. mk k (res k)) ?vs)
            else [foldl (rhino_mesh_append h) (rhino_mesh_new h)
                    (gh_draw_faces h (map (\<lambda>k. mk k (res k)) ?vs))])"
    using assms loop by (simp add: draw_faces_def Let_def getitem_Some mk_def)
  moreover have "map gf_points (map (\<lambda>k. mk k (res k)) ?vs) = map (face_coordinates (ma_mesh a)) ?vs"
    by (simp add: mk_def)
  moreover have "map gf_name (map (\<lambda>k. mk k (res k)) ?vs)
      = map (\<lambda>f. mesh_name (ma_mesh a) @ ''.face.'' @ face_str (ma_mesh a) f) ?vs"
    by (simp add: mk_def)
  ultimately show ?thesis by blast
qed

lemma mesh_draw_edges_all:
  assumes "ma_settings a ''color.edges'' = Some dflt"
  shows "\<exists>lns. map (\<lambda>l. (gl_start l, gl_end l)) lns
             = map (\<lambda>e. edge_coordinates (ma_mesh a) (fst e) (snd e)) (py_or ks (mesh_edges (ma_mesh a))) \<and>
           map gl_name lns = map (\<lambda>e. mesh_name (ma_mesh a) @ ''.edge.'' @ vertex_str (ma_mesh a) (fst e)
                                       @ ''-'' @ vertex_str (ma_mesh a) (snd e))
                               (py_or ks (mesh_edges (ma_mesh a))) \<and>
           mesh_draw_edges h ks c a = Inr (gh_draw_lines h lns)"
proof -
  let ?vs = "py_or ks (mesh_edges (ma_mesh a))"
  define mk where "mk = (\<lambda>e col. \<lparr>gl_start = fst (edge_coordinates (ma_mesh a) (fst e) (snd e)),
      gl_end = snd (edge_coordinates (ma_mesh a) (fst e) (snd e)), gl_color = col,
      gl_name = mesh_name (ma_mesh a) @ ''.edge.'' @ vertex_str (ma_mesh a) (fst e)
                                       @ ''-'' @ vertex_str (ma_mesh a) (snd e)\<rparr>)"
  define res where "res = (\<lambda>k. case c of ColorNone \<Rightarrow> dflt | ColorOne c \<Rightarrow> c
                              | ColorDict m \<Rightarrow> (case m k of None \<Rightarrow> dflt | Some c \<Rightarrow> c))"
  have loop: "for_append (\<lambda>k. bind_err (getitem (colordict c ?vs dflt) k) (\<lambda>col. Inr (mk k col))) ?vs
     = Inr (map (\<lambda>k. mk k (res k)) ?vs)"
    unfolding res_def by (rule for_append_colordict)
  have "mesh_draw_edges h ks c a = Inr (gh_draw_lines h (map (\<lambda>k. mk k (res k)) ?vs))"
    using assms loop by (simp add: mesh_draw_edges_def Let_def getitem_Some mk_def case_prod_beta)
  moreover have "map (\<lambda>l. (gl_start l, gl_end l)) (map (\<lambda>k. mk k (res k)) ?vs)
      = map (\<lambda>e. edge_coordinates (ma_mesh a) (fst e) (snd e)) ?vs"
    by (simp add: mk_def)
  moreover have "map gl_name (map (\<lambda>k. mk k (res k)) ?vs)
      = map (\<lambda>e. mesh_name (ma_mesh a) @ ''.edge.'' @ vertex_str (ma_mesh a) (fst e)
                                       @ ''-'' @ vertex_str (ma_mesh a) (snd e)) ?vs"
    by (simp add: mk_def)
  ultimately show ?thesis by blast
qed

lemma draw_nodes_all:
  assumes dflt: "settings a ''color.nodes'' = Some dflt"
    and coll: "nodecollection h a sc = Inr (coll, a1, sc1)"
  shows "\<exists>pts objs sc2.
           map pt_pos pts = map (node_coordinates (network a)) (py_or ns (nodes (network a))) \<and>
           map pt_name pts = map (\<lambda>n. net_name (network a) @ ''.node.'' @ node_str (network a) n)
                               (py_or ns (nodes (network a))) \<and>
           draw_points h pts coll sc1 = (objs, sc2) \<and>
           draw_nodes h ns c a sc
             = Inr (objs, a1\<lparr>priv_object_node :=
                                 py_dict (zip objs (py_or ns (nodes (network a))))\<rparr>, sc2)"
proof -
  let ?vs = "py_or ns (nodes (network a))"
  define mk where "mk = (\<lambda>node col. \<lparr>pt_pos = node_coordinates (network a) node,
                   pt_name = net_name (network a) @ ''.node.'' @ node_str (network a) node,
                   pt_color = col, pt_radius = PDec 5 2\<rparr>)"
  define res where "res = (\<lambda>k. case c of ColorNone \<Rightarrow> dflt | ColorOne c \<Rightarrow> c
                              | ColorDict m \<Rightarrow> (case m k of None \<Rightarrow> dflt | Some c \<Rightarrow> c))"
  define pts where "pts = map (\<lambda>k. mk k (res k)) ?vs"
  have loop: "for_append (\<lambda>k. bind_err (getitem (colordict c ?vs dflt) k) (\<lambda>col. Inr (mk k col))) ?vs
     = Inr pts"
    unfolding res_def pts_def by (rule for_append_colordict)
  obtain objs sc2 where dp: "draw_points h pts coll sc1 = (objs, sc2)"
    by (cases "draw_points h pts coll sc1")
  have "draw_nodes h ns c a sc = Inr (objs, a1\<lparr>priv_object_node := py_dict (zip objs ?vs)\<rparr>, sc2)"
    using dflt coll dp loop
    by (simp add: draw_nodes_def Let_def getitem_Some set_object_node_def mk_def)
  moreover have "map pt_pos pts = map (node_coordinates (network a)) ?vs"
    by (simp add: mk_def pts_def)
  moreover have "map pt_name pts
      = map (\<lambda>n. net_name (network a) @ ''.node.'' @ node_str (network a) n) ?vs"
    by (simp add: mk_def pts_def)
  ultimately show ?thesis using dp by blast
qed

lemma draw_edges_all:
  assumes dflt: "settings a ''color.edges'' = Some dflt"
    and coll: "edgecollection h a sc = Inr (coll, a1, sc1)"
  shows "\<exists>lns objs sc2.
           map ln_start lns = map (\<lambda>e. node_coordinates (network a) (fst e)) (py_or es (edges (network a))) \<and>
           map ln_end lns = map (\<lambda>e. node_coordinates (network a) (snd e)) (py_or es (edges (network a))) \<and>
           map ln_name lns = map (\<lambda>e. net_name (network a) @ ''.edge.'' @ node_str (network a) (fst e)
                                       @ ''-'' @ node_str (network a) (snd e))
                               (py_or es (edges (network a))) \<and>
           draw_lines h lns coll sc1 = (objs, sc2) \<and>
           draw_edges h es c a sc
             = Inr (objs, a1\<lparr>priv_object_edge :=
                                 py_dict (zip objs (py_or es (edges (network a))))\<rparr>, sc2)"
proof -
  let ?vs = "py_or es (edges (network a))"
  define mk where "mk = (\<lambda>edge col. \<lparr>ln_start = node_coordinates (network a) (fst edge),
                   ln_end = node_coordinates (network a) (snd edge),
                   ln_color = col,
                   ln_name = net_name (network a) @ ''.edge.''
                               @ node_str (network a) (fst edge) @ ''-''
                               @ node_str (network a) (snd edge),
                   ln_width = PDec 2 2\<rparr>)"
  define res where "res = (\<lambda>k. case c of ColorNone \<Rightarrow> dflt | ColorOne c \<Rightarrow> c
                              | ColorDict m \<Rightarrow> (case m k of None \<Rightarrow> dflt | Some c \<Rightarrow> c))"
  define lns where "lns = map (\<lambda>k. mk k (res k)) ?vs"
  have loop: "for_append (\<lambda>k. bind_err (getitem (colordict c ?vs dflt) k) (\<lambda>col. Inr (mk k col))) ?vs
     = Inr lns"
    unfolding res_def lns_def by (rule for_append_colordict)
  obtain objs sc2 where dp: "draw_lines h lns coll sc1 = (objs, sc2)"
    by (cases "draw_lines h lns coll sc1")
  have "draw_edges h es c a sc = Inr (objs, a1\<lparr>priv_object_edge := py_dict (zip objs ?vs)\<rparr>, sc2)"
    using dflt coll dp loop
    by (simp add: draw_edges_def Let_def getitem_Some set_object_edge_def mk_def)
  moreover have "map ln_start lns = map (\<lambda>e. node_coordinates (network a) (fst e)) ?vs"
    by (simp add: mk_def lns_def)
  moreover have "map ln_end lns = map (\<lambda>e. node_coordinates (network a) (snd e)) ?vs"
    by (simp add: mk_def lns_def)
  moreover have "map ln_name lns
      = map (\<lambda>e. net_name (network a) @ ''.edge.'' @ node_str (network a) (fst e)
                  @ ''-'' @ node_str (network a) (snd e)) ?vs"
    by (simp add: mk_def lns_def)
  ultimately show ?thesis using dp by blast
qed

section \<open>Properties\<close>

subsection \<open>Lookup and deletion by name\<close>

text \<open>
  Claim C6. \<open>get_object_by_name(name)\<close>, and with it \<open>delete_object_by_name(name)\<close>, raises
  the host's lookup error exactly when the scene has no object of that name. When there
  is one, \<open>get_object_by_name\<close> returns an object of the scene with that name and
  \<open>delete_object_by_name\<close> returns normally, in a scene without that object: the scene
  keeps, in order, the objects other than the deleted one that do not share its data
  block, which goes with it.
\<close>

theorem by_name_lookup:
  "(get_object_by_name name sc = Inl KeyError \<longleftrightarrow> name \<notin> ob_name ` set (objects sc)) \<and>
   (delete_object_by_name name sc = Inl KeyError \<longleftrightarrow> name \<notin> ob_name ` set (objects sc)) \<and>
   (name \<in> ob_name ` set (objects sc) \<longrightarrow>
      (\<exists>obj sc'. get_object_by_name name sc = Inr obj \<and> obj \<in> set (objects sc) \<and>
         ob_name obj = name \<and> delete_object_by_name name sc = Inr sc' \<and>
         objects sc' = filter (\<lambda>other. other \<noteq> obj \<and> \<not> shares_data obj other) (objects sc) \<and>
         obj \<notin> set (objects sc')))"
proof (cases "find (\<lambda>obj. ob_name obj = name) (objects sc)")
  case None
  then have "name \<notin> ob_name ` set (objects sc)"
    by (simp add: find_name_None)
  with None show ?thesis
    by (simp add: get_object_by_name_def delete_object_by_name_def)
next
  case (Some obj)
  then have in_scene: "obj \<in> set (objects sc)" and nm: "ob_name obj = name"
    using find_name_Some by fastforce+
  from delete_object_present [OF in_scene] obtain sc'
    where del: "delete_object obj sc = Inr sc'"
      and objs: "objects sc' = filter (\<lambda>other. other \<noteq> obj \<and> \<not> shares_data obj other) (objects sc)"
    by blast
  have "name \<in> ob_name ` set (objects sc)"
    using in_scene nm by force
  with Some in_scene nm del objs show ?thesis
    by (simp add: get_object_by_name_def delete_object_by_name_def)
qed

theorem by_name_lookup_witness:
  "''Linked'' \<in> ob_name ` set (objects linked_scene) \<and>
   get_object_by_name ''Linked'' linked_scene = Inr node_linked \<and>
   delete_object_by_name ''Linked'' linked_scene
     = Inr (linked_scene\<lparr>objects := [], meshes := []\<rparr>) \<and>
   (\<exists>obj sc'. get_object_by_name ''Cube'' cube_scene = Inr obj \<and> obj \<in> set (objects cube_scene) \<and>
      ob_name obj = ''Cube'' \<and> delete_object_by_name ''Cube'' cube_scene = Inr sc' \<and>
      objects sc' = filter (\<lambda>other. other \<noteq> obj \<and> \<not> shares_data obj other) (objects cube_scene) \<and>
      obj \<notin> set (objects sc')) \<and>
   get_object_by_name ''Lamp'' cube_scene = Inl KeyError \<and>
   delete_object_by_name ''Lamp'' cube_scene = Inl KeyError"
proof -
  have present: "''Cube'' \<in> ob_name ` set (objects cube_scene)"
    by (simp add: cube_scene_def)
  have absent: "''Lamp'' \<notin> ob_name ` set (objects cube_scene)"
    by (simp add: cube_scene_def)
  have linked: "''Linked'' \<in> ob_name ` set (objects linked_scene)"
    by (simp add: linked_scene_def node_linked_def)
  have get: "get_object_by_name ''Linked'' linked_scene = Inr node_linked"
    by (simp add: get_object_by_name_def linked_scene_def node_linked_def node_a_def)
  from by_name_lookup [of "''Linked''" linked_scene] linked get
  obtain sc' where del: "delete_object_by_name ''Linked'' linked_scene = Inr sc'"
    and objs: "objects sc' = filter (\<lambda>other. other \<noteq> node_linked \<and> \<not> shares_data node_linked other)
                 (objects linked_scene)"
    by auto
  have "objects sc' = []"
    unfolding objs by (simp add: linked_scene_def node_linked_def node_a_def shares_data_def)
  moreover have "delete_object_by_name ''Linked'' linked_scene
      = Inr (linked_scene\<lparr>objects := [], meshes := []\<rparr>)"
    by (simp add: delete_object_by_name_def get_object_by_name_def delete_object_def
        remove_mesh_def uses_data_def
        linked_scene_def node_linked_def node_a_def)
  ultimately show ?thesis
    using linked get present absent by_name_lookup [of "''Cube''" cube_scene]
      by_name_lookup [of "''Lamp''" cube_scene]
    by blast
qed

subsection \<open>Drawing the nodes of a network\<close>

text \<open>
  Claim C1. Let \<open>N\<close> be the given nodes if there are any, and all nodes of the network
  otherwise. When \<open>settings['color.nodes']\<close> is there and the node collection is
  obtained, \<open>draw_nodes(nodes, color)\<close> builds one point descriptor per node of \<open>N\<close>, in
  order: its position is \<open>network.node_coordinates(node)\<close>, its name is
  \<open>'{network.name}.node.{node}'\<close> and its colour is what the colour dictionary, with
  default \<open>settings['color.nodes']\<close>, has for the node. It passes that list to the
  host's \<open>draw_points\<close>, returns the handles, and stores \<open>dict(zip(handles, N))\<close> as
  \<open>object_node\<close>: when the handles are distinct and as many as the nodes, the pairs of
  handle and node in order.
\<close>

theorem draw_nodes_builds_and_tracks:
  assumes dflt: "settings a ''color.nodes'' = Some dflt"
    and coll: "nodecollection h a sc = Inr (coll, a1, sc1)"
    and N: "N = (case nodes_arg of
                   None \<Rightarrow> nodes (network a)
                 | Some [] \<Rightarrow> nodes (network a)
                 | Some (n # ns) \<Rightarrow> n # ns)"
  shows "\<exists>pts objs sc2.
           length pts = length N \<and>
           (\<forall>i<length N.
              pt_pos (pts ! i) = node_coordinates (network a) (N ! i) \<and>
              pt_name (pts ! i) = net_name (network a) @ ''.node.'' @ node_str (network a) (N ! i) \<and>
              colordict color N dflt (N ! i) = Some (pt_color (pts ! i))) \<and>
           draw_points h pts coll sc1 = (objs, sc2) \<and>
           draw_nodes h nodes_arg color a sc
             = Inr (objs, a1\<lparr>priv_object_node := py_dict (zip objs N)\<rparr>, sc2) \<and>
           (distinct objs \<and> length objs = length N \<longrightarrow>
              object_node (a1\<lparr>priv_object_node := py_dict (zip objs N)\<rparr>) = zip objs N)"
proof -
  define resolve where "resolve = (\<lambda>node. case color of
      ColorNone \<Rightarrow> dflt | ColorOne c \<Rightarrow> c
    | ColorDict m \<Rightarrow> (case m node of None \<Rightarrow> dflt | Some c \<Rightarrow> c))"
  define mk where "mk = (\<lambda>node.
      \<lparr>pt_pos = node_coordinates (network a) node,
       pt_name = net_name (network a) @ ''.node.'' @ node_str (network a) node,
       pt_color = resolve node, pt_radius = PDec 5 2\<rparr>)"
  define pts where "pts = map mk N"
  obtain objs sc2 where dp: "draw_points h pts coll sc1 = (objs, sc2)"
    by (cases "draw_points h pts coll sc1")
  have look: "getitem (colordict color N dflt) node = Inr (resolve node)" if "node \<in> set N" for node
    using that by (simp add: getitem_def colordict_def resolve_def)
  have loop: "for_append (\<lambda>node. bind_err (getitem (colordict color N dflt) node) (\<lambda>c.
                 Inr \<lparr>pt_pos = node_coordinates (network a) node,
                      pt_name = net_name (network a) @ ''.node.'' @ node_str (network a) node,
                      pt_color = c, pt_radius = PDec 5 2\<rparr>)) N = Inr pts"
    unfolding pts_def by (rule for_append_total) (simp add: look mk_def)
  have sel: "py_or nodes_arg (nodes (network a)) = N"
    unfolding N by (simp add: py_or_def split: option.split list.split)
  have run: "draw_nodes h nodes_arg color a sc
               = Inr (objs, a1\<lparr>priv_object_node := py_dict (zip objs N)\<rparr>, sc2)"
    using dflt coll dp loop
    by (simp add: draw_nodes_def Let_def sel getitem_def set_object_node_def)
  have fields: "pt_pos (pts ! i) = node_coordinates (network a) (N ! i) \<and>
        pt_name (pts ! i) = net_name (network a) @ ''.node.'' @ node_str (network a) (N ! i) \<and>
        colordict color N dflt (N ! i) = Some (pt_color (pts ! i))" if "i < length N" for i
    using that by (simp add: pts_def mk_def colordict_def resolve_def)
  have track: "object_node (a1\<lparr>priv_object_node := py_dict (zip objs N)\<rparr>) = zip objs N"
    if "distinct objs" "length objs = length N"
    using that by (simp add: object_node_def py_dict_distinct)
  have "length pts = length N" by (simp add: pts_def)
  with fields dp run track show ?thesis by blast
qed

theorem draw_nodes_builds_and_tracks_witness:
  "settings example_artist ''color.nodes'' = Some (PTuple [PInt 255, PInt 255, PInt 255]) \<and>
   nodecollection model_host example_artist empty_scene
     = Inr (''Nodes'', example_artist\<lparr>priv_nodecollection := Some ''Nodes''\<rparr>,
            empty_scene\<lparr>collections := [''Network'', ''Nodes'']\<rparr>) \<and>
   [''b''] = (case Some [''b''] of
                None \<Rightarrow> nodes (network example_artist)
              | Some [] \<Rightarrow> nodes (network example_artist)
              | Some (n # ns) \<Rightarrow> n # ns) \<and>
   (\<exists>(pts :: int vec3 bl_point list).
      length pts = 1 \<and>
      pt_pos (pts ! 0) = (1, 0, 0) \<and> pt_name (pts ! 0) = ''Network.node.b'' \<and>
      pt_color (pts ! 0) = PStr ''red'' \<and>
      draw_points model_host pts ''Nodes'' (empty_scene\<lparr>collections := [''Network'', ''Nodes'']\<rparr>)
        = ([node_b], \<lparr>objects = [node_b], meshes = [''Network.node.b''], curves = [],
                       collections = [''Network'', ''Nodes'']\<rparr>)) \<and>
   draw_nodes model_host (Some [''b'']) (ColorOne (PStr ''red'')) example_artist empty_scene
     = Inr ([node_b],
            example_artist\<lparr>priv_nodecollection := Some ''Nodes'',
                            priv_object_node := [(node_b, ''b'')]\<rparr>,
            \<lparr>objects = [node_b], meshes = [''Network.node.b''], curves = [],
             collections = [''Network'', ''Nodes'']\<rparr>) \<and>
   object_node (example_artist\<lparr>priv_nodecollection := Some ''Nodes'',
                               priv_object_node := py_dict (zip [node_b] [''b''])\<rparr>)
     = zip [node_b] [''b'']"
proof -
  have dflt: "settings example_artist ''color.nodes'' = Some (PTuple [PInt 255, PInt 255, PInt 255])"
    by (simp add: example_artist_def NetworkArtist_init_def default_settings_def dict_or_empty_def)
  have coll: "nodecollection model_host example_artist empty_scene
     = Inr (''Nodes'', example_artist\<lparr>priv_nodecollection := Some ''Nodes''\<rparr>,
            empty_scene\<lparr>collections := [''Network'', ''Nodes'']\<rparr>)"
    by (simp add: nodecollection_def model_host_def example_artist_def NetworkArtist_init_def
        empty_scene_def second_collection_def)
  have sel: "[''b''] = (case Some [''b''] of
                None \<Rightarrow> nodes (network example_artist)
              | Some [] \<Rightarrow> nodes (network example_artist)
              | Some (n # ns) \<Rightarrow> n # ns)"
    by simp
  have net: "node_coordinates (network example_artist) ''b'' = (1, 0, 0)"
     "net_name (network example_artist) = ''Network''"
     "node_str (network example_artist) ''b'' = ''b''"
    by (simp_all add: example_artist_def NetworkArtist_init_def example_network_def)
  from draw_nodes_builds_and_tracks [OF dflt coll sel, of "ColorOne (PStr ''red'')"]
  obtain pts :: "int vec3 bl_point list" and objs sc2 where len: "length pts = length [''b'']"
    and fields: "\<forall>i<length [''b''].
        pt_pos (pts ! i) = node_coordinates (network example_artist) ([''b''] ! i) \<and>
        pt_name (pts ! i) = net_name (network example_artist) @ ''.node.''
          @ node_str (network example_artist) ([''b''] ! i) \<and>
        colordict (ColorOne (PStr ''red'')) [''b''] (PTuple [PInt 255, PInt 255, PInt 255])
          ([''b''] ! i) = Some (pt_color (pts ! i))"
    and dp: "draw_points model_host pts ''Nodes''
        (empty_scene\<lparr>collections := [''Network'', ''Nodes'']\<rparr>) = (objs, sc2)"
    and run: "draw_nodes model_host (Some [''b'']) (ColorOne (PStr ''red'')) example_artist empty_scene
        = Inr (objs, example_artist\<lparr>priv_nodecollection := Some ''Nodes'',
                                    priv_object_node := py_dict (zip objs [''b''])\<rparr>, sc2)"
    and track: "distinct objs \<and> length objs = length [''b''] \<longrightarrow>
        object_node (example_artist\<lparr>priv_nodecollection := Some ''Nodes'',
                                    priv_object_node := py_dict (zip objs [''b''])\<rparr>)
          = zip objs [''b'']"
    by auto
  from fields [rule_format, of 0]
  have pt: "pt_pos (pts ! 0) = (1, 0, 0)" "pt_name (pts ! 0) = ''Network.node.b''"
      "pt_color (pts ! 0) = PStr ''red''"
    by (simp_all add: net colordict_def)
  from len have one: "length pts = 1"
    by simp
  then have "map pt_name pts = [pt_name (pts ! 0)]"
    by (cases pts) simp_all
  with pt have names: "map pt_name pts = [''Network.node.b'']"
    by simp
  with dp have objs: "objs = [node_b]"
    and sc2: "sc2 = \<lparr>objects = [node_b], meshes = [''Network.node.b''], curves = [],
                     collections = [''Network'', ''Nodes'']\<rparr>"
    by (auto simp add: model_host_defs example_defs Let_def)
  from dp one pt have points: "\<exists>(pts :: int vec3 bl_point list).
      length pts = 1 \<and>
      pt_pos (pts ! 0) = (1, 0, 0) \<and> pt_name (pts ! 0) = ''Network.node.b'' \<and>
      pt_color (pts ! 0) = PStr ''red'' \<and>
      draw_points model_host pts ''Nodes'' (empty_scene\<lparr>collections := [''Network'', ''Nodes'']\<rparr>)
        = ([node_b], \<lparr>objects = [node_b], meshes = [''Network.node.b''], curves = [],
                       collections = [''Network'', ''Nodes'']\<rparr>)"
    unfolding objs sc2 by (intro exI [of _ pts]) simp
  from run have drawn: "draw_nodes model_host (Some [''b'']) (ColorOne (PStr ''red''))
      example_artist empty_scene
     = Inr ([node_b],
            example_artist\<lparr>priv_nodecollection := Some ''Nodes'',
                            priv_object_node := [(node_b, ''b'')]\<rparr>,
            \<lparr>objects = [node_b], meshes = [''Network.node.b''], curves = [],
             collections = [''Network'', ''Nodes'']\<rparr>)"
    unfolding objs sc2 by (simp add: py_dict_def)
  from track have tracked: "object_node (example_artist\<lparr>priv_nodecollection := Some ''Nodes'',
                               priv_object_node := py_dict (zip [node_b] [''b''])\<rparr>)
     = zip [node_b] [''b'']"
    unfolding objs by simp
  from dflt coll sel points drawn tracked show ?thesis
    by (intro conjI)
qed

subsection \<open>The empty selection\<close>

text \<open>
  Claim C10. An empty list as the selection of \<open>NetworkArtist.draw_nodes\<close> and
  \<open>draw_edges\<close> and of \<open>MeshArtist.draw_vertices\<close>, \<open>draw_faces\<close> and \<open>draw_edges\<close> gives
  what \<open>None\<close> gives, and the call draws all nodes, edges, vertices or faces: when the
  default colour is in the settings (and, for the network artist, the collection is
  obtained), the host function gets one descriptor for each node, edge, vertex or face of
  the data structure, in their order, with its coordinates and its name, and the method
  returns what the host function returns for that list.
\<close>

theorem empty_selection_is_none:
  "draw_nodes hb (Some []) cn na sc = draw_nodes hb None cn na sc \<and>
   draw_edges hb (Some []) ce na sc = draw_edges hb None ce na sc \<and>
   draw_vertices hg (Some []) cv ma = draw_vertices hg None cv ma \<and>
   draw_faces hg (Some []) cf jf ma = draw_faces hg None cf jf ma \<and>
   mesh_draw_edges hg (Some []) cme ma = mesh_draw_edges hg None cme ma \<and>
   (settings na ''color.nodes'' = Some dn \<and> nodecollection hb na sc = Inr (ncoll, nart, nsc) \<longrightarrow>
      (\<exists>pts objs sc2.
         map pt_pos pts = map (node_coordinates (network na)) (nodes (network na)) \<and>
         map pt_name pts = map (\<lambda>n. net_name (network na) @ ''.node.'' @ node_str (network na) n)
                             (nodes (network na)) \<and>
         draw_points hb pts ncoll nsc = (objs, sc2) \<and>
         draw_nodes hb (Some []) cn na sc
           = Inr (objs, nart\<lparr>priv_object_node := py_dict (zip objs (nodes (network na)))\<rparr>, sc2))) \<and>
   (settings na ''color.edges'' = Some de \<and> edgecollection hb na sc = Inr (ecoll, eart, esc) \<longrightarrow>
      (\<exists>lns objs sc4.
         map ln_start lns = map (\<lambda>e. node_coordinates (network na) (fst e)) (edges (network na)) \<and>
         map ln_end lns = map (\<lambda>e. node_coordinates (network na) (snd e)) (edges (network na)) \<and>
         map ln_name lns = map (\<lambda>e. net_name (network na) @ ''.edge.'' @ node_str (network na) (fst e)
                                     @ ''-'' @ node_str (network na) (snd e))
                             (edges (network na)) \<and>
         draw_lines hb lns ecoll esc = (objs, sc4) \<and>
         draw_edges hb (Some []) ce na sc
           = Inr (objs, eart\<lparr>priv_object_edge := py_dict (zip objs (edges (network na)))\<rparr>, sc4))) \<and>
   (ma_settings ma ''color.vertices'' = Some dv \<longrightarrow>
      (\<exists>pts.
         map gp_pos pts = map (vertex_coordinates (ma_mesh ma)) (vertices (ma_mesh ma)) \<and>
         map gp_name pts = map (\<lambda>v. mesh_name (ma_mesh ma) @ ''.vertex.'' @ vertex_str (ma_mesh ma) v)
                             (vertices (ma_mesh ma)) \<and>
         draw_vertices hg (Some []) cv ma = Inr (gh_draw_points hg pts))) \<and>
   (ma_settings ma ''color.faces'' = Some df \<longrightarrow>
      (\<exists>fs.
         map gf_points fs = map (face_coordinates (ma_mesh ma)) (faces (ma_mesh ma)) \<and>
         map gf_name fs = map (\<lambda>f. mesh_name (ma_mesh ma) @ ''.face.'' @ face_str (ma_mesh ma) f)
                            (faces (ma_mesh ma)) \<and>
         draw_faces hg (Some []) cf jf ma
           = Inr (if \<not> truthy jf then gh_draw_faces hg fs
                  else [foldl (rhino_mesh_append hg) (rhino_mesh_new hg) (gh_draw_faces hg fs)]))) \<and>
   (ma_settings ma ''color.edges'' = Some dme \<longrightarrow>
      (\<exists>lns.
         map (\<lambda>l. (gl_start l, gl_end l)) lns
           = map (\<lambda>e. edge_coordinates (ma_mesh ma) (fst e) (snd e)) (mesh_edges (ma_mesh ma)) \<and>
         map gl_name lns = map (\<lambda>e. mesh_name (ma_mesh ma) @ ''.edge.'' @ vertex_str (ma_mesh ma) (fst e)
                                     @ ''-'' @ vertex_str (ma_mesh ma) (snd e))
                             (mesh_edges (ma_mesh ma)) \<and>
         mesh_draw_edges hg (Some []) cme ma = Inr (gh_draw_lines hg lns)))"
proof (intro conjI impI)
  show "draw_nodes hb (Some []) cn na sc = draw_nodes hb None cn na sc"
    by (simp add: draw_nodes_def py_or_def)
  show "draw_edges hb (Some []) ce na sc = draw_edges hb None ce na sc"
    by (simp add: draw_edges_def py_or_def)
  show "draw_vertices hg (Some []) cv ma = draw_vertices hg None cv ma"
    by (simp add: draw_vertices_def py_or_def)
  show "draw_faces hg (Some []) cf jf ma = draw_faces hg None cf jf ma"
    by (simp add: draw_faces_def py_or_def)
  show "mesh_draw_edges hg (Some []) cme ma = mesh_draw_edges hg None cme ma"
    by (simp add: mesh_draw_edges_def py_or_def)
next
  assume "settings na ''color.nodes'' = Some dn \<and> nodecollection hb na sc = Inr (ncoll, nart, nsc)"
  then have "settings na ''color.nodes'' = Some dn" "nodecollection hb na sc = Inr (ncoll, nart, nsc)"
    by simp_all
  from draw_nodes_all [OF this, of "Some []" cn]
  show "\<exists>pts objs sc2.
         map pt_pos pts = map (node_coordinates (network na)) (nodes (network na)) \<and>
         map pt_name pts = map (\<lambda>n. net_name (network na) @ ''.node.'' @ node_str (network na) n)
                             (nodes (network na)) \<and>
         draw_points hb pts ncoll nsc = (objs, sc2) \<and>
         draw_nodes hb (Some []) cn na sc
           = Inr (objs, nart\<lparr>priv_object_node := py_dict (zip objs (nodes (network na)))\<rparr>, sc2)"
    unfolding py_or_empty .
next
  assume "settings na ''color.edges'' = Some de \<and> edgecollection hb na sc = Inr (ecoll, eart, esc)"
  then have "settings na ''color.edges'' = Some de" "edgecollection hb na sc = Inr (ecoll, eart, esc)"
    by simp_all
  from draw_edges_all [OF this, of "Some []" ce]
  show "\<exists>lns objs sc4.
         map ln_start lns = map (\<lambda>e. node_coordinates (network na) (fst e)) (edges (network na)) \<and>
         map ln_end lns = map (\<lambda>e. node_coordinates (network na) (snd e)) (edges (network na)) \<and>
         map ln_name lns = map (\<lambda>e. net_name (network na) @ ''.edge.'' @ node_str (network na) (fst e)
                                     @ ''-'' @ node_str (network na) (snd e))
                             (edges (network na)) \<and>
         draw_lines hb lns ecoll esc = (objs, sc4) \<and>
         draw_edges hb (Some []) ce na sc
           = Inr (objs, eart\<lparr>priv_object_edge := py_dict (zip objs (edges (network na)))\<rparr>, sc4)"
    unfolding py_or_empty .
next
  assume "ma_settings ma ''color.vertices'' = Some dv"
  from draw_vertices_all [OF this, of "Some []" hg cv]
  show "\<exists>pts.
         map gp_pos pts = map (vertex_coordinates (ma_mesh ma)) (vertices (ma_mesh ma)) \<and>
         map gp_name pts = map (\<lambda>v. mesh_name (ma_mesh ma) @ ''.vertex.'' @ vertex_str (ma_mesh ma) v)
                             (vertices (ma_mesh ma)) \<and>
         draw_vertices hg (Some []) cv ma = Inr (gh_draw_points hg pts)"
    unfolding py_or_empty .
next
  assume "ma_settings ma ''color.faces'' = Some df"
  from draw_faces_all [OF this, of "Some []" hg cf jf]
  show "\<exists>fs.
         map gf_points fs = map (face_coordinates (ma_mesh ma)) (faces (ma_mesh ma)) \<and>
         map gf_name fs = map (\<lambda>f. mesh_name (ma_mesh ma) @ ''.face.'' @ face_str (ma_mesh ma) f)
                            (faces (ma_mesh ma)) \<and>
         draw_faces hg (Some []) cf jf ma
           = Inr (if \<not> truthy jf then gh_draw_faces hg fs
                  else [foldl (rhino_mesh_append hg) (rhino_mesh_new hg) (gh_draw_faces hg fs)])"
    unfolding py_or_empty .
next
  assume "ma_settings ma ''color.edges'' = Some dme"
  from mesh_draw_edges_all [OF this, of "Some []" hg cme]
  show "\<exists>lns.
         map (\<lambda>l. (gl_start l, gl_end l)) lns
           = map (\<lambda>e. edge_coordinates (ma_mesh ma) (fst e) (snd e)) (mesh_edges (ma_mesh ma)) \<and>
         map gl_name lns = map (\<lambda>e. mesh_name (ma_mesh ma) @ ''.edge.'' @ vertex_str (ma_mesh ma) (fst e)
                                     @ ''-'' @ vertex_str (ma_mesh ma) (snd e))
                             (mesh_edges (ma_mesh ma)) \<and>
         mesh_draw_edges hg (Some []) cme ma = Inr (gh_draw_lines hg lns)"
    unfolding py_or_empty .
qed


theorem empty_selection_is_none_witness:
  "settings example_artist ''color.nodes'' = Some (PTuple [PInt 255, PInt 255, PInt 255]) \<and>
   nodecollection model_host example_artist empty_scene
     = Inr (''Nodes'', example_artist\<lparr>priv_nodecollection := Some ''Nodes''\<rparr>,
            empty_scene\<lparr>collections := [''Network'', ''Nodes'']\<rparr>) \<and>
   draw_nodes model_host (Some []) ColorNone example_artist empty_scene
     = Inr ([node_a, node_b],
            example_artist\<lparr>priv_nodecollection := Some ''Nodes'',
                            priv_object_node := [(node_a, ''a''), (node_b, ''b'')]\<rparr>,
            example_drawn_scene) \<and>
   settings example_artist ''color.edges'' = Some (PTuple [PInt 0, PInt 0, PInt 0]) \<and>
   edgecollection model_host example_artist empty_scene
     = Inr (''Edges'', example_artist\<lparr>priv_edgecollection := Some ''Edges''\<rparr>,
            empty_scene\<lparr>collections := [''Network'', ''Edges'']\<rparr>) \<and>
   draw_edges model_host (Some []) ColorNone example_artist empty_scene
     = Inr ([edge_ab],
            example_artist\<lparr>priv_edgecollection := Some ''Edges'',
                            priv_object_edge := [(edge_ab, (''a'', ''b''))]\<rparr>,
            \<lparr>objects = [edge_ab], meshes = [], curves = [''Network.edge.a-b''],
             collections = [''Network'', ''Edges'']\<rparr>) \<and>
   ma_settings example_mesh_artist ''color.vertices'' = Some (PTuple [PInt 255, PInt 255, PInt 255]) \<and>
   draw_vertices model_gh_host (Some []) ColorNone example_mesh_artist
     = Inr [''Mesh.vertex.a'', ''Mesh.vertex.b'', ''Mesh.vertex.c''] \<and>
   ma_settings example_mesh_artist ''color.faces'' = Some (PTuple [PInt 210, PInt 210, PInt 210]) \<and>
   draw_faces model_gh_host (Some []) ColorNone (PBool False) example_mesh_artist
     = Inr [''Mesh.face.f''] \<and>
   ma_settings example_mesh_artist ''color.edges'' = Some (PTuple [PInt 0, PInt 0, PInt 0]) \<and>
   mesh_draw_edges model_gh_host (Some []) ColorNone example_mesh_artist
     = Inr [''Mesh.edge.a-b'', ''Mesh.edge.b-c'', ''Mesh.edge.c-a'']"
proof -
  note inst = empty_selection_is_none [where hb = "model_host :: int vec3 blender_host"
      and hg = "model_gh_host :: (int vec3, string) gh_host"
      and na = example_artist and sc = empty_scene and ma = example_mesh_artist
      and cn = ColorNone and ce = ColorNone and cv = ColorNone and cf = ColorNone
      and cme = ColorNone and jf = "PBool False"
      and dn = "PTuple [PInt 255, PInt 255, PInt 255]" and ncoll = "''Nodes''"
      and nart = "example_artist\<lparr>priv_nodecollection := Some ''Nodes''\<rparr>"
      and nsc = "empty_scene\<lparr>collections := [''Network'', ''Nodes'']\<rparr>"
      and de = "PTuple [PInt 0, PInt 0, PInt 0]" and ecoll = "''Edges''"
      and eart = "example_artist\<lparr>priv_edgecollection := Some ''Edges''\<rparr>"
      and esc = "empty_scene\<lparr>collections := [''Network'', ''Edges'']\<rparr>"
      and dv = "PTuple [PInt 255, PInt 255, PInt 255]"
      and df = "PTuple [PInt 210, PInt 210, PInt 210]"
      and dme = "PTuple [PInt 0, PInt 0, PInt 0]"]
  have cn: "settings example_artist ''color.nodes'' = Some (PTuple [PInt 255, PInt 255, PInt 255])"
    by (simp add: example_defs)
  have nc: "nodecollection model_host example_artist empty_scene
     = Inr (''Nodes'', example_artist\<lparr>priv_nodecollection := Some ''Nodes''\<rparr>,
            empty_scene\<lparr>collections := [''Network'', ''Nodes'']\<rparr>)"
    by (simp add: nodecollection_def model_host_def example_artist_def NetworkArtist_init_def
        empty_scene_def second_collection_def)
  have ce: "settings example_artist ''color.edges'' = Some (PTuple [PInt 0, PInt 0, PInt 0])"
    by (simp add: example_defs)
  have ec: "edgecollection model_host example_artist empty_scene
     = Inr (''Edges'', example_artist\<lparr>priv_edgecollection := Some ''Edges''\<rparr>,
            empty_scene\<lparr>collections := [''Network'', ''Edges'']\<rparr>)"
    by (simp add: edgecollection_def model_host_def example_artist_def NetworkArtist_init_def
        empty_scene_def second_collection_def)
  have cv: "ma_settings example_mesh_artist ''color.vertices''
      = Some (PTuple [PInt 255, PInt 255, PInt 255])"
    by (simp add: example_mesh_artist_def MeshArtist_init_def)
  have cf: "ma_settings example_mesh_artist ''color.faces''
      = Some (PTuple [PInt 210, PInt 210, PInt 210])"
    by (simp add: example_mesh_artist_def MeshArtist_init_def)
  have cme: "ma_settings example_mesh_artist ''color.edges'' = Some (PTuple [PInt 0, PInt 0, PInt 0])"
    by (simp add: example_mesh_artist_def MeshArtist_init_def)
  have net: "nodes (network example_artist) = [''a'', ''b'']"
    "edges (network example_artist) = [(''a'', ''b'')]"
    "net_name (network example_artist) = ''Network''"
    "node_str (network example_artist) = (\<lambda>n. n)"
    by (simp_all add: example_artist_def NetworkArtist_init_def example_network_def)
  have msh: "vertices (ma_mesh example_mesh_artist) = [''a'', ''b'', ''c'']"
    "faces (ma_mesh example_mesh_artist) = [''f'']"
    "mesh_edges (ma_mesh example_mesh_artist) = [(''a'', ''b''), (''b'', ''c''), (''c'', ''a'')]"
    "mesh_name (ma_mesh example_mesh_artist) = ''Mesh''"
    "vertex_str (ma_mesh example_mesh_artist) = (\<lambda>v. v)"
    "face_str (ma_mesh example_mesh_artist) = (\<lambda>f. f)"
    by (simp_all add: example_mesh_artist_def MeshArtist_init_def example_mesh_def)
  note rest = inst [THEN conjunct2, THEN conjunct2, THEN conjunct2, THEN conjunct2, THEN conjunct2]
  note node_part = rest [THEN conjunct1, rule_format, OF conjI [OF cn nc]]
  note edge_part = rest [THEN conjunct2, THEN conjunct1, rule_format, OF conjI [OF ce ec]]
  note vertex_part = rest [THEN conjunct2, THEN conjunct2, THEN conjunct1, rule_format, OF cv]
  note face_part = rest [THEN conjunct2, THEN conjunct2, THEN conjunct2, THEN conjunct1,
      rule_format, OF cf]
  note mesh_edge_part = rest [THEN conjunct2, THEN conjunct2, THEN conjunct2, THEN conjunct2,
      rule_format, OF cme]
  have nodes: "draw_nodes model_host (Some []) ColorNone example_artist empty_scene
     = Inr ([node_a, node_b],
            example_artist\<lparr>priv_nodecollection := Some ''Nodes'',
                            priv_object_node := [(node_a, ''a''), (node_b, ''b'')]\<rparr>,
            example_drawn_scene)"
  proof -
    from node_part obtain pts :: "int vec3 bl_point list" and objs sc2
      where nm: "map pt_name pts
          = map (\<lambda>n. net_name (network example_artist) @ ''.node.'' @ node_str (network example_artist) n)
              (nodes (network example_artist))"
        and dp: "draw_points model_host pts ''Nodes'' (empty_scene\<lparr>collections := [''Network'', ''Nodes'']\<rparr>)
          = (objs, sc2)"
        and run: "draw_nodes model_host (Some []) ColorNone example_artist empty_scene
          = Inr (objs, example_artist\<lparr>priv_nodecollection := Some ''Nodes'',
                   priv_object_node := py_dict (zip objs (nodes (network example_artist)))\<rparr>, sc2)"
      by blast
    from nm have "map pt_name pts = [''Network.node.a'', ''Network.node.b'']"
      by (simp add: net)
    with dp have "objs = [node_a, node_b]" "sc2 = example_drawn_scene"
      by (auto simp add: model_host_defs example_defs Let_def)
    with run show ?thesis
      by (simp add: net py_dict_def node_a_def node_b_def)
  qed
  have edges: "draw_edges model_host (Some []) ColorNone example_artist empty_scene
     = Inr ([edge_ab],
            example_artist\<lparr>priv_edgecollection := Some ''Edges'',
                            priv_object_edge := [(edge_ab, (''a'', ''b''))]\<rparr>,
            \<lparr>objects = [edge_ab], meshes = [], curves = [''Network.edge.a-b''],
             collections = [''Network'', ''Edges'']\<rparr>)"
  proof -
    from edge_part obtain lns :: "int vec3 bl_line list" and objs sc4
      where nm: "map ln_name lns
          = map (\<lambda>e. net_name (network example_artist) @ ''.edge.''
                       @ node_str (network example_artist) (fst e) @ ''-''
                       @ node_str (network example_artist) (snd e))
              (edges (network example_artist))"
        and dl: "draw_lines model_host lns ''Edges'' (empty_scene\<lparr>collections := [''Network'', ''Edges'']\<rparr>)
          = (objs, sc4)"
        and run: "draw_edges model_host (Some []) ColorNone example_artist empty_scene
          = Inr (objs, example_artist\<lparr>priv_edgecollection := Some ''Edges'',
                   priv_object_edge := py_dict (zip objs (edges (network example_artist)))\<rparr>, sc4)"
      by blast
    from nm have "map ln_name lns = [''Network.edge.a-b'']"
      by (simp add: net)
    with dl have "objs = [edge_ab]"
      "sc4 = \<lparr>objects = [edge_ab], meshes = [], curves = [''Network.edge.a-b''],
             collections = [''Network'', ''Edges'']\<rparr>"
      by (auto simp add: model_host_defs example_defs edge_ab_def Let_def)
    with run show ?thesis
      by (simp add: net py_dict_def edge_ab_def)
  qed
  have vertices: "draw_vertices model_gh_host (Some []) ColorNone example_mesh_artist
     = Inr [''Mesh.vertex.a'', ''Mesh.vertex.b'', ''Mesh.vertex.c'']"
  proof -
    from vertex_part obtain pts :: "int vec3 gh_point list"
      where nm: "map gp_name pts
          = map (\<lambda>v. mesh_name (ma_mesh example_mesh_artist) @ ''.vertex.''
                       @ vertex_str (ma_mesh example_mesh_artist) v)
              (vertices (ma_mesh example_mesh_artist))"
        and run: "draw_vertices model_gh_host (Some []) ColorNone example_mesh_artist
          = Inr (gh_draw_points (model_gh_host :: (int vec3, string) gh_host) pts)"
      by blast
    from nm have "map gp_name pts = [''Mesh.vertex.a'', ''Mesh.vertex.b'', ''Mesh.vertex.c'']"
      by (simp add: msh)
    with run show ?thesis
      by (simp add: model_gh_host_def)
  qed
  have faces: "draw_faces model_gh_host (Some []) ColorNone (PBool False) example_mesh_artist
     = Inr [''Mesh.face.f'']"
  proof -
    from face_part obtain fs :: "int vec3 gh_face list"
      where nm: "map gf_name fs
          = map (\<lambda>f. mesh_name (ma_mesh example_mesh_artist) @ ''.face.''
                       @ face_str (ma_mesh example_mesh_artist) f)
              (faces (ma_mesh example_mesh_artist))"
        and run: "draw_faces model_gh_host (Some []) ColorNone (PBool False) example_mesh_artist
          = Inr (if \<not> truthy (PBool False)
                 then gh_draw_faces (model_gh_host :: (int vec3, string) gh_host) fs
                 else [foldl (rhino_mesh_append (model_gh_host :: (int vec3, string) gh_host))
                         (rhino_mesh_new (model_gh_host :: (int vec3, string) gh_host))
                         (gh_draw_faces (model_gh_host :: (int vec3, string) gh_host) fs)])"
      by blast
    from nm have "map gf_name fs = [''Mesh.face.f'']"
      by (simp add: msh)
    with run show ?thesis
      by (simp add: model_gh_host_def)
  qed
  have mesh_edges: "mesh_draw_edges model_gh_host (Some []) ColorNone example_mesh_artist
     = Inr [''Mesh.edge.a-b'', ''Mesh.edge.b-c'', ''Mesh.edge.c-a'']"
  proof -
    from mesh_edge_part obtain lns :: "int vec3 gh_line list"
      where nm: "map gl_name lns
          = map (\<lambda>e. mesh_name (ma_mesh example_mesh_artist) @ ''.edge.''
                       @ vertex_str (ma_mesh example_mesh_artist) (fst e) @ ''-''
                       @ vertex_str (ma_mesh example_mesh_artist) (snd e))
              (mesh_edges (ma_mesh example_mesh_artist))"
        and run: "mesh_draw_edges model_gh_host (Some []) ColorNone example_mesh_artist
          = Inr (gh_draw_lines (model_gh_host :: (int vec3, string) gh_host) lns)"
      by blast
    from nm have "map gl_name lns = [''Mesh.edge.a-b'', ''Mesh.edge.b-c'', ''Mesh.edge.c-a'']"
      by (simp add: msh)
    with run show ?thesis
      by (simp add: model_gh_host_def)
  qed
  from cn nc nodes ce ec edges cv vertices cf faces cme mesh_edges show ?thesis
    by (intro conjI)
qed

subsection \<open>Drawing a frame\<close>

text \<open>
  Claim C7. \<open>FrameArtist.draw\<close> passes to the host's \<open>draw_points\<close> exactly one point, at
  the origin of the frame and of colour \<open>color_origin\<close>, and then to the host's
  \<open>draw_lines\<close> exactly three lines with an arrow at the end, each from the origin to
  the origin plus the x, y or z axis scaled by \<open>scale\<close>, of colours \<open>color_xaxis\<close>,
  \<open>color_yaxis\<close> and \<open>color_zaxis\<close>. It returns the GUIDs of the point followed by the
  GUIDs of the lines and stores that list in \<open>guids\<close>; when the host returns one GUID
  per descriptor, these are the point's GUID and the three lines' GUIDs.
\<close>

theorem FrameArtist_draw_one_to_one:
  assumes "fr_point (primitive a) = (px, py, pz)"
    and "xaxis (primitive a) = (x1, x2, x3)"
    and "yaxis (primitive a) = (y1, y2, y3)"
    and "zaxis (primitive a) = (z1, z2, z3)"
    and "s = scale a"
  shows "\<exists>guids1 doc1 guids2 doc2.
           rh_draw_points h [\<lparr>rp_pos = [px, py, pz], rp_color = color_origin a\<rparr>]
             (layer a) False False doc = (guids1, doc1) \<and>
           rh_draw_lines h
             [\<lparr>rl_start = [px, py, pz], rl_end = [px + x1 * s, py + x2 * s, pz + x3 * s],
               rl_color = color_xaxis a, rl_arrow = ''end''\<rparr>,
              \<lparr>rl_start = [px, py, pz], rl_end = [px + y1 * s, py + y2 * s, pz + y3 * s],
               rl_color = color_yaxis a, rl_arrow = ''end''\<rparr>,
              \<lparr>rl_start = [px, py, pz], rl_end = [px + z1 * s, py + z2 * s, pz + z3 * s],
               rl_color = color_zaxis a, rl_arrow = ''end''\<rparr>]
             (layer a) False False doc1 = (guids2, doc2) \<and>
           FrameArtist_draw h a doc = (guids1 @ guids2, a\<lparr>guids := guids1 @ guids2\<rparr>, doc2) \<and>
           (length guids1 = 1 \<and> length guids2 = 3 \<longrightarrow>
              guids1 @ guids2 = [guids1 ! 0, guids2 ! 0, guids2 ! 1, guids2 ! 2])"
proof -
  let ?pts = "[\<lparr>rp_pos = [px, py, pz], rp_color = color_origin a\<rparr>]"
  let ?lns = "[\<lparr>rl_start = [px, py, pz], rl_end = [px + x1 * s, py + x2 * s, pz + x3 * s],
               rl_color = color_xaxis a, rl_arrow = ''end''\<rparr>,
              \<lparr>rl_start = [px, py, pz], rl_end = [px + y1 * s, py + y2 * s, pz + y3 * s],
               rl_color = color_yaxis a, rl_arrow = ''end''\<rparr>,
              \<lparr>rl_start = [px, py, pz], rl_end = [px + z1 * s, py + z2 * s, pz + z3 * s],
               rl_color = color_zaxis a, rl_arrow = ''end''\<rparr>]"
  obtain guids1 doc1 where p: "rh_draw_points h ?pts (layer a) False False doc = (guids1, doc1)"
    by (cases "rh_draw_points h ?pts (layer a) False False doc")
  obtain guids2 doc2 where l: "rh_draw_lines h ?lns (layer a) False False doc1 = (guids2, doc2)"
    by (cases "rh_draw_lines h ?lns (layer a) False False doc1")
  have run: "FrameArtist_draw h a doc = (guids1 @ guids2, a\<lparr>guids := guids1 @ guids2\<rparr>, doc2)"
    using assms p l by (simp add: FrameArtist_draw_def Let_def)
  have shape: "guids1 @ guids2 = [guids1 ! 0, guids2 ! 0, guids2 ! 1, guids2 ! 2]"
    if "length guids1 = 1" "length guids2 = 3"
  proof -
    from that obtain g where "guids1 = [g]"
      by (cases guids1) simp_all
    moreover from that obtain g0 g1 g2 where "guids2 = [g0, g1, g2]"
      by (cases guids2; cases "tl guids2"; cases "tl (tl guids2)") auto
    ultimately show ?thesis by simp
  qed
  from p l run shape show ?thesis by blast
qed

theorem FrameArtist_draw_one_to_one_witness:
  "fr_point (primitive example_frame_artist) = (1, 2, 3) \<and>
   xaxis (primitive example_frame_artist) = (1, 0, 0) \<and>
   yaxis (primitive example_frame_artist) = (0, 1, 0) \<and>
   zaxis (primitive example_frame_artist) = (0, 0, 1) \<and>
   2 = scale example_frame_artist \<and>
   rh_draw_points model_rhino_host
     [\<lparr>rp_pos = [1, 2, 3 :: int], rp_color = PTuple [PInt 0, PInt 0, PInt 0]\<rparr>] None False False 0
     = ([0], 1) \<and>
   rh_draw_lines model_rhino_host
     [\<lparr>rl_start = [1, 2, 3 :: int], rl_end = [3, 2, 3],
       rl_color = PTuple [PInt 255, PInt 0, PInt 0], rl_arrow = ''end''\<rparr>,
      \<lparr>rl_start = [1, 2, 3 :: int], rl_end = [1, 4, 3],
       rl_color = PTuple [PInt 0, PInt 255, PInt 0], rl_arrow = ''end''\<rparr>,
      \<lparr>rl_start = [1, 2, 3 :: int], rl_end = [1, 2, 5],
       rl_color = PTuple [PInt 0, PInt 0, PInt 255], rl_arrow = ''end''\<rparr>] None False False 1
     = ([1, 2, 3], 4) \<and>
   FrameArtist_draw model_rhino_host example_frame_artist 0
     = ([0, 1, 2, 3], example_frame_artist\<lparr>guids := [0, 1, 2, 3]\<rparr>, 4)"
proof -
  have fr: "fr_point (primitive example_frame_artist) = (1, 2, 3)"
    "xaxis (primitive example_frame_artist) = (1, 0, 0)"
    "yaxis (primitive example_frame_artist) = (0, 1, 0)"
    "zaxis (primitive example_frame_artist) = (0, 0, 1)"
    "2 = scale example_frame_artist"
    by (simp_all add: example_frame_artist_def FrameArtist_init_def example_frame_def)
  have att: "layer example_frame_artist = None"
    "color_origin example_frame_artist = PTuple [PInt 0, PInt 0, PInt 0]"
    "color_xaxis example_frame_artist = PTuple [PInt 255, PInt 0, PInt 0]"
    "color_yaxis example_frame_artist = PTuple [PInt 0, PInt 255, PInt 0]"
    "color_zaxis example_frame_artist = PTuple [PInt 0, PInt 0, PInt 255]"
    by (simp_all add: example_frame_artist_def FrameArtist_init_def)
  have pts: "rh_draw_points model_rhino_host
     [\<lparr>rp_pos = [1, 2, 3 :: int], rp_color = PTuple [PInt 0, PInt 0, PInt 0]\<rparr>] None False False 0
     = ([0], 1)"
    by (simp add: model_rhino_host_def)
  have lns: "rh_draw_lines model_rhino_host [l1, l2, l3] None False False 1 = ([1, 2, 3], 4)"
    for l1 l2 l3 :: "int rh_line"
    by (simp add: model_rhino_host_def)
  from FrameArtist_draw_one_to_one [OF fr, of model_rhino_host 0]
  obtain guids1 doc1 guids2 doc2
    where p: "rh_draw_points model_rhino_host
                [\<lparr>rp_pos = [1, 2, 3 :: int], rp_color = color_origin example_frame_artist\<rparr>]
                (layer example_frame_artist) False False 0 = (guids1, doc1)"
      and l: "rh_draw_lines model_rhino_host
                [\<lparr>rl_start = [1, 2, 3 :: int], rl_end = [1 + 1 * 2, 2 + 0 * 2, 3 + 0 * 2],
                  rl_color = color_xaxis example_frame_artist, rl_arrow = ''end''\<rparr>,
                 \<lparr>rl_start = [1, 2, 3 :: int], rl_end = [1 + 0 * 2, 2 + 1 * 2, 3 + 0 * 2],
                  rl_color = color_yaxis example_frame_artist, rl_arrow = ''end''\<rparr>,
                 \<lparr>rl_start = [1, 2, 3 :: int], rl_end = [1 + 0 * 2, 2 + 0 * 2, 3 + 1 * 2],
                  rl_color = color_zaxis example_frame_artist, rl_arrow = ''end''\<rparr>]
                (layer example_frame_artist) False False doc1 = (guids2, doc2)"
      and run: "FrameArtist_draw model_rhino_host example_frame_artist 0
                = (guids1 @ guids2, example_frame_artist\<lparr>guids := guids1 @ guids2\<rparr>, doc2)"
    by blast
  from p have g1: "guids1 = [0]" "doc1 = 1"
    by (simp_all add: model_rhino_host_def)
  from l g1 have g2: "guids2 = [1, 2, 3]" "doc2 = 4"
    by (auto simp add: model_rhino_host_def eval_nat_numeral)
  from run g1 g2
  have "FrameArtist_draw model_rhino_host example_frame_artist 0
     = ([0, 1, 2, 3], example_frame_artist\<lparr>guids := [0, 1, 2, 3]\<rparr>, 4)"
    by simp
  with fr pts lns show ?thesis
    by simp
qed

subsection \<open>Drawing a network\<close>



subsection \<open>The settings after a draw\<close>

text \<open>
  Claim C9. The settings dictionary \<open>s\<close> passed to \<open>draw\<close> is merged into the artist's own
  settings for good. After \<open>draw(settings=s)\<close> has returned, \<open>settings[k]\<close> is \<open>s[k]\<close> for
  every key \<open>k\<close> of \<open>s\<close>, every other key has the value it had, and the network is the
  same. The value of a key stays as it is through every later sequence of calls of
  \<open>draw\<close>, \<open>draw_nodes\<close>, \<open>draw_edges\<close> and \<open>clear\<close> in which no \<open>draw\<close> passes that key
  again.
\<close>

theorem draw_settings_persist:
  assumes "draw h (Some s) a sc = Inr (a1, sc1)"
  shows "(\<forall>k\<in>dom s. settings a1 k = s k) \<and>
         (\<forall>k. k \<notin> dom s \<longrightarrow> settings a1 k = settings a k) \<and>
         network a1 = network a \<and>
         (\<forall>ops a2 sc2 k.
            run_ops h ops a1 sc1 = Inr (a2, sc2) \<and> (\<forall>op\<in>set ops. \<not> op_overrides k op)
            \<longrightarrow> settings a2 k = settings a1 k)"
proof -
  from draw_settings [OF assms]
  have merged: "settings a1 = settings a ++ s" and net: "network a1 = network a"
    by (simp_all add: dict_or_empty_def)
  have "\<forall>k\<in>dom s. settings a1 k = s k"
    using merged by (auto simp: map_add_def)
  moreover have "\<forall>k. k \<notin> dom s \<longrightarrow> settings a1 k = settings a k"
    using merged by (auto simp: map_add_def domIff)
  moreover have "\<forall>ops a2 sc2 k.
      run_ops h ops a1 sc1 = Inr (a2, sc2) \<and> (\<forall>op\<in>set ops. \<not> op_overrides k op)
      \<longrightarrow> settings a2 k = settings a1 k"
    using run_ops_settings by blast
  ultimately show ?thesis
    using net by blast
qed

theorem draw_settings_persist_witness:
  "draw model_host (Some example_override) example_artist empty_scene
     = Inr (example_drawn_artist, example_drawn_scene) \<and>
   settings example_drawn_artist ''show.edges'' = Some (PBool False) \<and>
   settings example_drawn_artist ''show.nodes'' = settings example_artist ''show.nodes'' \<and>
   network example_drawn_artist = network example_artist \<and>
   run_ops model_host [OpDraw None, OpClear] example_drawn_artist example_drawn_scene
     = Inr (example_drawn_artist\<lparr>priv_object_node := []\<rparr>,
            \<lparr>objects = [], meshes = [], curves = [], collections = [''Network'', ''Nodes'']\<rparr>) \<and>
   op_overrides ''show.edges'' (OpDraw None :: string net_op) = False \<and>
   op_overrides ''show.edges'' (OpClear :: string net_op) = False \<and>
   settings (example_drawn_artist\<lparr>priv_object_node := []\<rparr>) ''show.edges'' = Some (PBool False)"
proof -
  note inst = draw_settings_persist [OF example_draw]
  have k: "''show.edges'' \<in> dom example_override" "''show.nodes'' \<notin> dom example_override"
    by (simp_all add: example_override_def)
  have run: "run_ops model_host [OpDraw None, OpClear] example_drawn_artist example_drawn_scene
     = Inr (example_drawn_artist\<lparr>priv_object_node := []\<rparr>,
            \<lparr>objects = [], meshes = [], curves = [], collections = [''Network'', ''Nodes'']\<rparr>)"
    by (simp add: example_redraw example_clear_drawn)
  have no: "\<forall>op\<in>set [OpDraw None, OpClear :: string net_op]. \<not> op_overrides ''show.edges'' op"
    by (simp add: dict_or_empty_def)
  from inst k have "settings example_drawn_artist ''show.edges'' = example_override ''show.edges''"
    by blast
  then have v: "settings example_drawn_artist ''show.edges'' = Some (PBool False)"
    by (simp add: example_override_def)
  from inst k
  have o: "settings example_drawn_artist ''show.nodes'' = settings example_artist ''show.nodes''"
    by blast
  from inst have n: "network example_drawn_artist = network example_artist"
    by blast
  from inst run no
  have "settings (example_drawn_artist\<lparr>priv_object_node := []\<rparr>) ''show.edges''
          = settings example_drawn_artist ''show.edges''"
    by blast
  with v have later: "settings (example_drawn_artist\<lparr>priv_object_node := []\<rparr>) ''show.edges''
          = Some (PBool False)"
    by simp
  have no': "op_overrides ''show.edges'' (OpDraw None :: string net_op) = False"
    "op_overrides ''show.edges'' (OpClear :: string net_op) = False"
    by (simp_all add: dict_or_empty_def)
  from example_draw v o n run no' later show ?thesis
    by blast
qed

subsection \<open>Clearing\<close>




subsection \<open>Drawing a mesh\<close>

text \<open>
  Claim C8. When \<open>settings['show.vertices']\<close> is true, as it is after \<open>__init__\<close>,
  \<open>MeshArtist.draw()\<close> fails with an \<open>AttributeError\<close>: it calls \<open>self.draw_nodes()\<close>, and
  the class has \<open>draw_vertices\<close> and \<open>draw_vertexlabels\<close> only. Whenever \<open>draw()\<close> returns,
  it returns a list of six elements and \<open>settings['show.vertices']\<close> is false.
\<close>

theorem MeshArtist_draw_attribute_error:
  "(\<forall>sv. ma_settings a ''show.vertices'' = Some sv \<and> truthy sv \<longrightarrow>
      MeshArtist_draw h a = Inl AttributeError) \<and>
   MeshArtist_draw h (MeshArtist_init m) = Inl AttributeError \<and>
   (\<forall>g. MeshArtist_draw h a = Inr g \<longrightarrow>
      length g = 6 \<and> (\<exists>sv. ma_settings a ''show.vertices'' = Some sv \<and> \<not> truthy sv))"
proof -
  have fails: "MeshArtist_draw h a = Inl AttributeError"
    if "ma_settings a ''show.vertices'' = Some sv \<and> truthy sv" for sv
    using that by (simp add: MeshArtist_draw_def draw_vertices_branch_truthy)
  have "ma_settings (MeshArtist_init m) ''show.vertices'' = Some (PBool True)"
    by (simp add: MeshArtist_init_def)
  then have initial: "MeshArtist_draw h (MeshArtist_init m) = Inl AttributeError"
    by (simp add: MeshArtist_draw_def draw_vertices_branch_truthy)
  have returns: "length g = 6 \<and> (\<exists>sv. ma_settings a ''show.vertices'' = Some sv \<and> \<not> truthy sv)"
    if run: "MeshArtist_draw h a = Inr g" for g
  proof -
    from run obtain g1 g3
      where v: "draw_vertices_branch a [None, None, None, None, None, None] = Inr g1"
        and f: "draw_faces_branch h a g1 = Inr g3"
        and e: "draw_edges_branch h a g3 = Inr g"
      unfolding MeshArtist_draw_def Let_def bind_err_eq_Inr by blast
    from v have g1: "g1 = [None, None, None, None, None, None]"
      and sv: "\<exists>sv. ma_settings a ''show.vertices'' = Some sv \<and> \<not> truthy sv"
      unfolding draw_vertices_branch_Inr by blast+
    from g1 draw_faces_branch_length [OF f] draw_edges_branch_length [OF e]
    have "length g = 6" by simp
    with sv show ?thesis by simp
  qed
  from fails initial returns show ?thesis
    by blast
qed

theorem MeshArtist_draw_attribute_error_witness:
  "ma_settings example_mesh_artist ''show.vertices'' = Some (PBool True) \<and>
   truthy (PBool True) \<and>
   MeshArtist_draw model_gh_host example_mesh_artist = Inl AttributeError \<and>
   MeshArtist_draw model_gh_host hidden_vertices_artist
     = Inr [None, None, Some [''Mesh.face.f''], None,
            Some [''Mesh.edge.a-b'', ''Mesh.edge.b-c'', ''Mesh.edge.c-a''], None] \<and>
   length [None, None, Some [''Mesh.face.f''], None,
           Some [''Mesh.edge.a-b'', ''Mesh.edge.b-c'', ''Mesh.edge.c-a''], None] = 6 \<and>
   ma_settings hidden_vertices_artist ''show.vertices'' = Some (PBool False)"
proof -
  note inst1 = MeshArtist_draw_attribute_error
    [of example_mesh_artist "model_gh_host :: (int vec3, string) gh_host" example_mesh]
  note inst2 = MeshArtist_draw_attribute_error
    [of hidden_vertices_artist "model_gh_host :: (int vec3, string) gh_host" example_mesh]
  have sv: "ma_settings example_mesh_artist ''show.vertices'' = Some (PBool True)"
    by (simp add: mesh_example_defs)
  have hv: "ma_settings hidden_vertices_artist ''show.vertices'' = Some (PBool False)"
    by (simp add: mesh_example_defs)
  from inst1 sv have "MeshArtist_draw model_gh_host example_mesh_artist = Inl AttributeError"
    by simp
  moreover from inst2 hidden_vertices_draw
  have "length [None, None, Some [''Mesh.face.f''], None,
           Some [''Mesh.edge.a-b'', ''Mesh.edge.b-c'', ''Mesh.edge.c-a''], None] = 6"
    by blast
  ultimately show ?thesis
    using sv hv hidden_vertices_draw by simp
qed

subsection \<open>The errors of the label methods\<close>

text \<open>
  Claim C5, amended. Each of \<open>MeshArtist.draw_vertexlabels\<close>, \<open>draw_facelabels\<close> and
  \<open>draw_edgelabels\<close> raises \<open>NotImplementedError\<close> if and only if its \<open>text\<close> argument is
  neither \<open>None\<close> nor a dictionary. When \<open>text\<close> is \<open>None\<close> and the default colour is set,
  every vertex, face or edge is labelled with its key, at its position.
  \<open>FrameArtist.draw_collection\<close> raises \<open>NotImplementedError\<close> on every call, and
  \<open>get_object_by_name\<close> raises the host's lookup error for a name that no object has.
  The counterexample to the claim as it was stated is the call of \<open>draw_collection\<close>:
  a \<open>NotImplementedError\<close> with no label input.
\<close>

theorem label_text_not_implemented:
  "(draw_vertexlabels h tv cv a = Inl NotImplementedError \<longleftrightarrow> (\<exists>v. tv = TextOther v)) \<and>
   (draw_facelabels h tf cf a = Inl NotImplementedError \<longleftrightarrow> (\<exists>v. tf = TextOther v)) \<and>
   (draw_edgelabels h te ce a = Inl NotImplementedError \<longleftrightarrow> (\<exists>v. te = TextOther v)) \<and>
   (\<forall>dflt. ma_settings a ''color.vertices'' = Some dflt \<and> distinct (vertices (ma_mesh a)) \<longrightarrow>
      (\<exists>labels. draw_vertexlabels h TextNone cv a = Inr (gh_draw_labels h labels) \<and>
         map lb_text labels = map (vertex_str (ma_mesh a)) (vertices (ma_mesh a)) \<and>
         map lb_pos labels = map (vertex_coordinates (ma_mesh a)) (vertices (ma_mesh a)))) \<and>
   (\<forall>dflt. ma_settings a ''color.faces'' = Some dflt \<and> distinct (faces (ma_mesh a)) \<longrightarrow>
      (\<exists>labels. draw_facelabels h TextNone cf a = Inr (gh_draw_labels h labels) \<and>
         map lb_text labels = map (face_str (ma_mesh a)) (faces (ma_mesh a)) \<and>
         map lb_pos labels = map (face_center (ma_mesh a)) (faces (ma_mesh a)))) \<and>
   (\<forall>dflt. ma_settings a ''color.edges'' = Some dflt \<and> distinct (mesh_edges (ma_mesh a)) \<longrightarrow>
      (\<exists>labels. draw_edgelabels h TextNone ce a = Inr (gh_draw_labels h labels) \<and>
         map lb_text labels
           = map (\<lambda>(u, v). vertex_str (ma_mesh a) u @ ''-'' @ vertex_str (ma_mesh a) v)
               (mesh_edges (ma_mesh a)) \<and>
         map lb_pos labels
           = map (\<lambda>(u, v). edge_midpoint (ma_mesh a) u v) (mesh_edges (ma_mesh a)))) \<and>
   draw_collection frames names colors lay clr add_to_group group_name
     = Inl NotImplementedError \<and>
   (name \<notin> ob_name ` set (objects sc) \<longrightarrow> get_object_by_name name sc = Inl KeyError)"
proof -
  have v: "\<exists>labels. draw_vertexlabels h TextNone cv a = Inr (gh_draw_labels h labels) \<and>
         map lb_text labels = map (vertex_str (ma_mesh a)) (vertices (ma_mesh a)) \<and>
         map lb_pos labels = map (vertex_coordinates (ma_mesh a)) (vertices (ma_mesh a))"
    if "ma_settings a ''color.vertices'' = Some dflt \<and> distinct (vertices (ma_mesh a))" for dflt
  proof -
    define mk where "mk = (\<lambda>key.
        \<lparr>lb_pos = vertex_coordinates (ma_mesh a) key,
         lb_name = mesh_name (ma_mesh a) @ ''.vertexlabel.'' @ vertex_str (ma_mesh a) key,
         lb_color = (case cv of
                       ColorNone \<Rightarrow> dflt
                     | ColorOne c \<Rightarrow> c
                     | ColorDict m \<Rightarrow> (case m key of None \<Rightarrow> dflt | Some c \<Rightarrow> c)),
         lb_text = vertex_str (ma_mesh a) key\<rparr>)"
    have run: "draw_vertexlabels h TextNone cv a = Inr (gh_draw_labels h (map mk (vertices (ma_mesh a))))"
      using that by (simp add: draw_vertexlabels_none py_dict_of_keys comp_def mk_def)
    have "map lb_text (map mk (vertices (ma_mesh a))) = map (vertex_str (ma_mesh a)) (vertices (ma_mesh a))"
      "map lb_pos (map mk (vertices (ma_mesh a))) = map (vertex_coordinates (ma_mesh a)) (vertices (ma_mesh a))"
      by (simp_all add: mk_def comp_def)
    with run show ?thesis by blast
  qed
  have f: "\<exists>labels. draw_facelabels h TextNone cf a = Inr (gh_draw_labels h labels) \<and>
         map lb_text labels = map (face_str (ma_mesh a)) (faces (ma_mesh a)) \<and>
         map lb_pos labels = map (face_center (ma_mesh a)) (faces (ma_mesh a))"
    if "ma_settings a ''color.faces'' = Some dflt \<and> distinct (faces (ma_mesh a))" for dflt
  proof -
    define mk where "mk = (\<lambda>key.
        \<lparr>lb_pos = face_center (ma_mesh a) key,
         lb_name = mesh_name (ma_mesh a) @ ''.facelabel.'' @ face_str (ma_mesh a) key,
         lb_color = (case cf of
                       ColorNone \<Rightarrow> dflt
                     | ColorOne c \<Rightarrow> c
                     | ColorDict m \<Rightarrow> (case m key of None \<Rightarrow> dflt | Some c \<Rightarrow> c)),
         lb_text = face_str (ma_mesh a) key\<rparr>)"
    have run: "draw_facelabels h TextNone cf a = Inr (gh_draw_labels h (map mk (faces (ma_mesh a))))"
      using that by (simp add: draw_facelabels_none py_dict_of_keys comp_def mk_def)
    have "map lb_text (map mk (faces (ma_mesh a))) = map (face_str (ma_mesh a)) (faces (ma_mesh a))"
      "map lb_pos (map mk (faces (ma_mesh a))) = map (face_center (ma_mesh a)) (faces (ma_mesh a))"
      by (simp_all add: mk_def comp_def)
    with run show ?thesis by blast
  qed
  have e: "\<exists>labels. draw_edgelabels h TextNone ce a = Inr (gh_draw_labels h labels) \<and>
         map lb_text labels
           = map (\<lambda>(u, v). vertex_str (ma_mesh a) u @ ''-'' @ vertex_str (ma_mesh a) v)
               (mesh_edges (ma_mesh a)) \<and>
         map lb_pos labels
           = map (\<lambda>(u, v). edge_midpoint (ma_mesh a) u v) (mesh_edges (ma_mesh a))"
    if "ma_settings a ''color.edges'' = Some dflt \<and> distinct (mesh_edges (ma_mesh a))" for dflt
  proof -
    define pair where "pair = (\<lambda>(u, v).
        ((u, v), vertex_str (ma_mesh a) u @ ''-'' @ vertex_str (ma_mesh a) v))"
    define lab where "lab = (\<lambda>((u, v), t).
        \<lparr>lb_pos = edge_midpoint (ma_mesh a) u v,
         lb_name = mesh_name (ma_mesh a) @ ''.edgelabel.''
                     @ vertex_str (ma_mesh a) u @ ''-'' @ vertex_str (ma_mesh a) v,
         lb_color = (case ce of
                       ColorNone \<Rightarrow> dflt
                     | ColorOne c \<Rightarrow> c
                     | ColorDict m \<Rightarrow> (case m (u, v) of None \<Rightarrow> dflt | Some c \<Rightarrow> c)),
         lb_text = t\<rparr>)"
    have pd: "py_dict (map pair (mesh_edges (ma_mesh a))) = map pair (mesh_edges (ma_mesh a))"
      using that by (intro py_dict_distinct) (simp add: comp_def case_prod_beta pair_def)
    have "draw_edgelabels h TextNone ce a
        = Inr (gh_draw_labels h (map lab (py_dict (map pair (mesh_edges (ma_mesh a))))))"
      using that by (simp add: draw_edgelabels_none pair_def lab_def)
    then have run: "draw_edgelabels h TextNone ce a
        = Inr (gh_draw_labels h (map lab (map pair (mesh_edges (ma_mesh a)))))"
      unfolding pd .
    have "map lb_text (map lab (map pair (mesh_edges (ma_mesh a))))
            = map (\<lambda>(u, v). vertex_str (ma_mesh a) u @ ''-'' @ vertex_str (ma_mesh a) v)
                (mesh_edges (ma_mesh a))"
      "map lb_pos (map lab (map pair (mesh_edges (ma_mesh a))))
            = map (\<lambda>(u, v). edge_midpoint (ma_mesh a) u v) (mesh_edges (ma_mesh a))"
      by (simp_all add: lab_def pair_def comp_def case_prod_beta)
    with run show ?thesis by blast
  qed
  have c: "draw_collection frames names colors lay clr add_to_group group_name
     = Inl NotImplementedError"
    by (simp add: draw_collection_def)
  have k: "get_object_by_name name sc = Inl KeyError" if "name \<notin> ob_name ` set (objects sc)"
    using that find_name_None [of name "objects sc"] by (simp add: get_object_by_name_def)
  from v f e c k show ?thesis
    using draw_vertexlabels_not_implemented [of h tv cv a]
      draw_facelabels_not_implemented [of h tf cf a]
      draw_edgelabels_not_implemented [of h te ce a]
    by blast
qed

theorem label_text_not_implemented_counterexample:
  "draw_collection [example_frame] None PNone None False False None
     = (Inl NotImplementedError :: py_error + nat list)"
  by (simp add: draw_collection_def)

theorem label_text_not_implemented_witness:
  "draw_vertexlabels model_gh_host (TextOther (PStr ''labels'')) ColorNone example_mesh_artist
     = Inl NotImplementedError \<and>
   ma_settings example_mesh_artist ''color.vertices'' = Some (PTuple [PInt 255, PInt 255, PInt 255]) \<and>
   distinct (vertices (ma_mesh example_mesh_artist)) \<and>
   draw_vertexlabels model_gh_host TextNone ColorNone example_mesh_artist
     = Inr [''a'', ''b'', ''c''] \<and>
   ma_settings example_mesh_artist ''color.faces'' = Some (PTuple [PInt 210, PInt 210, PInt 210]) \<and>
   distinct (faces (ma_mesh example_mesh_artist)) \<and>
   draw_facelabels model_gh_host TextNone ColorNone example_mesh_artist = Inr [''f''] \<and>
   ma_settings example_mesh_artist ''color.edges'' = Some (PTuple [PInt 0, PInt 0, PInt 0]) \<and>
   distinct (mesh_edges (ma_mesh example_mesh_artist)) \<and>
   draw_edgelabels model_gh_host TextNone ColorNone example_mesh_artist
     = Inr [''a-b'', ''b-c'', ''c-a''] \<and>
   ''Lamp'' \<notin> ob_name ` set (objects cube_scene) \<and>
   get_object_by_name ''Lamp'' cube_scene = Inl KeyError"
proof -
  note inst = label_text_not_implemented
    [where h = "model_gh_host :: (int vec3, string) gh_host" and a = example_mesh_artist
       and tv = "TextOther (PStr ''labels'')" and cv = ColorNone and cf = ColorNone
       and ce = ColorNone and name = "''Lamp''" and sc = cube_scene
       and tf = TextNone and te = TextNone]
  note c1 = inst [THEN conjunct1]
  note c4 = inst [THEN conjunct2, THEN conjunct2, THEN conjunct2, THEN conjunct1, rule_format]
  note c5 = inst [THEN conjunct2, THEN conjunct2, THEN conjunct2, THEN conjunct2,
      THEN conjunct1, rule_format]
  note c6 = inst [THEN conjunct2, THEN conjunct2, THEN conjunct2, THEN conjunct2,
      THEN conjunct2, THEN conjunct1, rule_format]
  note c8 = inst [THEN conjunct2, THEN conjunct2, THEN conjunct2, THEN conjunct2,
      THEN conjunct2, THEN conjunct2, THEN conjunct2, rule_format]
  have sv: "ma_settings example_mesh_artist ''color.vertices''
              = Some (PTuple [PInt 255, PInt 255, PInt 255])"
    and sf: "ma_settings example_mesh_artist ''color.faces''
              = Some (PTuple [PInt 210, PInt 210, PInt 210])"
    and se: "ma_settings example_mesh_artist ''color.edges'' = Some (PTuple [PInt 0, PInt 0, PInt 0])"
    by (simp_all add: mesh_example_defs)
  have dv: "distinct (vertices (ma_mesh example_mesh_artist))"
    and df: "distinct (faces (ma_mesh example_mesh_artist))"
    and de: "distinct (mesh_edges (ma_mesh example_mesh_artist))"
    by (simp_all add: mesh_example_defs)
  have absent: "''Lamp'' \<notin> ob_name ` set (objects cube_scene)"
    by (simp add: cube_scene_def)
  have draws: "gh_draw_labels (model_gh_host :: (int vec3, string) gh_host) labels
                 = map lb_text labels" for labels
    by (simp add: model_gh_host_def)
  from c1 have other: "draw_vertexlabels model_gh_host (TextOther (PStr ''labels'')) ColorNone
      example_mesh_artist = Inl NotImplementedError"
    by simp
  from c4 [OF conjI, OF sv dv] obtain lv
    where "draw_vertexlabels model_gh_host TextNone ColorNone example_mesh_artist
             = Inr (gh_draw_labels (model_gh_host :: (int vec3, string) gh_host) lv)"
      and "map lb_text lv
             = map (vertex_str (ma_mesh example_mesh_artist)) (vertices (ma_mesh example_mesh_artist))"
    by blast
  then have v: "draw_vertexlabels model_gh_host TextNone ColorNone example_mesh_artist
             = Inr [''a'', ''b'', ''c'']"
    by (simp add: draws mesh_example_defs)
  from c5 [OF conjI, OF sf df] obtain lf
    where "draw_facelabels model_gh_host TextNone ColorNone example_mesh_artist
             = Inr (gh_draw_labels (model_gh_host :: (int vec3, string) gh_host) lf)"
      and "map lb_text lf
             = map (face_str (ma_mesh example_mesh_artist)) (faces (ma_mesh example_mesh_artist))"
    by blast
  then have f: "draw_facelabels model_gh_host TextNone ColorNone example_mesh_artist = Inr [''f'']"
    by (simp add: draws mesh_example_defs)
  from c6 [OF conjI, OF se de] obtain le
    where "draw_edgelabels model_gh_host TextNone ColorNone example_mesh_artist
             = Inr (gh_draw_labels (model_gh_host :: (int vec3, string) gh_host) le)"
      and "map lb_text le
             = map (\<lambda>(u, v). vertex_str (ma_mesh example_mesh_artist) u @ ''-''
                                 @ vertex_str (ma_mesh example_mesh_artist) v)
                 (mesh_edges (ma_mesh example_mesh_artist))"
    by blast
  then have e: "draw_edgelabels model_gh_host TextNone ColorNone example_mesh_artist
             = Inr [''a-b'', ''b-c'', ''c-a'']"
    by (simp add: draws mesh_example_defs)
  from c8 [OF absent] have k: "get_object_by_name ''Lamp'' cube_scene = Inl KeyError" .
  from other sv dv v sf df f se de e absent k show ?thesis
    by blast
qed

subsection \<open>The tracking invariant\<close>

text \<open>
  Claim C2, amended. With host functions that remove no scene object, return handles of
  objects that they have just made, and give every object that they make a data block
  that no other object of the scene uses (\<open>host_ok\<close>), every sequence of calls of \<open>draw\<close>,
  \<open>draw_nodes\<close>, \<open>draw_edges\<close> and \<open>clear\<close> on a new artist returns normally, and afterwards
  every key of \<open>object_node\<close>, \<open>object_edge\<close> and \<open>object_path\<close> (the \<open>tracked_objects\<close>) is
  an object of the scene. Only \<open>draw\<close> clears before it draws: \<open>draw_nodes\<close> and
  \<open>draw_edges\<close> keep every object of the scene and replace their own dictionary, so what
  an earlier call drew stays in the scene and is tracked no more, as the two calls of
  \<open>draw_nodes\<close> of the counterexample show. The data blocks matter: with a host that
  draws the points as linked duplicates, \<open>clear()\<close> after \<open>draw_nodes()\<close> raises
  \<open>ReferenceError\<close>, because deleting the first object takes the data block and with it
  the second object, whose handle is stale when \<open>delete_object\<close> reads its type.
\<close>

theorem tracked_objects_in_scene:
  fixes h :: "'p blender_host" and net :: "('n, 'p) network"
  assumes "host_ok h"
  shows "(\<exists>a' sc'. run_ops h ops (NetworkArtist_init net s) sc = Inr (a', sc') \<and>
            set (tracked_objects a') \<subseteq> set (objects sc')) \<and>
         (\<forall>ns c (a0 :: ('n, 'p) NetworkArtist) sc0 objs a1 sc1.
            draw_nodes h ns c a0 sc0 = Inr (objs, a1, sc1)
            \<longrightarrow> set (objects sc0) \<subseteq> set (objects sc1)) \<and>
         (\<forall>es c (a0 :: ('n, 'p) NetworkArtist) sc0 objs a1 sc1.
            draw_edges h es c a0 sc0 = Inr (objs, a1, sc1)
            \<longrightarrow> set (objects sc0) \<subseteq> set (objects sc1))"
proof -
  from run_ops_ok [OF assms init_ok, of ops net s sc] obtain a' sc'
    where "run_ops h ops (NetworkArtist_init net s) sc = Inr (a', sc')" and "artist_ok a' sc'"
    by blast
  then have "\<exists>a' sc'. run_ops h ops (NetworkArtist_init net s) sc = Inr (a', sc') \<and>
            set (tracked_objects a') \<subseteq> set (objects sc')"
    unfolding artist_ok_def by blast
  then show ?thesis
    using draw_nodes_keeps [OF assms] draw_edges_keeps [OF assms] by blast
qed

theorem tracked_objects_in_scene_counterexample:
  "run_ops model_host [OpDrawNodes None ColorNone, OpDrawNodes None ColorNone]
     example_artist empty_scene = Inr (example_twice_artist, example_twice_scene) \<and>
   node_a \<in> set (objects example_twice_scene) \<and>
   node_a \<notin> set (tracked_objects example_twice_artist) \<and>
   run_ops linking_host [OpDrawNodes None ColorNone, OpClear] example_artist empty_scene
     = Inl ReferenceError"
proof (intro conjI)
  show "run_ops linking_host [OpDrawNodes None ColorNone, OpClear] example_artist empty_scene
     = Inl ReferenceError"
    by (rule example_linking)
  show "run_ops model_host [OpDrawNodes None ColorNone, OpDrawNodes None ColorNone]
     example_artist empty_scene = Inr (example_twice_artist, example_twice_scene)"
    by (rule example_twice)
  show "node_a \<in> set (objects example_twice_scene)"
    by (simp add: example_twice_scene_def)
  show "node_a \<notin> set (tracked_objects example_twice_artist)"
    by (simp add: example_twice_artist_def tracked_objects_def node_a_def node_a2_def
        node_b2_def example_artist_def NetworkArtist_init_def)
qed

theorem tracked_objects_in_scene_witness:
  "(\<exists>a' sc'.
      run_ops model_host
        [OpDrawNodes None ColorNone, OpDrawEdges None ColorNone, OpDraw (Some example_override),
         OpDrawNodes (Some [''b'']) (ColorOne (PStr ''red'')), OpClear, OpDraw None]
        (NetworkArtist_init example_network None) empty_scene = Inr (a', sc') \<and>
      set (tracked_objects a') \<subseteq> set (objects sc')) \<and>
   draw_nodes model_host None ColorNone example_artist empty_scene
     = Inr ([node_a, node_b],
            example_artist\<lparr>priv_nodecollection := Some ''Nodes'',
                            priv_object_node := [(node_a, ''a''), (node_b, ''b'')]\<rparr>,
            example_drawn_scene) \<and>
   set (objects empty_scene) \<subseteq> set (objects example_drawn_scene)"
proof -
  note inst = tracked_objects_in_scene [OF model_host_ok, where net = example_network
      and s = None and sc = empty_scene]
  have dn: "draw_nodes model_host None ColorNone example_artist empty_scene
     = Inr ([node_a, node_b],
            example_artist\<lparr>priv_nodecollection := Some ''Nodes'',
                            priv_object_node := [(node_a, ''a''), (node_b, ''b'')]\<rparr>,
            example_drawn_scene)"
    by (simp add: artist_defs model_host_defs example_defs)
  from inst [THEN conjunct2, THEN conjunct1, rule_format, OF dn]
  have "set (objects empty_scene) \<subseteq> set (objects example_drawn_scene)" .
  with inst [THEN conjunct1] dn show ?thesis
    by blast
qed

end
